theory Spec2Isabelle
  imports Main
begin

section \<open>Tokens, sources and the lexer interface\<close>

text \<open>
  The token kinds of \<^verbatim>\<open>TokenKind\<close> (lexer.js), as the parser names them;
  \<^verbatim>\<open>TokenKind.INT\<close> is \<open>INT'\<close>, the plain name being taken by the syntax of HOL.
\<close>

datatype tokenKind =
    SOF | EOF | BANG | DOLLAR | PAREN_L | PAREN_R | SPREAD | COLON | EQUALS | AT
  | BRACKET_L | BRACKET_R | BRACE_L | PIPE | BRACE_R
  | NAME | INT' | FLOAT | STRING | BLOCK_STRING | COMMENT

text \<open>
  A token as the parser reads it: \<^verbatim>\<open>kind\<close>, \<^verbatim>\<open>start\<close>, \<^verbatim>\<open>end\<close> and the optional
  \<^verbatim>\<open>value\<close> (\<open>None\<close> is JavaScript's \<^verbatim>\<open>undefined\<close>); \<^verbatim>\<open>end\<close> and \<^verbatim>\<open>value\<close> are
  \<open>end'\<close> and \<open>value'\<close>, the plain names being keywords. The fields \<^verbatim>\<open>line\<close>,
  \<^verbatim>\<open>column\<close>, \<^verbatim>\<open>prev\<close> and \<^verbatim>\<open>next\<close> are never read by parser.js and are left out.
\<close>

datatype token =
  Token (kind: tokenKind) (start: nat) (end': nat) (value': "string option")

datatype source = Source (body: string) (sourceName: string)

text \<open>
  What a caller may hand to an entry point: a string, a \<^verbatim>\<open>Source\<close> instance, or any
  other JavaScript value (kept as the text \<^verbatim>\<open>String(v)\<close> gives for it).
\<close>

datatype jsSource = JSString string | SourceInstance source | OtherValue string

record parseOptions =
  noLocation :: "bool option"

text \<open>
  The description of a syntax error. The source builds the text from a template and
  \<^verbatim>\<open>getTokenDesc\<close>; the model keeps the template and its arguments.
  \<open>Lexical\<close> is an error raised by the lexer itself while it reads the next token.
\<close>

datatype message =
    Expected tokenKind token
  | ExpectedKeyword string token
  | Unexpected token
  | Lexical string

text \<open>
  \<open>SyntaxError source offset message\<close> is \<^verbatim>\<open>syntaxError(source, offset, message)\<close>;
  \<open>TypeError\<close> is the usage error of \<^verbatim>\<open>parse\<close>. \<open>OutOfFuel\<close> is not an error of the
  program: it is the value of a recursion of the model that was given too little fuel
  (see \<open>fuel\<close> below).
\<close>

datatype error =
    SyntaxError jsSource nat message
  | TypeError string
  | OutOfFuel

text \<open>
  How the token stream of a source ends: with the \<^verbatim>\<open>EOF\<close> token at the given offset,
  or with a syntax error of the lexer at the given offset.
\<close>

datatype streamEnd = EndOfFile nat | LexFailure nat string

text \<open>
  Modelled from the spec: the lexer (\<^verbatim>\<open>createLexer\<close>, \<^verbatim>\<open>advance\<close>, \<^verbatim>\<open>lookahead\<close> of
  lexer.js, which is not among the sources). The spec (6.2) gives its interface:
  \<^verbatim>\<open>token\<close> is the current token, initially the synthetic \<^verbatim>\<open>SOF\<close>; \<^verbatim>\<open>lastToken\<close> the
  most recently consumed one; \<^verbatim>\<open>advance()\<close> consumes the current token and moves to the
  next; \<^verbatim>\<open>lookahead()\<close> returns the token one step past \<^verbatim>\<open>token\<close> without advancing.
  The tokens that \<^verbatim>\<open>advance\<close> is still to deliver are \<open>pending\<close> (comments already
  skipped), followed by \<open>ending\<close>. The tokenisation itself is a parameter of the entry
  points.
\<close>

record lexer =
  source :: jsSource
  options :: parseOptions
  lastToken :: token
  token :: token
  pending :: "token list"
  ending :: streamEnd

type_synonym tokenizer = "jsSource \<Rightarrow> token list \<times> streamEnd"

definition createLexer :: "tokenizer \<Rightarrow> jsSource \<Rightarrow> parseOptions \<Rightarrow> lexer" where
  "createLexer tokenize src opts =
     \<lparr> source = src, options = opts,
       lastToken = Token SOF 0 0 None, token = Token SOF 0 0 None,
       pending = fst (tokenize src), ending = snd (tokenize src) \<rparr>"

section \<open>Productions as state-passing functions\<close>

text \<open>
  A production takes the lexer and either throws or returns a node and the lexer it
  left behind.
\<close>

type_synonym 'a parser = "lexer \<Rightarrow> error + ('a \<times> lexer)"

definition ret :: "'a \<Rightarrow> 'a parser" where
  "ret a lexer = Inr (a, lexer)"

definition throw :: "(lexer \<Rightarrow> error) \<Rightarrow> 'a parser" where
  "throw mk lexer = Inl (mk lexer)"

definition bnd :: "'a parser \<Rightarrow> ('a \<Rightarrow> 'b parser) \<Rightarrow> 'b parser" where
  "bnd m f lexer = (case m lexer of Inl e \<Rightarrow> Inl e | Inr (a, lexer') \<Rightarrow> f a lexer')"

definition currentToken :: "token parser" where
  "currentToken lexer = Inr (token lexer, lexer)"

definition lookahead :: "token parser" where
  "lookahead lexer =
     (case pending lexer of
        t # _ \<Rightarrow> Inr (t, lexer)
      | [] \<Rightarrow> (case ending lexer of
                 EndOfFile n \<Rightarrow> Inr (Token EOF n n None, lexer)
               | LexFailure off msg \<Rightarrow> Inl (SyntaxError (source lexer) off (Lexical msg))))"

definition advance :: "token parser" where
  "advance lexer =
     (case lookahead lexer of
        Inl e \<Rightarrow> Inl e
      | Inr (t, _) \<Rightarrow>
          Inr (t, lexer\<lparr> lastToken := token lexer, token := t, pending := tl (pending lexer) \<rparr>))"

text \<open>
  The fuel given to a loop or to a recursive production that starts at this lexer state:
  every iteration and every level of nesting consumes a token, so the number of tokens
  left bounds both.
\<close>

definition fuel :: "lexer \<Rightarrow> nat" where
  "fuel lexer = length (pending lexer) + 2"

section \<open>The abstract syntax tree\<close>

text \<open>
  \<^verbatim>\<open>Loc\<close> and its \<^verbatim>\<open>toJSON\<close>. The fields \<^verbatim>\<open>start\<close>, \<^verbatim>\<open>end\<close> and \<^verbatim>\<open>source\<close> of a
  location are \<open>locStart\<close>, \<open>locEnd\<close> and \<open>locSource\<close> here, the names without prefix
  being those of the token and the lexer.
\<close>

datatype location =
  Location (locStart: nat) (locEnd: nat) (startToken: token) (endToken: token)
    (locSource: jsSource)

definition Loc :: "token \<Rightarrow> token \<Rightarrow> jsSource \<Rightarrow> location" where
  "Loc startTok endTok src = Location (start startTok) (end' endTok) startTok endTok src"

definition toJSON :: "location \<Rightarrow> (string \<times> nat) list" where
  "toJSON l = [(''start'', locStart l), (''end'', locEnd l)]"

text \<open>
  One datatype per Flow union of ast.js, one constructor per node kind. Where Flow
  narrows a field to one kind of the union (\<^verbatim>\<open>NamedTypeNode\<close>, \<^verbatim>\<open>VariableNode\<close>,
  \<^verbatim>\<open>StringValueNode\<close>) the model keeps the union: the objects are the same at run time.
  A string taken from a token is a \<open>string option\<close>, as \<^verbatim>\<open>token.value\<close> is.
\<close>

datatype nameNode = Name "string option" "location option"

datatype valueNode =
    Variable nameNode "location option"
  | IntValue "string option" "location option"
  | FloatValue "string option" "location option"
  | StringValue "string option" bool "location option"
  | BooleanValue bool "location option"
  | NullValue "location option"
  | EnumValue "string option" "location option"
  | ListValue "valueNode list" "location option"
  | ObjectValue "objectFieldNode list" "location option"
and objectFieldNode =
    ObjectField nameNode valueNode "location option"

datatype typeNode =
    NamedType nameNode "location option"
  | ListType typeNode "location option"
  | NonNullType typeNode "location option"

datatype argumentNode = Argument nameNode valueNode "location option"

datatype directiveNode = Directive nameNode "argumentNode list" "location option"

datatype variableDefinitionNode =
  VariableDefinition valueNode typeNode "valueNode option" "location option"

datatype selectionSetNode =
    SelectionSet "selectionNode list" "location option"
and selectionNode =
    Field "nameNode option" nameNode "argumentNode list" "directiveNode list"
      "selectionSetNode option" "location option"
  | FragmentSpread nameNode "directiveNode list" "location option"
  | InlineFragment "typeNode option" "directiveNode list" selectionSetNode "location option"

datatype operationTypeDefinitionNode =
  OperationTypeDefinition string typeNode "location option"

datatype inputValueDefinitionNode =
  InputValueDefinition "valueNode option" nameNode typeNode "valueNode option"
    "directiveNode list" "location option"

datatype fieldDefinitionNode =
  FieldDefinition "valueNode option" nameNode "inputValueDefinitionNode list" typeNode
    "directiveNode list" "location option"

datatype enumValueDefinitionNode =
  EnumValueDefinition "valueNode option" nameNode "directiveNode list" "location option"

datatype definitionNode =
    OperationDefinition string "nameNode option" "variableDefinitionNode list"
      "directiveNode list" selectionSetNode "location option"
  | FragmentDefinition nameNode typeNode "directiveNode list" selectionSetNode
      "location option"
  | SchemaDefinition "directiveNode list" "operationTypeDefinitionNode list"
      "location option"
  | ScalarTypeDefinition "valueNode option" nameNode "directiveNode list" "location option"
  | ObjectTypeDefinition "valueNode option" nameNode "typeNode list" "directiveNode list"
      "fieldDefinitionNode list" "location option"
  | InterfaceTypeDefinition "valueNode option" nameNode "directiveNode list"
      "fieldDefinitionNode list" "location option"
  | UnionTypeDefinition "valueNode option" nameNode "directiveNode list" "typeNode list"
      "location option"
  | EnumTypeDefinition "valueNode option" nameNode "directiveNode list"
      "enumValueDefinitionNode list" "location option"
  | InputObjectTypeDefinition "valueNode option" nameNode "directiveNode list"
      "inputValueDefinitionNode list" "location option"
  | ObjectTypeExtension nameNode "typeNode list" "directiveNode list"
      "fieldDefinitionNode list" "location option"
  | DirectiveDefinition "valueNode option" nameNode "inputValueDefinitionNode list"
      "nameNode list" "location option"

datatype documentNode = Document (definitions: "definitionNode list") "location option"

section \<open>Core parsing utility functions\<close>

text \<open>\<^verbatim>\<open>loc(lexer, startToken)\<close>: \<^verbatim>\<open>undefined\<close> when \<^verbatim>\<open>lexer.options.noLocation\<close> is truthy.\<close>

definition loc :: "token \<Rightarrow> location option parser" where
  "loc startTok lexer =
     (if noLocation (options lexer) = Some True then Inr (None, lexer)
      else Inr (Some (Loc startTok (lastToken lexer) (source lexer)), lexer))"

definition peek :: "tokenKind \<Rightarrow> bool parser" where
  "peek k lexer = Inr (kind (token lexer) = k, lexer)"

definition skip :: "tokenKind \<Rightarrow> bool parser" where
  "skip k lexer =
     (let match = (kind (token lexer) = k) in
      if match then bnd advance (\<lambda>_. ret match) lexer else ret match lexer)"

definition expect :: "tokenKind \<Rightarrow> token parser" where
  "expect k lexer =
     (let tok = token lexer in
      if kind tok = k then bnd advance (\<lambda>_. ret tok) lexer
      else Inl (SyntaxError (source lexer) (start tok) (Expected k tok)))"

definition expectKeyword :: "string \<Rightarrow> token parser" where
  "expectKeyword v lexer =
     (let tok = token lexer in
      if kind tok = NAME \<and> value' tok = Some v then bnd advance (\<lambda>_. ret tok) lexer
      else Inl (SyntaxError (source lexer) (start tok) (ExpectedKeyword v tok)))"

definition unexpected :: "token option \<Rightarrow> lexer \<Rightarrow> error" where
  "unexpected atToken lexer =
     (let tok = (case atToken of Some t \<Rightarrow> t | None \<Rightarrow> token lexer) in
      SyntaxError (source lexer) (start tok) (Unexpected tok))"

text \<open>
  The loop \<^verbatim>\<open>while (!skip(lexer, closeKind)) nodes.push(parseFn(lexer))\<close> shared by
  \<^verbatim>\<open>any\<close>, \<^verbatim>\<open>many\<close>, \<^verbatim>\<open>parseObject\<close> and \<^verbatim>\<open>parseDocument\<close>.
\<close>

fun untilSkip :: "nat \<Rightarrow> tokenKind \<Rightarrow> 'a parser \<Rightarrow> 'a list \<Rightarrow> 'a list parser" where
  "untilSkip 0 closeKind parseFn nodes = throw (\<lambda>_. OutOfFuel)"
| "untilSkip (Suc n) closeKind parseFn nodes =
     bnd (skip closeKind) (\<lambda>closed.
       if closed then ret nodes
       else bnd parseFn (\<lambda>node. untilSkip n closeKind parseFn (nodes @ [node])))"

definition any :: "tokenKind \<Rightarrow> 'a parser \<Rightarrow> tokenKind \<Rightarrow> 'a list parser" where
  "any openKind parseFn closeKind =
     bnd (expect openKind) (\<lambda>_.
     (\<lambda>lexer. untilSkip (fuel lexer) closeKind parseFn [] lexer))"

definition many :: "tokenKind \<Rightarrow> 'a parser \<Rightarrow> tokenKind \<Rightarrow> 'a list parser" where
  "many openKind parseFn closeKind =
     bnd (expect openKind) (\<lambda>_.
     bnd parseFn (\<lambda>first.
     (\<lambda>lexer. untilSkip (fuel lexer) closeKind parseFn [first] lexer)))"

section \<open>Names, values and type references\<close>

definition parseName :: "nameNode parser" where
  "parseName =
     bnd (expect NAME) (\<lambda>tok.
     bnd (loc tok) (\<lambda>l.
     ret (Name (value' tok) l)))"

definition parseVariable :: "valueNode parser" where
  "parseVariable =
     bnd currentToken (\<lambda>startTok.
     bnd (expect DOLLAR) (\<lambda>_.
     bnd parseName (\<lambda>name.
     bnd (loc startTok) (\<lambda>l.
     ret (Variable name l)))))"

definition parseStringLiteral :: "valueNode parser" where
  "parseStringLiteral =
     bnd currentToken (\<lambda>tok.
     bnd advance (\<lambda>_.
     bnd (loc tok) (\<lambda>l.
     ret (StringValue (value' tok) (kind tok = BLOCK_STRING) l))))"

text \<open>
  \<^verbatim>\<open>parseValueLiteral\<close>, \<^verbatim>\<open>parseList\<close>, \<^verbatim>\<open>parseObject\<close> and \<^verbatim>\<open>parseObjectField\<close> call
  each other; the first argument is the fuel, which \<^verbatim>\<open>parseValueLiteral\<close> decreases.
  \<^verbatim>\<open>parseConstValue\<close> and \<^verbatim>\<open>parseValueValue\<close>, the items of \<^verbatim>\<open>parseList\<close>, are
  \<^verbatim>\<open>parseValueLiteral\<close> at \<^verbatim>\<open>isConst\<close> true and false.
\<close>

fun parseValueLiteral_fuel :: "nat \<Rightarrow> bool \<Rightarrow> valueNode parser"
and parseList_fuel :: "nat \<Rightarrow> bool \<Rightarrow> valueNode parser"
and parseObject_fuel :: "nat \<Rightarrow> bool \<Rightarrow> valueNode parser"
and parseObjectField_fuel :: "nat \<Rightarrow> bool \<Rightarrow> objectFieldNode parser"
where
  "parseValueLiteral_fuel 0 isConst = throw (\<lambda>_. OutOfFuel)"
| "parseValueLiteral_fuel (Suc n) isConst =
     bnd currentToken (\<lambda>tok.
       case kind tok of
         BRACKET_L \<Rightarrow> parseList_fuel n isConst
       | BRACE_L \<Rightarrow> parseObject_fuel n isConst
       | INT' \<Rightarrow>
           bnd advance (\<lambda>_. bnd (loc tok) (\<lambda>l. ret (IntValue (value' tok) l)))
       | FLOAT \<Rightarrow>
           bnd advance (\<lambda>_. bnd (loc tok) (\<lambda>l. ret (FloatValue (value' tok) l)))
       | STRING \<Rightarrow> parseStringLiteral
       | BLOCK_STRING \<Rightarrow> parseStringLiteral
       | NAME \<Rightarrow>
           if value' tok = Some ''true'' \<or> value' tok = Some ''false'' then
             bnd advance (\<lambda>_. bnd (loc tok) (\<lambda>l.
               ret (BooleanValue (value' tok = Some ''true'') l)))
           else if value' tok = Some ''null'' then
             bnd advance (\<lambda>_. bnd (loc tok) (\<lambda>l. ret (NullValue l)))
           else
             bnd advance (\<lambda>_. bnd (loc tok) (\<lambda>l. ret (EnumValue (value' tok) l)))
       | DOLLAR \<Rightarrow>
           if \<not> isConst then parseVariable else throw (unexpected None)
       | _ \<Rightarrow> throw (unexpected None))"
| "parseList_fuel n isConst =
     bnd currentToken (\<lambda>startTok.
     bnd (any BRACKET_L
            (if isConst then parseValueLiteral_fuel n True else parseValueLiteral_fuel n False)
            BRACKET_R) (\<lambda>values.
     bnd (loc startTok) (\<lambda>l.
     ret (ListValue values l))))"
| "parseObject_fuel n isConst =
     bnd currentToken (\<lambda>startTok.
     bnd (expect BRACE_L) (\<lambda>_.
     bnd (\<lambda>lexer. untilSkip (fuel lexer) BRACE_R (parseObjectField_fuel n isConst) [] lexer)
       (\<lambda>fields.
     bnd (loc startTok) (\<lambda>l.
     ret (ObjectValue fields l)))))"
| "parseObjectField_fuel n isConst =
     bnd currentToken (\<lambda>startTok.
     bnd parseName (\<lambda>name.
     bnd (expect COLON) (\<lambda>_.
     bnd (parseValueLiteral_fuel n isConst) (\<lambda>v.
     bnd (loc startTok) (\<lambda>l.
     ret (ObjectField name v l))))))"

definition parseValueLiteral :: "bool \<Rightarrow> valueNode parser" where
  "parseValueLiteral isConst lexer = parseValueLiteral_fuel (fuel lexer) isConst lexer"

definition parseConstValue :: "valueNode parser" where
  "parseConstValue = parseValueLiteral True"

definition parseNamedType :: "typeNode parser" where
  "parseNamedType =
     bnd currentToken (\<lambda>startTok.
     bnd parseName (\<lambda>name.
     bnd (loc startTok) (\<lambda>l.
     ret (NamedType name l))))"

fun parseTypeReference_fuel :: "nat \<Rightarrow> typeNode parser" where
  "parseTypeReference_fuel 0 = throw (\<lambda>_. OutOfFuel)"
| "parseTypeReference_fuel (Suc n) =
     bnd currentToken (\<lambda>startTok.
     bnd (skip BRACKET_L) (\<lambda>isList.
     bnd (if isList then
            bnd (parseTypeReference_fuel n) (\<lambda>inner.
            bnd (expect BRACKET_R) (\<lambda>_.
            bnd (loc startTok) (\<lambda>l.
            ret (ListType inner l))))
          else parseNamedType) (\<lambda>type.
     bnd (skip BANG) (\<lambda>nonNull.
       if nonNull then bnd (loc startTok) (\<lambda>l. ret (NonNullType type l))
       else ret type))))"

definition parseTypeReference :: "typeNode parser" where
  "parseTypeReference lexer = parseTypeReference_fuel (fuel lexer) lexer"

section \<open>Directives, arguments and selections\<close>

text \<open>The loop \<^verbatim>\<open>while (peek(lexer, kind)) nodes.push(parseFn(lexer))\<close>.\<close>

fun whilePeek :: "nat \<Rightarrow> tokenKind \<Rightarrow> 'a parser \<Rightarrow> 'a list \<Rightarrow> 'a list parser" where
  "whilePeek 0 k parseFn nodes = throw (\<lambda>_. OutOfFuel)"
| "whilePeek (Suc n) k parseFn nodes =
     bnd (peek k) (\<lambda>again.
       if again then bnd parseFn (\<lambda>node. whilePeek n k parseFn (nodes @ [node]))
       else ret nodes)"

text \<open>The loop \<^verbatim>\<open>do { nodes.push(parseFn(lexer)) } while (skip(lexer, kind))\<close>.\<close>

fun doWhileSkip :: "nat \<Rightarrow> tokenKind \<Rightarrow> 'a parser \<Rightarrow> 'a list \<Rightarrow> 'a list parser" where
  "doWhileSkip 0 k parseFn nodes = throw (\<lambda>_. OutOfFuel)"
| "doWhileSkip (Suc n) k parseFn nodes =
     bnd parseFn (\<lambda>node.
     bnd (skip k) (\<lambda>again.
       if again then doWhileSkip n k parseFn (nodes @ [node])
       else ret (nodes @ [node])))"

definition parseArgument :: "argumentNode parser" where
  "parseArgument =
     bnd currentToken (\<lambda>startTok.
     bnd parseName (\<lambda>name.
     bnd (expect COLON) (\<lambda>_.
     bnd (parseValueLiteral False) (\<lambda>v.
     bnd (loc startTok) (\<lambda>l.
     ret (Argument name v l))))))"

definition parseConstArgument :: "argumentNode parser" where
  "parseConstArgument =
     bnd currentToken (\<lambda>startTok.
     bnd parseName (\<lambda>name.
     bnd (expect COLON) (\<lambda>_.
     bnd parseConstValue (\<lambda>v.
     bnd (loc startTok) (\<lambda>l.
     ret (Argument name v l))))))"

definition parseArguments :: "bool \<Rightarrow> argumentNode list parser" where
  "parseArguments isConst =
     (let item = (if isConst then parseConstArgument else parseArgument) in
      bnd (peek PAREN_L) (\<lambda>present.
        if present then many PAREN_L item PAREN_R else ret []))"

definition parseDirective :: "bool \<Rightarrow> directiveNode parser" where
  "parseDirective isConst =
     bnd currentToken (\<lambda>startTok.
     bnd (expect AT) (\<lambda>_.
     bnd parseName (\<lambda>name.
     bnd (parseArguments isConst) (\<lambda>arguments.
     bnd (loc startTok) (\<lambda>l.
     ret (Directive name arguments l))))))"

definition parseDirectives :: "bool \<Rightarrow> directiveNode list parser" where
  "parseDirectives isConst lexer = whilePeek (fuel lexer) AT (parseDirective isConst) [] lexer"

definition parseFragmentName :: "nameNode parser" where
  "parseFragmentName =
     bnd currentToken (\<lambda>tok.
       if value' tok = Some ''on'' then throw (unexpected None) else parseName)"

text \<open>
  \<^verbatim>\<open>parseSelectionSet\<close>, \<^verbatim>\<open>parseSelection\<close>, \<^verbatim>\<open>parseField\<close> and \<^verbatim>\<open>parseFragment\<close> call
  each other; \<^verbatim>\<open>parseSelectionSet\<close> decreases the fuel.
\<close>

fun parseSelectionSet_fuel :: "nat \<Rightarrow> selectionSetNode parser"
and parseSelection_fuel :: "nat \<Rightarrow> selectionNode parser"
and parseField_fuel :: "nat \<Rightarrow> selectionNode parser"
and parseFragment_fuel :: "nat \<Rightarrow> selectionNode parser"
where
  "parseSelectionSet_fuel 0 = throw (\<lambda>_. OutOfFuel)"
| "parseSelectionSet_fuel (Suc n) =
     bnd currentToken (\<lambda>startTok.
     bnd (many BRACE_L (parseSelection_fuel n) BRACE_R) (\<lambda>selections.
     bnd (loc startTok) (\<lambda>l.
     ret (SelectionSet selections l))))"
| "parseSelection_fuel n =
     bnd (peek SPREAD) (\<lambda>spread.
       if spread then parseFragment_fuel n else parseField_fuel n)"
| "parseField_fuel n =
     bnd currentToken (\<lambda>startTok.
     bnd parseName (\<lambda>nameOrAlias.
     bnd (skip COLON) (\<lambda>aliased.
     bnd (if aliased then bnd parseName (\<lambda>name. ret (Some nameOrAlias, name))
          else ret (None, nameOrAlias)) (\<lambda>(alias, name).
     bnd (parseArguments False) (\<lambda>arguments.
     bnd (parseDirectives False) (\<lambda>directives.
     bnd (peek BRACE_L) (\<lambda>nested.
     bnd (if nested then bnd (parseSelectionSet_fuel n) (\<lambda>s. ret (Some s))
          else ret None) (\<lambda>selectionSet.
     bnd (loc startTok) (\<lambda>l.
     ret (Field alias name arguments directives selectionSet l))))))))))"
| "parseFragment_fuel n =
     bnd currentToken (\<lambda>startTok.
     bnd (expect SPREAD) (\<lambda>_.
     bnd (peek NAME) (\<lambda>isName.
     bnd currentToken (\<lambda>tok.
       if isName \<and> value' tok \<noteq> Some ''on'' then
         bnd parseFragmentName (\<lambda>name.
         bnd (parseDirectives False) (\<lambda>directives.
         bnd (loc startTok) (\<lambda>l.
         ret (FragmentSpread name directives l))))
       else
         bnd (if value' tok = Some ''on'' then
                bnd advance (\<lambda>_. bnd parseNamedType (\<lambda>t. ret (Some t)))
              else ret None) (\<lambda>typeCondition.
         bnd (parseDirectives False) (\<lambda>directives.
         bnd (parseSelectionSet_fuel n) (\<lambda>selectionSet.
         bnd (loc startTok) (\<lambda>l.
         ret (InlineFragment typeCondition directives selectionSet l)))))))))"

definition parseSelectionSet :: "selectionSetNode parser" where
  "parseSelectionSet lexer = parseSelectionSet_fuel (fuel lexer) lexer"

section \<open>Operations and fragments\<close>

definition parseOperationType :: "string parser" where
  "parseOperationType =
     bnd (expect NAME) (\<lambda>operationToken.
       if value' operationToken = Some ''query'' then ret ''query''
       else if value' operationToken = Some ''mutation'' then ret ''mutation''
       else if value' operationToken = Some ''subscription'' then ret ''subscription''
       else throw (unexpected (Some operationToken)))"

definition parseVariableDefinition :: "variableDefinitionNode parser" where
  "parseVariableDefinition =
     bnd currentToken (\<lambda>startTok.
     bnd parseVariable (\<lambda>variable.
     bnd (expect COLON) (\<lambda>_.
     bnd parseTypeReference (\<lambda>type.
     bnd (skip EQUALS) (\<lambda>hasDefault.
     bnd (if hasDefault then bnd (parseValueLiteral True) (\<lambda>v. ret (Some v))
          else ret None) (\<lambda>defaultValue.
     bnd (loc startTok) (\<lambda>l.
     ret (VariableDefinition variable type defaultValue l))))))))"

definition parseVariableDefinitions :: "variableDefinitionNode list parser" where
  "parseVariableDefinitions =
     bnd (peek PAREN_L) (\<lambda>present.
       if present then many PAREN_L parseVariableDefinition PAREN_R else ret [])"

definition parseOperationDefinition :: "definitionNode parser" where
  "parseOperationDefinition =
     bnd currentToken (\<lambda>startTok.
     bnd (peek BRACE_L) (\<lambda>shorthand.
       if shorthand then
         bnd parseSelectionSet (\<lambda>selectionSet.
         bnd (loc startTok) (\<lambda>l.
         ret (OperationDefinition ''query'' None [] [] selectionSet l)))
       else
         bnd parseOperationType (\<lambda>operation.
         bnd (peek NAME) (\<lambda>named.
         bnd (if named then bnd parseName (\<lambda>n. ret (Some n)) else ret None) (\<lambda>name.
         bnd parseVariableDefinitions (\<lambda>variableDefinitions.
         bnd (parseDirectives False) (\<lambda>directives.
         bnd parseSelectionSet (\<lambda>selectionSet.
         bnd (loc startTok) (\<lambda>l.
         ret (OperationDefinition operation name variableDefinitions directives
                selectionSet l))))))))))"

definition parseFragmentDefinition :: "definitionNode parser" where
  "parseFragmentDefinition =
     bnd currentToken (\<lambda>startTok.
     bnd (expectKeyword ''fragment'') (\<lambda>_.
     bnd parseFragmentName (\<lambda>name.
     bnd (expectKeyword ''on'') (\<lambda>_.
     bnd parseNamedType (\<lambda>typeCondition.
     bnd (parseDirectives False) (\<lambda>directives.
     bnd parseSelectionSet (\<lambda>selectionSet.
     bnd (loc startTok) (\<lambda>l.
     ret (FragmentDefinition name typeCondition directives selectionSet l)))))))))"

section \<open>Type system definitions\<close>

definition peekDescription :: "bool parser" where
  "peekDescription =
     bnd (peek STRING) (\<lambda>isString.
       if isString then ret True else peek BLOCK_STRING)"

definition parseDescription :: "valueNode option parser" where
  "parseDescription =
     bnd peekDescription (\<lambda>present.
       if present then bnd parseStringLiteral (\<lambda>d. ret (Some d)) else ret None)"

definition parseOperationTypeDefinition :: "operationTypeDefinitionNode parser" where
  "parseOperationTypeDefinition =
     bnd currentToken (\<lambda>startTok.
     bnd parseOperationType (\<lambda>operation.
     bnd (expect COLON) (\<lambda>_.
     bnd parseNamedType (\<lambda>type.
     bnd (loc startTok) (\<lambda>l.
     ret (OperationTypeDefinition operation type l))))))"

definition parseSchemaDefinition :: "definitionNode parser" where
  "parseSchemaDefinition =
     bnd currentToken (\<lambda>startTok.
     bnd (expectKeyword ''schema'') (\<lambda>_.
     bnd (parseDirectives True) (\<lambda>directives.
     bnd (many BRACE_L parseOperationTypeDefinition BRACE_R) (\<lambda>operationTypes.
     bnd (loc startTok) (\<lambda>l.
     ret (SchemaDefinition directives operationTypes l))))))"

definition parseScalarTypeDefinition :: "definitionNode parser" where
  "parseScalarTypeDefinition =
     bnd currentToken (\<lambda>startTok.
     bnd parseDescription (\<lambda>description.
     bnd (expectKeyword ''scalar'') (\<lambda>_.
     bnd parseName (\<lambda>name.
     bnd (parseDirectives True) (\<lambda>directives.
     bnd (loc startTok) (\<lambda>l.
     ret (ScalarTypeDefinition description name directives l)))))))"

definition parseImplementsInterfaces :: "typeNode list parser" where
  "parseImplementsInterfaces =
     bnd currentToken (\<lambda>tok.
       if value' tok = Some ''implements'' then
         bnd advance (\<lambda>_.
         bnd parseNamedType (\<lambda>first.
         (\<lambda>lexer. whilePeek (fuel lexer) NAME parseNamedType [first] lexer)))
       else ret [])"

definition parseInputValueDef :: "inputValueDefinitionNode parser" where
  "parseInputValueDef =
     bnd currentToken (\<lambda>startTok.
     bnd parseDescription (\<lambda>description.
     bnd parseName (\<lambda>name.
     bnd (expect COLON) (\<lambda>_.
     bnd parseTypeReference (\<lambda>type.
     bnd (skip EQUALS) (\<lambda>hasDefault.
     bnd (if hasDefault then bnd parseConstValue (\<lambda>v. ret (Some v)) else ret None)
       (\<lambda>defaultValue.
     bnd (parseDirectives True) (\<lambda>directives.
     bnd (loc startTok) (\<lambda>l.
     ret (InputValueDefinition description name type defaultValue directives l))))))))))"

definition parseArgumentDefs :: "inputValueDefinitionNode list parser" where
  "parseArgumentDefs =
     bnd (peek PAREN_L) (\<lambda>present.
       if \<not> present then ret [] else many PAREN_L parseInputValueDef PAREN_R)"

definition parseFieldDefinition :: "fieldDefinitionNode parser" where
  "parseFieldDefinition =
     bnd currentToken (\<lambda>startTok.
     bnd parseDescription (\<lambda>description.
     bnd parseName (\<lambda>name.
     bnd parseArgumentDefs (\<lambda>args.
     bnd (expect COLON) (\<lambda>_.
     bnd parseTypeReference (\<lambda>type.
     bnd (parseDirectives True) (\<lambda>directives.
     bnd (loc startTok) (\<lambda>l.
     ret (FieldDefinition description name args type directives l)))))))))"

definition parseFieldDefinitions :: "fieldDefinitionNode list parser" where
  "parseFieldDefinitions = many BRACE_L parseFieldDefinition BRACE_R"

definition parseObjectTypeDefinition :: "definitionNode parser" where
  "parseObjectTypeDefinition =
     bnd currentToken (\<lambda>startTok.
     bnd parseDescription (\<lambda>description.
     bnd (expectKeyword ''type'') (\<lambda>_.
     bnd parseName (\<lambda>name.
     bnd parseImplementsInterfaces (\<lambda>interfaces.
     bnd (parseDirectives True) (\<lambda>directives.
     bnd parseFieldDefinitions (\<lambda>fields.
     bnd (loc startTok) (\<lambda>l.
     ret (ObjectTypeDefinition description name interfaces directives fields l)))))))))"

definition parseInterfaceTypeDefinition :: "definitionNode parser" where
  "parseInterfaceTypeDefinition =
     bnd currentToken (\<lambda>startTok.
     bnd parseDescription (\<lambda>description.
     bnd (expectKeyword ''interface'') (\<lambda>_.
     bnd parseName (\<lambda>name.
     bnd (parseDirectives True) (\<lambda>directives.
     bnd parseFieldDefinitions (\<lambda>fields.
     bnd (loc startTok) (\<lambda>l.
     ret (InterfaceTypeDefinition description name directives fields l))))))))"

definition parseUnionMembers :: "typeNode list parser" where
  "parseUnionMembers =
     bnd (skip PIPE) (\<lambda>_.
     (\<lambda>lexer. doWhileSkip (fuel lexer) PIPE parseNamedType [] lexer))"

definition parseUnionTypeDefinition :: "definitionNode parser" where
  "parseUnionTypeDefinition =
     bnd currentToken (\<lambda>startTok.
     bnd parseDescription (\<lambda>description.
     bnd (expectKeyword ''union'') (\<lambda>_.
     bnd parseName (\<lambda>name.
     bnd (parseDirectives True) (\<lambda>directives.
     bnd (expect EQUALS) (\<lambda>_.
     bnd parseUnionMembers (\<lambda>types.
     bnd (loc startTok) (\<lambda>l.
     ret (UnionTypeDefinition description name directives types l)))))))))"

definition parseEnumValueDefinition :: "enumValueDefinitionNode parser" where
  "parseEnumValueDefinition =
     bnd currentToken (\<lambda>startTok.
     bnd parseDescription (\<lambda>description.
     bnd parseName (\<lambda>name.
     bnd (parseDirectives True) (\<lambda>directives.
     bnd (loc startTok) (\<lambda>l.
     ret (EnumValueDefinition description name directives l))))))"

definition parseEnumTypeDefinition :: "definitionNode parser" where
  "parseEnumTypeDefinition =
     bnd currentToken (\<lambda>startTok.
     bnd parseDescription (\<lambda>description.
     bnd (expectKeyword ''enum'') (\<lambda>_.
     bnd parseName (\<lambda>name.
     bnd (parseDirectives True) (\<lambda>directives.
     bnd (many BRACE_L parseEnumValueDefinition BRACE_R) (\<lambda>values.
     bnd (loc startTok) (\<lambda>l.
     ret (EnumTypeDefinition description name directives values l))))))))"

definition parseInputObjectTypeDefinition :: "definitionNode parser" where
  "parseInputObjectTypeDefinition =
     bnd currentToken (\<lambda>startTok.
     bnd parseDescription (\<lambda>description.
     bnd (expectKeyword ''input'') (\<lambda>_.
     bnd parseName (\<lambda>name.
     bnd (parseDirectives True) (\<lambda>directives.
     bnd (many BRACE_L parseInputValueDef BRACE_R) (\<lambda>fields.
     bnd (loc startTok) (\<lambda>l.
     ret (InputObjectTypeDefinition description name directives fields l))))))))"

definition parseObjectTypeExtension :: "definitionNode parser" where
  "parseObjectTypeExtension =
     bnd currentToken (\<lambda>startTok.
     bnd (expectKeyword ''extend'') (\<lambda>_.
     bnd (expectKeyword ''type'') (\<lambda>_.
     bnd parseName (\<lambda>name.
     bnd parseImplementsInterfaces (\<lambda>interfaces.
     bnd (parseDirectives True) (\<lambda>directives.
     bnd (peek BRACE_L) (\<lambda>hasFields.
     bnd (if hasFields then parseFieldDefinitions else ret []) (\<lambda>fields.
       if length interfaces = 0 \<and> length directives = 0 \<and> length fields = 0 then
         throw (unexpected None)
       else
         bnd (loc startTok) (\<lambda>l.
         ret (ObjectTypeExtension name interfaces directives fields l))))))))))"

definition parseTypeExtension :: "definitionNode parser" where
  "parseTypeExtension =
     bnd lookahead (\<lambda>keywordToken.
       if kind keywordToken = NAME \<and> value' keywordToken = Some ''type'' then
         parseObjectTypeExtension
       else throw (unexpected (Some keywordToken)))"

text \<open>
  The keys of \<^verbatim>\<open>DirectiveLocation\<close> (directiveLocation.js), as the comment above
  \<^verbatim>\<open>parseDirectiveLocation\<close> lists them.
\<close>

definition DirectiveLocation :: "string list" where
  "DirectiveLocation =
     [''QUERY'', ''MUTATION'', ''SUBSCRIPTION'', ''FIELD'', ''FRAGMENT_DEFINITION'',
      ''FRAGMENT_SPREAD'', ''INLINE_FRAGMENT'',
      ''SCHEMA'', ''SCALAR'', ''OBJECT'', ''FIELD_DEFINITION'', ''ARGUMENT_DEFINITION'',
      ''INTERFACE'', ''UNION'', ''ENUM'', ''ENUM_VALUE'', ''INPUT_OBJECT'',
      ''INPUT_FIELD_DEFINITION'']"

definition hasOwnProperty :: "string list \<Rightarrow> string option \<Rightarrow> bool" where
  "hasOwnProperty keys k = (case k of Some v \<Rightarrow> v \<in> set keys | None \<Rightarrow> False)"

definition parseDirectiveLocation :: "nameNode parser" where
  "parseDirectiveLocation =
     bnd currentToken (\<lambda>startTok.
     bnd parseName (\<lambda>name.
       case name of Name v _ \<Rightarrow>
         if hasOwnProperty DirectiveLocation v then ret name
         else throw (unexpected (Some startTok))))"

definition parseDirectiveLocations :: "nameNode list parser" where
  "parseDirectiveLocations =
     bnd (skip PIPE) (\<lambda>_.
     (\<lambda>lexer. doWhileSkip (fuel lexer) PIPE parseDirectiveLocation [] lexer))"

definition parseDirectiveDefinition :: "definitionNode parser" where
  "parseDirectiveDefinition =
     bnd currentToken (\<lambda>startTok.
     bnd parseDescription (\<lambda>description.
     bnd (expectKeyword ''directive'') (\<lambda>_.
     bnd (expect AT) (\<lambda>_.
     bnd parseName (\<lambda>name.
     bnd parseArgumentDefs (\<lambda>args.
     bnd (expectKeyword ''on'') (\<lambda>_.
     bnd parseDirectiveLocations (\<lambda>locations.
     bnd (loc startTok) (\<lambda>l.
     ret (DirectiveDefinition description name args locations l))))))))))"

definition parseTypeSystemDefinition :: "definitionNode parser" where
  "parseTypeSystemDefinition =
     bnd peekDescription (\<lambda>described.
     bnd (if described then lookahead else currentToken) (\<lambda>keywordToken.
       if kind keywordToken = NAME then
         (if value' keywordToken = Some ''schema'' then parseSchemaDefinition
          else if value' keywordToken = Some ''scalar'' then parseScalarTypeDefinition
          else if value' keywordToken = Some ''type'' then parseObjectTypeDefinition
          else if value' keywordToken = Some ''interface'' then parseInterfaceTypeDefinition
          else if value' keywordToken = Some ''union'' then parseUnionTypeDefinition
          else if value' keywordToken = Some ''enum'' then parseEnumTypeDefinition
          else if value' keywordToken = Some ''input'' then parseInputObjectTypeDefinition
          else if value' keywordToken = Some ''extend'' then parseTypeExtension
          else if value' keywordToken = Some ''directive'' then parseDirectiveDefinition
          else throw (unexpected (Some keywordToken)))
       else throw (unexpected (Some keywordToken))))"

section \<open>Documents and the entry points\<close>

definition parseDefinition :: "definitionNode parser" where
  "parseDefinition =
     bnd (peek BRACE_L) (\<lambda>shorthand.
       if shorthand then parseOperationDefinition
       else
         bnd (peek NAME) (\<lambda>isName.
         bnd currentToken (\<lambda>tok.
           if isName \<and> value' tok \<in> Some ` {''query'', ''mutation'', ''subscription''} then
             parseOperationDefinition
           else if isName \<and> value' tok = Some ''fragment'' then
             parseFragmentDefinition
           else if isName \<and> value' tok \<in> Some ` {''schema'', ''scalar'', ''type'',
                     ''interface'', ''union'', ''enum'', ''input'', ''extend'', ''directive''} then
             parseTypeSystemDefinition
           else
             bnd peekDescription (\<lambda>described.
               if described then parseTypeSystemDefinition
               else throw (unexpected None)))))"

definition parseDocument :: "documentNode parser" where
  "parseDocument =
     bnd currentToken (\<lambda>startTok.
     bnd (expect SOF) (\<lambda>_.
     bnd parseDefinition (\<lambda>first.
     bnd (\<lambda>lexer. untilSkip (fuel lexer) EOF parseDefinition [first] lexer) (\<lambda>definitions.
     bnd (loc startTok) (\<lambda>l.
     ret (Document definitions l))))))"

text \<open>
  The value an entry point returns: the node, the lexer being dropped.
\<close>

definition result :: "error + ('a \<times> lexer) \<Rightarrow> error + 'a" where
  "result r = (case r of Inl e \<Rightarrow> Inl e | Inr (a, _) \<Rightarrow> Inr a)"

text \<open>\<^verbatim>\<open>typeof source === 'string' ? new Source(source) : source\<close>\<close>

definition toSourceObj :: "jsSource \<Rightarrow> jsSource" where
  "toSourceObj src =
     (case src of JSString s \<Rightarrow> SourceInstance (Source s ''GraphQL'') | _ \<Rightarrow> src)"

definition instanceofSource :: "jsSource \<Rightarrow> bool" where
  "instanceofSource v = (case v of SourceInstance _ \<Rightarrow> True | _ \<Rightarrow> False)"

text \<open>\<^verbatim>\<open>String(v)\<close>, for the values that are not a \<^verbatim>\<open>Source\<close>.\<close>

definition String :: "jsSource \<Rightarrow> string" where
  "String v = (case v of JSString s \<Rightarrow> s | OtherValue s \<Rightarrow> s
               | SourceInstance _ \<Rightarrow> ''[object Object]'')"

text \<open>\<^verbatim>\<open>options || {}\<close>\<close>

definition orEmpty :: "parseOptions option \<Rightarrow> parseOptions" where
  "orEmpty opts = (case opts of Some given \<Rightarrow> given | None \<Rightarrow> \<lparr> noLocation = None \<rparr>)"

definition parse ::
  "tokenizer \<Rightarrow> jsSource \<Rightarrow> parseOptions option \<Rightarrow> error + documentNode" where
  "parse tokenize src opts =
     (let sourceObj = toSourceObj src in
      if \<not> instanceofSource sourceObj then
        Inl (TypeError (''Must provide Source. Received: '' @ String sourceObj))
      else result (parseDocument (createLexer tokenize sourceObj (orEmpty opts))))"

definition parseValue ::
  "tokenizer \<Rightarrow> jsSource \<Rightarrow> parseOptions option \<Rightarrow> error + valueNode" where
  "parseValue tokenize src opts =
     (let sourceObj = toSourceObj src in
      result
        ((bnd (expect SOF) (\<lambda>_.
          bnd (parseValueLiteral False) (\<lambda>v.
          bnd (expect EOF) (\<lambda>_.
          ret v))))
         (createLexer tokenize sourceObj (orEmpty opts))))"

definition parseType ::
  "tokenizer \<Rightarrow> jsSource \<Rightarrow> parseOptions option \<Rightarrow> error + typeNode" where
  "parseType tokenize src opts =
     (let sourceObj = toSourceObj src in
      result
        ((bnd (expect SOF) (\<lambda>_.
          bnd parseTypeReference (\<lambda>t.
          bnd (expect EOF) (\<lambda>_.
          ret t))))
         (createLexer tokenize sourceObj (orEmpty opts))))"

section \<open>Reading the tree: locations, fragment names, shapes\<close>

text \<open>
  The \<^verbatim>\<open>loc\<close> field of a node, and the \<^verbatim>\<open>loc\<close> fields of all the nodes of a subtree,
  the node itself first.
\<close>

fun nameLoc :: "nameNode \<Rightarrow> location option" where
  "nameLoc (Name v l) = l"

fun nameValue :: "nameNode \<Rightarrow> string option" where
  "nameValue (Name v l) = v"

fun valueLoc :: "valueNode \<Rightarrow> location option" where
  "valueLoc (Variable n l) = l"
| "valueLoc (IntValue v l) = l"
| "valueLoc (FloatValue v l) = l"
| "valueLoc (StringValue v b l) = l"
| "valueLoc (BooleanValue b l) = l"
| "valueLoc (NullValue l) = l"
| "valueLoc (EnumValue v l) = l"
| "valueLoc (ListValue vs l) = l"
| "valueLoc (ObjectValue fs l) = l"

fun objectFieldLoc :: "objectFieldNode \<Rightarrow> location option" where
  "objectFieldLoc (ObjectField n v l) = l"

fun typeLoc :: "typeNode \<Rightarrow> location option" where
  "typeLoc (NamedType n l) = l"
| "typeLoc (ListType t l) = l"
| "typeLoc (NonNullType t l) = l"

fun argumentLoc :: "argumentNode \<Rightarrow> location option" where
  "argumentLoc (Argument n v l) = l"

fun directiveLoc :: "directiveNode \<Rightarrow> location option" where
  "directiveLoc (Directive n args l) = l"

fun variableDefinitionLoc :: "variableDefinitionNode \<Rightarrow> location option" where
  "variableDefinitionLoc (VariableDefinition v t d l) = l"

fun selectionSetLoc :: "selectionSetNode \<Rightarrow> location option" where
  "selectionSetLoc (SelectionSet sels l) = l"

fun selectionLoc :: "selectionNode \<Rightarrow> location option" where
  "selectionLoc (Field a n args ds ss l) = l"
| "selectionLoc (FragmentSpread n ds l) = l"
| "selectionLoc (InlineFragment tc ds ss l) = l"

fun operationTypeDefinitionLoc :: "operationTypeDefinitionNode \<Rightarrow> location option" where
  "operationTypeDefinitionLoc (OperationTypeDefinition operation t l) = l"

fun inputValueDefinitionLoc :: "inputValueDefinitionNode \<Rightarrow> location option" where
  "inputValueDefinitionLoc (InputValueDefinition d n t dv ds l) = l"

fun fieldDefinitionLoc :: "fieldDefinitionNode \<Rightarrow> location option" where
  "fieldDefinitionLoc (FieldDefinition d n args t ds l) = l"

fun enumValueDefinitionLoc :: "enumValueDefinitionNode \<Rightarrow> location option" where
  "enumValueDefinitionLoc (EnumValueDefinition d n ds l) = l"

fun definitionLoc :: "definitionNode \<Rightarrow> location option" where
  "definitionLoc (OperationDefinition operation n vds ds ss l) = l"
| "definitionLoc (FragmentDefinition n tc ds ss l) = l"
| "definitionLoc (SchemaDefinition ds ots l) = l"
| "definitionLoc (ScalarTypeDefinition d n ds l) = l"
| "definitionLoc (ObjectTypeDefinition d n is ds fs l) = l"
| "definitionLoc (InterfaceTypeDefinition d n ds fs l) = l"
| "definitionLoc (UnionTypeDefinition d n ds ts l) = l"
| "definitionLoc (EnumTypeDefinition d n ds vs l) = l"
| "definitionLoc (InputObjectTypeDefinition d n ds fs l) = l"
| "definitionLoc (ObjectTypeExtension n is ds fs l) = l"
| "definitionLoc (DirectiveDefinition d n args locations l) = l"

fun documentLoc :: "documentNode \<Rightarrow> location option" where
  "documentLoc (Document ds l) = l"

definition optional :: "('a \<Rightarrow> 'b list) \<Rightarrow> 'a option \<Rightarrow> 'b list" where
  "optional f x = (case x of None \<Rightarrow> [] | Some a \<Rightarrow> f a)"

definition each :: "('a \<Rightarrow> 'b list) \<Rightarrow> 'a list \<Rightarrow> 'b list" where
  "each f xs = concat (map f xs)"

fun nameLocs :: "nameNode \<Rightarrow> location option list" where
  "nameLocs (Name v l) = [l]"

fun valueLocs :: "valueNode \<Rightarrow> location option list"
and objectFieldLocs :: "objectFieldNode \<Rightarrow> location option list" where
  "valueLocs (Variable n l) = l # nameLocs n"
| "valueLocs (IntValue v l) = [l]"
| "valueLocs (FloatValue v l) = [l]"
| "valueLocs (StringValue v b l) = [l]"
| "valueLocs (BooleanValue b l) = [l]"
| "valueLocs (NullValue l) = [l]"
| "valueLocs (EnumValue v l) = [l]"
| "valueLocs (ListValue vs l) = l # concat (map valueLocs vs)"
| "valueLocs (ObjectValue fs l) = l # concat (map objectFieldLocs fs)"
| "objectFieldLocs (ObjectField n v l) = l # nameLocs n @ valueLocs v"

fun typeLocs :: "typeNode \<Rightarrow> location option list" where
  "typeLocs (NamedType n l) = l # nameLocs n"
| "typeLocs (ListType t l) = l # typeLocs t"
| "typeLocs (NonNullType t l) = l # typeLocs t"

fun argumentLocs :: "argumentNode \<Rightarrow> location option list" where
  "argumentLocs (Argument n v l) = l # nameLocs n @ valueLocs v"

fun directiveLocs :: "directiveNode \<Rightarrow> location option list" where
  "directiveLocs (Directive n args l) = l # nameLocs n @ each argumentLocs args"

fun variableDefinitionLocs :: "variableDefinitionNode \<Rightarrow> location option list" where
  "variableDefinitionLocs (VariableDefinition v t d l) =
     l # valueLocs v @ typeLocs t @ optional valueLocs d"

fun selectionSetLocs :: "selectionSetNode \<Rightarrow> location option list"
and selectionLocs :: "selectionNode \<Rightarrow> location option list" where
  "selectionSetLocs (SelectionSet sels l) = l # concat (map selectionLocs sels)"
| "selectionLocs (Field a n args ds ss l) =
     l # optional nameLocs a @ nameLocs n @ each argumentLocs args @ each directiveLocs ds
       @ (case ss of None \<Rightarrow> [] | Some s \<Rightarrow> selectionSetLocs s)"
| "selectionLocs (FragmentSpread n ds l) = l # nameLocs n @ each directiveLocs ds"
| "selectionLocs (InlineFragment tc ds ss l) =
     l # optional typeLocs tc @ each directiveLocs ds @ selectionSetLocs ss"

fun operationTypeDefinitionLocs :: "operationTypeDefinitionNode \<Rightarrow> location option list" where
  "operationTypeDefinitionLocs (OperationTypeDefinition operation t l) = l # typeLocs t"

fun inputValueDefinitionLocs :: "inputValueDefinitionNode \<Rightarrow> location option list" where
  "inputValueDefinitionLocs (InputValueDefinition d n t dv ds l) =
     l # optional valueLocs d @ nameLocs n @ typeLocs t @ optional valueLocs dv
       @ each directiveLocs ds"

fun fieldDefinitionLocs :: "fieldDefinitionNode \<Rightarrow> location option list" where
  "fieldDefinitionLocs (FieldDefinition d n args t ds l) =
     l # optional valueLocs d @ nameLocs n @ each inputValueDefinitionLocs args @ typeLocs t
       @ each directiveLocs ds"

fun enumValueDefinitionLocs :: "enumValueDefinitionNode \<Rightarrow> location option list" where
  "enumValueDefinitionLocs (EnumValueDefinition d n ds l) =
     l # optional valueLocs d @ nameLocs n @ each directiveLocs ds"

fun definitionLocs :: "definitionNode \<Rightarrow> location option list" where
  "definitionLocs (OperationDefinition operation n vds ds ss l) =
     l # optional nameLocs n @ each variableDefinitionLocs vds @ each directiveLocs ds
       @ selectionSetLocs ss"
| "definitionLocs (FragmentDefinition n tc ds ss l) =
     l # nameLocs n @ typeLocs tc @ each directiveLocs ds @ selectionSetLocs ss"
| "definitionLocs (SchemaDefinition ds ots l) =
     l # each directiveLocs ds @ each operationTypeDefinitionLocs ots"
| "definitionLocs (ScalarTypeDefinition d n ds l) =
     l # optional valueLocs d @ nameLocs n @ each directiveLocs ds"
| "definitionLocs (ObjectTypeDefinition d n is ds fs l) =
     l # optional valueLocs d @ nameLocs n @ each typeLocs is @ each directiveLocs ds
       @ each fieldDefinitionLocs fs"
| "definitionLocs (InterfaceTypeDefinition d n ds fs l) =
     l # optional valueLocs d @ nameLocs n @ each directiveLocs ds
       @ each fieldDefinitionLocs fs"
| "definitionLocs (UnionTypeDefinition d n ds ts l) =
     l # optional valueLocs d @ nameLocs n @ each directiveLocs ds @ each typeLocs ts"
| "definitionLocs (EnumTypeDefinition d n ds vs l) =
     l # optional valueLocs d @ nameLocs n @ each directiveLocs ds
       @ each enumValueDefinitionLocs vs"
| "definitionLocs (InputObjectTypeDefinition d n ds fs l) =
     l # optional valueLocs d @ nameLocs n @ each directiveLocs ds
       @ each inputValueDefinitionLocs fs"
| "definitionLocs (ObjectTypeExtension n is ds fs l) =
     l # nameLocs n @ each typeLocs is @ each directiveLocs ds @ each fieldDefinitionLocs fs"
| "definitionLocs (DirectiveDefinition d n args locations l) =
     l # optional valueLocs d @ nameLocs n @ each inputValueDefinitionLocs args
       @ each nameLocs locations"

fun documentLocs :: "documentNode \<Rightarrow> location option list" where
  "documentLocs (Document ds l) = l # each definitionLocs ds"

text \<open>
  The location that \<^verbatim>\<open>loc(lexer, start)\<close> gives to the node of a production that began
  at the lexer state \<open>before\<close> (whose current token is the node's first token) and ended
  at \<open>after\<close> (whose \<^verbatim>\<open>lastToken\<close> is the last token consumed).
\<close>

definition spanned :: "lexer \<Rightarrow> lexer \<Rightarrow> location option" where
  "spanned before after =
     (if noLocation (options before) = Some True then None
      else Some (Loc (token before) (lastToken after) (source before)))"

text \<open>
  \<open>locates nodeLoc p\<close>: whenever the production \<open>p\<close> returns a node, the \<^verbatim>\<open>loc\<close> of that
  node is absent under \<^verbatim>\<open>noLocation\<close> and otherwise runs from the production's first
  token to the last token it consumed.
\<close>

definition locates :: "('a \<Rightarrow> location option) \<Rightarrow> 'a parser \<Rightarrow> bool" where
  "locates nodeLoc p \<longleftrightarrow>
     (\<forall>lexer a lexer'. p lexer = Inr (a, lexer') \<longrightarrow> nodeLoc a = spanned lexer lexer')"

text \<open>
  What holds of every \<^verbatim>\<open>loc\<close> field of a tree parsed with the given options from the
  given source.
\<close>

definition locationPolicy :: "parseOptions \<Rightarrow> jsSource \<Rightarrow> location option \<Rightarrow> bool" where
  "locationPolicy opts src l =
     (if noLocation opts = Some True then l = None
      else (case l of None \<Rightarrow> False
            | Some b \<Rightarrow> b = Loc (startToken b) (endToken b) src))"

text \<open>
  The names of the \<^verbatim>\<open>FragmentSpread\<close> and \<^verbatim>\<open>FragmentDefinition\<close> nodes of a tree.
\<close>

fun selectionSetFragmentNames :: "selectionSetNode \<Rightarrow> nameNode list"
and selectionFragmentNames :: "selectionNode \<Rightarrow> nameNode list" where
  "selectionSetFragmentNames (SelectionSet sels l) = concat (map selectionFragmentNames sels)"
| "selectionFragmentNames (Field a n args ds ss l) =
     (case ss of None \<Rightarrow> [] | Some s \<Rightarrow> selectionSetFragmentNames s)"
| "selectionFragmentNames (FragmentSpread n ds l) = [n]"
| "selectionFragmentNames (InlineFragment tc ds ss l) = selectionSetFragmentNames ss"

fun definitionFragmentNames :: "definitionNode \<Rightarrow> nameNode list" where
  "definitionFragmentNames (OperationDefinition operation n vds ds ss l) =
     selectionSetFragmentNames ss"
| "definitionFragmentNames (FragmentDefinition n tc ds ss l) =
     n # selectionSetFragmentNames ss"
| "definitionFragmentNames _ = []"

fun documentFragmentNames :: "documentNode \<Rightarrow> nameNode list" where
  "documentFragmentNames (Document ds l) = each definitionFragmentNames ds"

text \<open>The \<^verbatim>\<open>operation\<close> fields of the \<^verbatim>\<open>OperationDefinition\<close> nodes of a document.\<close>

fun definitionOperations :: "definitionNode \<Rightarrow> string list" where
  "definitionOperations (OperationDefinition operation n vds ds ss l) = [operation]"
| "definitionOperations _ = []"

fun documentOperations :: "documentNode \<Rightarrow> string list" where
  "documentOperations (Document ds l) = each definitionOperations ds"

text \<open>The shorthand form of an operation.\<close>

fun isShorthandQuery :: "definitionNode \<Rightarrow> bool" where
  "isShorthandQuery (OperationDefinition operation n vds ds ss l) =
     (operation = ''query'' \<and> n = None \<and> vds = [] \<and> ds = [])"
| "isShorthandQuery _ = False"

text \<open>Shapes of type references.\<close>

fun isNamedType :: "typeNode \<Rightarrow> bool" where
  "isNamedType (NamedType n l) = True"
| "isNamedType _ = False"

fun isListType :: "typeNode \<Rightarrow> bool" where
  "isListType (ListType t l) = True"
| "isListType _ = False"

fun isNonNullType :: "typeNode \<Rightarrow> bool" where
  "isNonNullType (NonNullType t l) = True"
| "isNonNullType _ = False"

text \<open>The type a \<^verbatim>\<open>NonNullType\<close> wraps; any other type itself.\<close>

fun nullable :: "typeNode \<Rightarrow> typeNode" where
  "nullable (NonNullType t l) = t"
| "nullable t = t"

text \<open>No \<^verbatim>\<open>NonNullType\<close> of the tree has a \<^verbatim>\<open>NonNullType\<close> as its \<^verbatim>\<open>type\<close>.\<close>

fun noNonNullInNonNull :: "typeNode \<Rightarrow> bool" where
  "noNonNullInNonNull (NamedType n l) = True"
| "noNonNullInNonNull (ListType t l) = noNonNullInNonNull t"
| "noNonNullInNonNull (NonNullType t l) = (\<not> isNonNullType t \<and> noNonNullInNonNull t)"

text \<open>A tree with every \<^verbatim>\<open>loc\<close> removed, to compare trees up to locations.\<close>

fun nameWithoutLoc :: "nameNode \<Rightarrow> nameNode" where
  "nameWithoutLoc (Name v l) = Name v None"

fun withoutLoc :: "valueNode \<Rightarrow> valueNode"
and fieldWithoutLoc :: "objectFieldNode \<Rightarrow> objectFieldNode" where
  "withoutLoc (Variable n l) = Variable (nameWithoutLoc n) None"
| "withoutLoc (IntValue v l) = IntValue v None"
| "withoutLoc (FloatValue v l) = FloatValue v None"
| "withoutLoc (StringValue v b l) = StringValue v b None"
| "withoutLoc (BooleanValue b l) = BooleanValue b None"
| "withoutLoc (NullValue l) = NullValue None"
| "withoutLoc (EnumValue v l) = EnumValue v None"
| "withoutLoc (ListValue vs l) = ListValue (map withoutLoc vs) None"
| "withoutLoc (ObjectValue fs l) = ObjectValue (map fieldWithoutLoc fs) None"
| "fieldWithoutLoc (ObjectField n v l) = ObjectField (nameWithoutLoc n) (withoutLoc v) None"

text \<open>
  The value of the only argument of the only field of the only definition of a
  document, when the document has that shape.
\<close>

fun onlyArgumentValue :: "documentNode \<Rightarrow> valueNode option" where
  "onlyArgumentValue
     (Document [OperationDefinition operation n vds ds
                  (SelectionSet [Field a f [Argument an v al] fds fss fl] sl) ol] dl) = Some v"
| "onlyArgumentValue _ = None"

section \<open>valueFromASTUntyped\<close>

text \<open>
  JavaScript values, as far as \<^verbatim>\<open>valueFromASTUntyped\<close> builds them or reads them from
  the variables. Numbers are of a type \<open>'n\<close> that is left open. An object has its own
  properties, in the order of insertion, and a prototype or none; a property holds a
  value, or is the accessor \<^verbatim>\<open>__proto__\<close>, which reads the prototype of the object asked.
  A function is known by its name only.
\<close>

datatype 'n jsValue =
    JSUndefined | JSNull | JSBoolean bool | JSNumber 'n | JSText string
  | JSArray "'n jsValue list" | JSFunction string | JSObject "'n jsObject"
and 'n jsObject =
    Object (own: "(string \<times> 'n jsProperty) list") (prototype: "'n jsObject option")
and 'n jsProperty = DataProperty "'n jsValue" | ProtoAccessor

text \<open>
  \<^verbatim>\<open>Object.prototype\<close> of the language, the prototype of every object literal: its
  properties are functions, but for \<^verbatim>\<open>__proto__\<close>.
\<close>

definition objectPrototype :: "'n jsObject" where
  "objectPrototype =
     Object
       [(''constructor'', DataProperty (JSFunction ''Object'')),
        (''__defineGetter__'', DataProperty (JSFunction ''__defineGetter__'')),
        (''__defineSetter__'', DataProperty (JSFunction ''__defineSetter__'')),
        (''hasOwnProperty'', DataProperty (JSFunction ''hasOwnProperty'')),
        (''__lookupGetter__'', DataProperty (JSFunction ''__lookupGetter__'')),
        (''__lookupSetter__'', DataProperty (JSFunction ''__lookupSetter__'')),
        (''isPrototypeOf'', DataProperty (JSFunction ''isPrototypeOf'')),
        (''propertyIsEnumerable'', DataProperty (JSFunction ''propertyIsEnumerable'')),
        (''toString'', DataProperty (JSFunction ''toString'')),
        (''valueOf'', DataProperty (JSFunction ''valueOf'')),
        (''__proto__'', ProtoAccessor),
        (''toLocaleString'', DataProperty (JSFunction ''toLocaleString''))]
       None"

text \<open>The properties an object is given, as properties that hold these values.\<close>

definition dataProperties :: "(string \<times> 'n jsValue) list \<Rightarrow> (string \<times> 'n jsProperty) list" where
  "dataProperties kvs = map (\<lambda>kv. (fst kv, DataProperty (snd kv))) kvs"

text \<open>
  The object literal \<^verbatim>\<open>{k: v, ...}\<close>, whose prototype is \<^verbatim>\<open>Object.prototype\<close>, and the
  object with the same properties made by \<^verbatim>\<open>Object.create(null)\<close>, which has none.
\<close>

definition objectLiteral :: "(string \<times> 'n jsValue) list \<Rightarrow> 'n jsObject" where
  "objectLiteral kvs = Object (dataProperties kvs) (Some objectPrototype)"

definition createNull :: "(string \<times> 'n jsValue) list \<Rightarrow> 'n jsObject" where
  "createNull kvs = Object (dataProperties kvs) None"

text \<open>
  The property read \<^verbatim>\<open>object[key]\<close>: the property is looked for on the object, then
  along its prototypes; there being none, the read gives \<^verbatim>\<open>undefined\<close>.
\<close>

fun findProperty :: "'n jsObject \<Rightarrow> string \<Rightarrow> 'n jsProperty option" where
  "findProperty (Object props None) k = map_of props k"
| "findProperty (Object props (Some parent)) k =
     (case map_of props k of Some p \<Rightarrow> Some p | None \<Rightarrow> findProperty parent k)"

definition getProperty :: "'n jsObject \<Rightarrow> string \<Rightarrow> 'n jsValue" where
  "getProperty object k =
     (case findProperty object k of
        None \<Rightarrow> JSUndefined
      | Some (DataProperty v) \<Rightarrow> v
      | Some ProtoAccessor \<Rightarrow>
          (case prototype object of Some parent \<Rightarrow> JSObject parent | None \<Rightarrow> JSNull))"

text \<open>A string that may be \<^verbatim>\<open>undefined\<close>, as a JavaScript value.\<close>

definition textOrUndefined :: "string option \<Rightarrow> 'n jsValue" where
  "textOrUndefined v = (case v of Some s \<Rightarrow> JSText s | None \<Rightarrow> JSUndefined)"

text \<open>
  The \<^verbatim>\<open>kind\<close> field that parser.js writes into each value node: the constants of
  kinds.js, which parser.js itself spells out for \<^verbatim>\<open>INT\<close>, \<^verbatim>\<open>FLOAT\<close>, \<^verbatim>\<open>STRING\<close>,
  \<^verbatim>\<open>BOOLEAN\<close>, \<^verbatim>\<open>NULL\<close> and \<^verbatim>\<open>ENUM\<close>; the other three are the names the spec
  gives to the variants.
\<close>

fun kindOf :: "valueNode \<Rightarrow> string" where
  "kindOf (Variable n l) = ''Variable''"
| "kindOf (IntValue v l) = ''IntValue''"
| "kindOf (FloatValue v l) = ''FloatValue''"
| "kindOf (StringValue v b l) = ''StringValue''"
| "kindOf (BooleanValue b l) = ''BooleanValue''"
| "kindOf (NullValue l) = ''NullValue''"
| "kindOf (EnumValue v l) = ''EnumValue''"
| "kindOf (ListValue vs l) = ''ListValue''"
| "kindOf (ObjectValue fs l) = ''ObjectValue''"

text \<open>
  Reading the properties \<^verbatim>\<open>value\<close>, \<^verbatim>\<open>values\<close>, \<^verbatim>\<open>fields\<close> and \<^verbatim>\<open>name.value\<close> of a
  value node, and \<^verbatim>\<open>name.value\<close> and \<^verbatim>\<open>value\<close> of an object field.
\<close>

fun valueProp :: "valueNode \<Rightarrow> 'n jsValue" where
  "valueProp (IntValue v l) = textOrUndefined v"
| "valueProp (FloatValue v l) = textOrUndefined v"
| "valueProp (StringValue v b l) = textOrUndefined v"
| "valueProp (EnumValue v l) = textOrUndefined v"
| "valueProp (BooleanValue b l) = JSBoolean b"
| "valueProp _ = JSUndefined"

fun valuesProp :: "valueNode \<Rightarrow> valueNode list" where
  "valuesProp (ListValue vs l) = vs"
| "valuesProp _ = []"

fun fieldsProp :: "valueNode \<Rightarrow> objectFieldNode list" where
  "fieldsProp (ObjectValue fs l) = fs"
| "fieldsProp _ = []"

fun fieldName :: "objectFieldNode \<Rightarrow> string option" where
  "fieldName (ObjectField n v l) = nameValue n"

fun fieldValue :: "objectFieldNode \<Rightarrow> valueNode" where
  "fieldValue (ObjectField n v l) = v"

fun variableNameProp :: "valueNode \<Rightarrow> string option" where
  "variableNameProp (Variable n l) = nameValue n"
| "variableNameProp _ = None"

text \<open>A property key: \<^verbatim>\<open>undefined\<close> as a key is the string \<^verbatim>\<open>"undefined"\<close>.\<close>

definition propertyKey :: "string option \<Rightarrow> string" where
  "propertyKey k = (case k of Some s \<Rightarrow> s | None \<Rightarrow> ''undefined'')"

text \<open>The results of a \<^verbatim>\<open>map\<close> whose callback may throw: the first error wins.\<close>

fun collect :: "('e + 'a) list \<Rightarrow> 'e + 'a list" where
  "collect [] = Inr []"
| "collect (x # xs) =
     (case x of Inl e \<Rightarrow> Inl e
      | Inr a \<Rightarrow> (case collect xs of Inl e \<Rightarrow> Inl e | Inr as \<Rightarrow> Inr (a # as)))"

text \<open>
  What valueFromASTUntyped.js takes from outside: \<^verbatim>\<open>parseInt(_, 10)\<close> and \<^verbatim>\<open>parseFloat\<close>
  of the language, \<^verbatim>\<open>isInvalid\<close> and \<^verbatim>\<open>keyValMap\<close> of jsutils (not among the sources;
  \<^verbatim>\<open>keyValMap\<close> is given the keys and values that its two callbacks compute).
\<close>

record 'n jsutils =
  parseInt10 :: "'n jsValue \<Rightarrow> 'n"
  parseFloat :: "'n jsValue \<Rightarrow> 'n"
  isInvalid :: "'n jsValue \<Rightarrow> bool"
  keyValMap :: "(string \<times> 'n jsValue) list \<Rightarrow> 'n jsValue"

text \<open>
  \<^verbatim>\<open>variables\<close> is an object, or \<open>None\<close> for \<^verbatim>\<open>undefined\<close> and \<^verbatim>\<open>null\<close>;
  \<^verbatim>\<open>variables[variableName]\<close> is a property read like any other, with no test that the
  property is the object's own.
\<close>

function valueFromASTUntyped ::
  "'n jsutils \<Rightarrow> valueNode \<Rightarrow> 'n jsObject option \<Rightarrow> string + 'n jsValue" where
  "valueFromASTUntyped js valueNode variables =
     (if kindOf valueNode = ''NullValue'' then Inr JSNull
      else if kindOf valueNode = ''IntValue'' then Inr (JSNumber (parseInt10 js (valueProp valueNode)))
      else if kindOf valueNode = ''FloatValue'' then Inr (JSNumber (parseFloat js (valueProp valueNode)))
      else if kindOf valueNode \<in> {''StringValue'', ''EnumValue'', ''BooleanValue''} then Inr (valueProp valueNode)
      else if kindOf valueNode = ''ListValue'' then
        (case collect (map (\<lambda>node. valueFromASTUntyped js node variables) (valuesProp valueNode)) of
           Inl e \<Rightarrow> Inl e | Inr vs \<Rightarrow> Inr (JSArray vs))
      else if kindOf valueNode = ''ObjectValue'' then
        (case collect (map (\<lambda>field.
                 case valueFromASTUntyped js (fieldValue field) variables of
                   Inl e \<Rightarrow> Inl e | Inr v \<Rightarrow> Inr (propertyKey (fieldName field), v))
               (fieldsProp valueNode)) of
           Inl e \<Rightarrow> Inl e | Inr kvs \<Rightarrow> Inr (keyValMap js kvs))
      else if kindOf valueNode = ''Variable'' then
        (let variableName = propertyKey (variableNameProp valueNode) in
         case variables of
           None \<Rightarrow> Inr JSUndefined
         | Some object \<Rightarrow>
             if \<not> isInvalid js (getProperty object variableName)
             then Inr (getProperty object variableName)
             else Inr JSUndefined)
      else Inl (''Unexpected value kind: '' @ kindOf valueNode))"
  by pat_completeness auto
termination
proof (relation "measure (\<lambda>(js, v, vars). size v)")
  show "wf (measure (\<lambda>(js, v, vars). size v))"
    by simp
next
  fix js :: "'n jsutils" and valueNode node
    and variables :: "'n jsObject option"
  assume "node \<in> set (valuesProp valueNode)"
  then have "size node < size valueNode"
    by (cases valueNode) (auto simp: less_Suc_eq_le dest: size_list_estimation'[where f=size])
  then show "((js, node, variables), (js, valueNode, variables))
               \<in> measure (\<lambda>(js, v, vars). size v)"
    by simp
next
  fix js :: "'n jsutils" and valueNode field
    and variables :: "'n jsObject option"
  assume "field \<in> set (fieldsProp valueNode)"
  then have "size field < size valueNode"
    by (cases valueNode) (auto simp: less_Suc_eq_le dest: size_list_estimation'[where f=size])
  moreover have "size (fieldValue field) < size field"
    by (cases field) simp
  ultimately show "((js, fieldValue field, variables), (js, valueNode, variables))
               \<in> measure (\<lambda>(js, v, vars). size v)"
    by simp
qed

text \<open>
  An instance for the examples. A number is the text it is read from, uninterpreted
  (\<^verbatim>\<open>NaN\<close> when there is no text); \<^verbatim>\<open>isInvalid\<close> is true of \<^verbatim>\<open>undefined\<close> and of
  \<^verbatim>\<open>NaN\<close>; \<^verbatim>\<open>keyValMap\<close> fills an object made by \<^verbatim>\<open>Object.create(null)\<close>.
\<close>

fun numeralText :: "string jsValue \<Rightarrow> string" where
  "numeralText (JSText s) = s"
| "numeralText _ = ''NaN''"

fun undefinedOrNaN :: "string jsValue \<Rightarrow> bool" where
  "undefinedOrNaN JSUndefined = True"
| "undefinedOrNaN (JSNumber n) = (n = ''NaN'')"
| "undefinedOrNaN _ = False"

definition textualNumbers :: "string jsutils" where
  "textualNumbers =
     \<lparr> parseInt10 = numeralText, parseFloat = numeralText, isInvalid = undefinedOrNaN,
       keyValMap = (\<lambda>kvs. JSObject (createNull kvs)) \<rparr>"

section \<open>Notions used in the statements and proofs\<close>

text \<open>One call of \<^verbatim>\<open>advance\<close> leads from the first lexer state to the second.\<close>

definition advanced :: "lexer \<Rightarrow> lexer \<Rightarrow> bool" where
  "advanced lexer lexer' \<longleftrightarrow> (\<exists>t. advance lexer = Inr (t, lexer'))"

text \<open>Every node that the production returns satisfies \<open>Q\<close>.\<close>

definition yields :: "'a parser \<Rightarrow> ('a \<Rightarrow> bool) \<Rightarrow> bool" where
  "yields p Q \<longleftrightarrow> (\<forall>lexer a lexer'. p lexer = Inr (a, lexer') \<longrightarrow> Q a)"

text \<open>
  The lexer of a source once \<^verbatim>\<open>SOF\<close> has been consumed: the current token is the first
  token of the stream.
\<close>

definition lexerPastSOF :: "jsSource \<Rightarrow> parseOptions \<Rightarrow> token \<Rightarrow> token list \<Rightarrow> nat \<Rightarrow> lexer" where
  "lexerPastSOF src opts first rest n =
     \<lparr> source = src, options = opts, lastToken = Token SOF 0 0 None, token = first,
       pending = rest, ending = EndOfFile n \<rparr>"

text \<open>A value node is, or contains, a \<^verbatim>\<open>Variable\<close>.\<close>

fun hasVariable :: "valueNode \<Rightarrow> bool"
and fieldHasVariable :: "objectFieldNode \<Rightarrow> bool" where
  "hasVariable (Variable n l) = True"
| "hasVariable (ListValue vs l) = (\<exists>v\<in>set vs. hasVariable v)"
| "hasVariable (ObjectValue fs l) = (\<exists>f\<in>set fs. fieldHasVariable f)"
| "hasVariable (IntValue v l) = False"
| "hasVariable (FloatValue v l) = False"
| "hasVariable (StringValue v b l) = False"
| "hasVariable (BooleanValue b l) = False"
| "hasVariable (NullValue l) = False"
| "hasVariable (EnumValue v l) = False"
| "fieldHasVariable (ObjectField n v l) = hasVariable v"

fun isVariable :: "valueNode \<Rightarrow> bool" where
  "isVariable (Variable n l) = True"
| "isVariable _ = False"

text \<open>The options \<^verbatim>\<open>{noLocation: true}\<close>.\<close>

definition withoutLocations :: "parseOptions option" where
  "withoutLocations = Some \<lparr> noLocation = Some True \<rparr>"

text \<open>The three operation types.\<close>

definition operationTypes :: "string set" where
  "operationTypes = {''query'', ''mutation'', ''subscription''}"

text \<open>The first token of the stream of a source is of the given kind.\<close>

definition firstTokenIs :: "tokenizer \<Rightarrow> jsSource \<Rightarrow> tokenKind \<Rightarrow> bool" where
  "firstTokenIs tokenize src k =
     (case fst (tokenize (toSourceObj src)) of t # _ \<Rightarrow> kind t = k | [] \<Rightarrow> False)"

text \<open>
  The number of tokens a lexer has not consumed yet, the current token included unless it
  is \<^verbatim>\<open>EOF\<close>.
\<close>

definition remaining :: "lexer \<Rightarrow> nat" where
  "remaining lexer = length (pending lexer) + (if kind (token lexer) = EOF then 0 else 1)"

text \<open>
  A production never leaves more tokens than it found, and fewer when \<open>strict\<close>.
\<close>

definition consumes :: "bool \<Rightarrow> 'a parser \<Rightarrow> bool" where
  "consumes strict p \<longleftrightarrow>
     (\<forall>lexer a lexer'. p lexer = Inr (a, lexer') \<longrightarrow>
        (if strict then remaining lexer' < remaining lexer
         else remaining lexer' \<le> remaining lexer))"

fun isSyntaxError :: "error \<Rightarrow> bool" where
  "isSyntaxError (SyntaxError src offset msg) = True"
| "isSyntaxError _ = False"

text \<open>
  Started with at most \<open>bound\<close> tokens left, a production throws nothing but syntax
  errors: it does not run out of fuel.
\<close>

definition onlySyntaxErrors :: "nat \<Rightarrow> 'a parser \<Rightarrow> bool" where
  "onlySyntaxErrors bound p \<longleftrightarrow>
     (\<forall>lexer e. remaining lexer \<le> bound \<longrightarrow> p lexer = Inl e \<longrightarrow> isSyntaxError e)"

text \<open>No name of the list is \<^verbatim>\<open>on\<close>.\<close>

definition noneIsOn :: "nameNode list \<Rightarrow> bool" where
  "noneIsOn names \<longleftrightarrow> (\<forall>n\<in>set names. nameValue n \<noteq> Some ''on'')"

text \<open>Every location of the list follows the location policy.\<close>

definition allLocs :: "parseOptions \<Rightarrow> jsSource \<Rightarrow> location option list \<Rightarrow> bool" where
  "allLocs opts src ls \<longleftrightarrow> (\<forall>l\<in>set ls. locationPolicy opts src l)"

text \<open>
  A production run on a lexer with the given options and source leaves both as they
  are, and every node it returns satisfies \<open>Q\<close>.
\<close>

definition holds :: "parseOptions \<Rightarrow> jsSource \<Rightarrow> 'a parser \<Rightarrow> ('a \<Rightarrow> bool) \<Rightarrow> bool" where
  "holds opts src p Q \<longleftrightarrow>
     (\<forall>lexer a lexer'. options lexer = opts \<and> source lexer = src \<and> p lexer = Inr (a, lexer') \<longrightarrow>
        options lexer' = opts \<and> source lexer' = src \<and> Q a)"

text \<open>
  The node that \<open>q\<close> returns is located from the token \<open>st\<close> to the last token consumed.
\<close>

definition endsWithLoc :: "token \<Rightarrow> ('a \<Rightarrow> location option) \<Rightarrow> 'a parser \<Rightarrow> bool" where
  "endsWithLoc st nodeLoc q \<longleftrightarrow>
     (\<forall>lexer a lexer'. q lexer = Inr (a, lexer') \<longrightarrow>
        nodeLoc a = (if noLocation (options lexer') = Some True then None
                     else Some (Loc st (lastToken lexer') (source lexer'))))"

section \<open>The token streams of the texts used below\<close>

text \<open>
  A tokenizer that yields the given tokens and then \<^verbatim>\<open>EOF\<close> at the given offset, whatever
  the source.
\<close>

definition tokensThenEOF :: "token list \<Rightarrow> nat \<Rightarrow> tokenizer" where
  "tokensThenEOF toks n = (\<lambda>_. (toks, EndOfFile n))"

text \<open>\<^verbatim>\<open>{ a b }\<close>\<close>

definition tokens_shorthand :: "token list" where
  "tokens_shorthand =
     [Token BRACE_L 0 1 None, Token NAME 2 3 (Some ''a''), Token NAME 4 5 (Some ''b''),
      Token BRACE_R 6 7 None]"

text \<open>\<^verbatim>\<open>$x\<close>\<close>

definition tokens_variable :: "token list" where
  "tokens_variable = [Token DOLLAR 0 1 None, Token NAME 1 2 (Some ''x'')]"

text \<open>\<^verbatim>\<open>query Q($x: Int = $y) { f }\<close>\<close>

definition tokens_defaultVariable :: "token list" where
  "tokens_defaultVariable =
     [Token NAME 0 5 (Some ''query''), Token NAME 6 7 (Some ''Q''), Token PAREN_L 7 8 None,
      Token DOLLAR 8 9 None, Token NAME 9 10 (Some ''x''), Token COLON 10 11 None,
      Token NAME 12 15 (Some ''Int''), Token EQUALS 16 17 None, Token DOLLAR 18 19 None,
      Token NAME 19 20 (Some ''y''), Token PAREN_R 20 21 None, Token BRACE_L 22 23 None,
      Token NAME 24 25 (Some ''f''), Token BRACE_R 26 27 None]"

text \<open>\<^verbatim>\<open>[Int!]!\<close>\<close>

definition tokens_listType :: "token list" where
  "tokens_listType =
     [Token BRACKET_L 0 1 None, Token NAME 1 4 (Some ''Int''), Token BANG 4 5 None,
      Token BRACKET_R 5 6 None, Token BANG 6 7 None]"

text \<open>\<^verbatim>\<open>[42]\<close>\<close>

definition tokens_list42 :: "token list" where
  "tokens_list42 =
     [Token BRACKET_L 0 1 None, Token INT' 1 3 (Some ''42''), Token BRACKET_R 3 4 None]"

text \<open>\<^verbatim>\<open>{x(a: [42])}\<close>\<close>

definition tokens_argument42 :: "token list" where
  "tokens_argument42 =
     [Token BRACE_L 0 1 None, Token NAME 1 2 (Some ''x''), Token PAREN_L 2 3 None,
      Token NAME 3 4 (Some ''a''), Token COLON 4 5 None, Token BRACKET_L 6 7 None,
      Token INT' 7 9 (Some ''42''), Token BRACKET_R 9 10 None, Token PAREN_R 10 11 None,
      Token BRACE_R 11 12 None]"

text \<open>\<^verbatim>\<open>extend type Foo\<close>\<close>

definition tokens_extendBare :: "token list" where
  "tokens_extendBare =
     [Token NAME 0 6 (Some ''extend''), Token NAME 7 11 (Some ''type''),
      Token NAME 12 15 (Some ''Foo'')]"

text \<open>\<^verbatim>\<open>extend type Foo implements I\<close>\<close>

definition tokens_extendImplements :: "token list" where
  "tokens_extendImplements =
     [Token NAME 0 6 (Some ''extend''), Token NAME 7 11 (Some ''type''),
      Token NAME 12 15 (Some ''Foo''), Token NAME 16 26 (Some ''implements''),
      Token NAME 27 28 (Some ''I'')]"

text \<open>\<^verbatim>\<open>fragment F on T { ...A ... on T { x } }\<close>\<close>

definition tokens_fragments :: "token list" where
  "tokens_fragments =
     [Token NAME 0 8 (Some ''fragment''), Token NAME 9 10 (Some ''F''),
      Token NAME 11 13 (Some ''on''), Token NAME 14 15 (Some ''T''),
      Token BRACE_L 16 17 None, Token SPREAD 18 21 None, Token NAME 21 22 (Some ''A''),
      Token SPREAD 23 26 None, Token NAME 27 29 (Some ''on''), Token NAME 30 31 (Some ''T''),
      Token BRACE_L 32 33 None, Token NAME 34 35 (Some ''x''), Token BRACE_R 36 37 None,
      Token BRACE_R 38 39 None]"

section \<open>What a successful step says about the lexer\<close>

lemma bnd_Inr: "bnd m f lx = Inr r \<longleftrightarrow> (\<exists>a lx'. m lx = Inr (a, lx') \<and> f a lx' = Inr r)"
  by (auto simp: bnd_def split: sum.splits)

lemma bnd_Inl:
  "bnd m f lx = Inl e \<longleftrightarrow> (m lx = Inl e \<or> (\<exists>a lx'. m lx = Inr (a, lx') \<and> f a lx' = Inl e))"
  by (auto simp: bnd_def split: sum.splits)

lemma ret_Inr: "ret a lx = Inr r \<longleftrightarrow> r = (a, lx)"
  by (auto simp: ret_def)

lemma throw_Inr: "throw mk lx = Inr r \<longleftrightarrow> False"
  by (simp add: throw_def)

lemma currentToken_Inr: "currentToken lx = Inr r \<longleftrightarrow> r = (token lx, lx)"
  by (auto simp: currentToken_def)

lemma peek_Inr: "peek k lx = Inr r \<longleftrightarrow> r = (kind (token lx) = k, lx)"
  by (auto simp: peek_def)

lemma skip_Inr: "skip k lx = Inr (b, lx') \<longleftrightarrow>
   (b = (kind (token lx) = k) \<and> (if b then advanced lx lx' else lx' = lx))"
  by (auto simp: skip_def Let_def bnd_Inr ret_Inr advanced_def)

lemma expect_Inr: "expect k lx = Inr (t, lx') \<longleftrightarrow>
   (kind (token lx) = k \<and> t = token lx \<and> advanced lx lx')"
  by (auto simp: expect_def Let_def bnd_Inr ret_Inr advanced_def)

lemma expectKeyword_Inr: "expectKeyword v lx = Inr (t, lx') \<longleftrightarrow>
   (kind (token lx) = NAME \<and> value' (token lx) = Some v \<and> t = token lx \<and> advanced lx lx')"
  by (auto simp: expectKeyword_def Let_def bnd_Inr ret_Inr advanced_def)

lemma advance_Inr: "advance lx = Inr (t, lx') \<longleftrightarrow> (advanced lx lx' \<and> t = token lx')"
  by (auto simp: advanced_def advance_def split: sum.splits)

lemma lookahead_Inr: "lookahead lx = Inr (t, lx') \<Longrightarrow> lx' = lx"
  by (auto simp: lookahead_def split: list.splits streamEnd.splits)

lemma advanced_fields:
  "advanced lx lx' \<Longrightarrow> lastToken lx' = token lx \<and> options lx' = options lx
     \<and> source lx' = source lx \<and> pending lx' = tl (pending lx) \<and> ending lx' = ending lx"
  by (auto simp: advanced_def advance_def split: sum.splits)

lemma loc_Inr: "loc st lx = Inr (l, lx') \<longleftrightarrow>
   (lx' = lx \<and> l = (if noLocation (options lx) = Some True then None
                     else Some (Loc st (lastToken lx) (source lx))))"
  by (auto simp: loc_def)

lemmas step_simps = bnd_Inr ret_Inr throw_Inr currentToken_Inr peek_Inr skip_Inr expect_Inr
  expectKeyword_Inr advance_Inr loc_Inr

lemma yieldsD: "yields p Q \<Longrightarrow> p lx = Inr (a, lx') \<Longrightarrow> Q a"
  by (auto simp: yields_def)

lemma untilSkip_yields:
  "untilSkip n k p acc lx = Inr (xs, lx') \<Longrightarrow> yields p Q \<Longrightarrow>
     \<exists>ys. xs = acc @ ys \<and> (\<forall>y\<in>set ys. Q y)"
proof (induction n arbitrary: acc lx)
  case 0
  then show ?case by (simp add: throw_Inr)
next
  case (Suc n)
  from Suc.prems(1) consider (stop) "xs = acc"
    | (go) a l1 l2 where "p l1 = Inr (a, l2)" "untilSkip n k p (acc @ [a]) l2 = Inr (xs, lx')"
    by (auto simp: step_simps split: if_splits)
  then show ?case
  proof cases
    case stop
    then show ?thesis by simp
  next
    case go
    from Suc.IH[OF go(2) Suc.prems(2)] yieldsD[OF Suc.prems(2) go(1)] show ?thesis by auto
  qed
qed

lemma whilePeek_yields:
  "whilePeek n k p acc lx = Inr (xs, lx') \<Longrightarrow> yields p Q \<Longrightarrow>
     \<exists>ys. xs = acc @ ys \<and> (\<forall>y\<in>set ys. Q y)"
proof (induction n arbitrary: acc lx)
  case 0
  then show ?case by (simp add: throw_Inr)
next
  case (Suc n)
  from Suc.prems(1) consider (stop) "xs = acc"
    | (go) a l1 l2 where "p l1 = Inr (a, l2)" "whilePeek n k p (acc @ [a]) l2 = Inr (xs, lx')"
    by (auto simp: step_simps split: if_splits)
  then show ?case
  proof cases
    case stop
    then show ?thesis by simp
  next
    case go
    from Suc.IH[OF go(2) Suc.prems(2)] yieldsD[OF Suc.prems(2) go(1)] show ?thesis by auto
  qed
qed

lemma doWhileSkip_yields:
  "doWhileSkip n k p acc lx = Inr (xs, lx') \<Longrightarrow> yields p Q \<Longrightarrow>
     \<exists>ys. xs = acc @ ys \<and> ys \<noteq> [] \<and> (\<forall>y\<in>set ys. Q y)"
proof (induction n arbitrary: acc lx)
  case 0
  then show ?case by (simp add: throw_Inr)
next
  case (Suc n)
  from Suc.prems(1) obtain a l1 where a: "p lx = Inr (a, l1)"
    and rest: "xs = acc @ [a] \<or> (\<exists>l2. doWhileSkip n k p (acc @ [a]) l2 = Inr (xs, lx'))"
    by (auto simp: step_simps split: if_splits)
  from rest show ?case
  proof
    assume "xs = acc @ [a]"
    with yieldsD[OF Suc.prems(2) a] show ?thesis by simp
  next
    assume "\<exists>l2. doWhileSkip n k p (acc @ [a]) l2 = Inr (xs, lx')"
    then obtain l2 where "doWhileSkip n k p (acc @ [a]) l2 = Inr (xs, lx')" ..
    from Suc.IH[OF this Suc.prems(2)] yieldsD[OF Suc.prems(2) a] show ?thesis by auto
  qed
qed

lemma many_yields:
  "many opening p closing lx = Inr (xs, lx') \<Longrightarrow> yields p Q \<Longrightarrow>
     xs \<noteq> [] \<and> (\<forall>y\<in>set xs. Q y)"
  by (auto simp: many_def step_simps dest!: untilSkip_yields dest: yieldsD)

lemma any_yields:
  "any opening p closing lx = Inr (xs, lx') \<Longrightarrow> yields p Q \<Longrightarrow> (\<forall>y\<in>set xs. Q y)"
  by (auto simp: any_def step_simps dest!: untilSkip_yields)

lemma yields_True: "yields p (\<lambda>_. True)"
  by (simp add: yields_def)

section \<open>Documents\<close>

lemma result_Inr: "result r = Inr a \<longleftrightarrow> (\<exists>lx. r = Inr (a, lx))"
  by (auto simp: result_def split: sum.splits)

lemma parse_Inr:
  "parse tokenize src opts = Inr doc \<longleftrightarrow>
     (instanceofSource (toSourceObj src) \<and>
      (\<exists>lx. parseDocument (createLexer tokenize (toSourceObj src) (orEmpty opts)) = Inr (doc, lx)))"
  by (auto simp: parse_def Let_def result_Inr)

lemma parseDocument_nonempty:
  "parseDocument lx = Inr (doc, lx') \<Longrightarrow> definitions doc \<noteq> []"
  by (auto simp: parseDocument_def step_simps dest!: untilSkip_yields[OF _ yields_True])

text \<open>
  C3. Every document that \<^verbatim>\<open>parse\<close> returns has at least one definition, and on the
  empty text, whose token stream is \<^verbatim>\<open>EOF\<close> at offset 0 alone, \<^verbatim>\<open>parse\<close> returns no
  document: it throws the syntax error \<^verbatim>\<open>Unexpected <EOF>\<close> at offset 0, the error of
  \<^verbatim>\<open>parseDefinition\<close> on a token that starts no definition.
\<close>

theorem C3_document_has_definition:
  "(\<forall>doc. parse tokenize src opts = Inr doc \<longrightarrow> definitions doc \<noteq> []) \<and>
   parse (tokensThenEOF [] 0) (JSString '''') opts =
     Inl (SyntaxError (SourceInstance (Source '''' ''GraphQL'')) 0
            (Unexpected (Token EOF 0 0 None)))"
proof
  show "\<forall>doc. parse tokenize src opts = Inr doc \<longrightarrow> definitions doc \<noteq> []"
    by (auto simp: parse_Inr dest: parseDocument_nonempty)
  show "parse (tokensThenEOF [] 0) (JSString '''') opts =
     Inl (SyntaxError (SourceInstance (Source '''' ''GraphQL'')) 0
            (Unexpected (Token EOF 0 0 None)))"
    by code_simp
qed

theorem C3_document_has_definition_witness:
  "parse (tokensThenEOF tokens_shorthand 7) (JSString ''{ a b }'')
       (Some \<lparr>noLocation = Some True\<rparr>) =
     Inr (Document
       [OperationDefinition ''query'' None [] []
         (SelectionSet
           [Field None (Name (Some ''a'') None) [] [] None None,
            Field None (Name (Some ''b'') None) [] [] None None]
           None)
         None]
       None) \<and>
   definitions (Document
       [OperationDefinition ''query'' None [] []
         (SelectionSet
           [Field None (Name (Some ''a'') None) [] [] None None,
            Field None (Name (Some ''b'') None) [] [] None None]
           None)
         None]
       None) \<noteq> []"
proof -
  have run: "parse (tokensThenEOF tokens_shorthand 7) (JSString ''{ a b }'')
       (Some \<lparr>noLocation = Some True\<rparr>) =
     Inr (Document
       [OperationDefinition ''query'' None [] []
         (SelectionSet
           [Field None (Name (Some ''a'') None) [] [] None None,
            Field None (Name (Some ''b'') None) [] [] None None]
           None)
         None]
       None)"
    by code_simp
  from C3_document_has_definition[THEN conjunct1, rule_format, OF run] run
  show ?thesis by simp
qed

declare parseList_fuel.simps [simp del] parseObject_fuel.simps [simp del]
  parseObjectField_fuel.simps [simp del] parseSelection_fuel.simps [simp del]
  parseField_fuel.simps [simp del] parseFragment_fuel.simps [simp del]

section \<open>Names and type references\<close>

lemma parseName_Inr:
  "parseName lx = Inr (n, lx') \<Longrightarrow>
     kind (token lx) = NAME \<and> advanced lx lx' \<and> n = Name (value' (token lx)) (spanned lx lx')"
  by (auto simp: parseName_def step_simps spanned_def dest: advanced_fields)

lemma parseNamedType_Inr:
  "parseNamedType lx = Inr (t, lx') \<Longrightarrow>
     kind (token lx) = NAME \<and> advanced lx lx' \<and>
     t = NamedType (Name (value' (token lx)) (spanned lx lx')) (spanned lx lx')"
  by (auto simp: parseNamedType_def step_simps spanned_def dest!: parseName_Inr dest: advanced_fields)

lemma parseTypeReference_fuel_shape:
  "parseTypeReference_fuel n lx = Inr (t, lx') \<Longrightarrow>
     noNonNullInNonNull t \<and>
     (isNonNullType t \<longleftrightarrow> kind (lastToken lx') = BANG) \<and>
     (\<not> isNonNullType t \<longrightarrow> kind (token lx') \<noteq> BANG) \<and>
     (if kind (token lx) = BRACKET_L then isListType (nullable t) else isNamedType (nullable t)) \<and>
     (\<forall>inner l. nullable t = ListType inner (Some l) \<longrightarrow>
        startToken l = token lx \<and> kind (endToken l) = BRACKET_R)"
proof (induction n arbitrary: lx t lx')
  case 0
  then show ?case by (simp add: throw_Inr)
next
  case (Suc n)
  then show ?case
    by (auto simp: step_simps Loc_def split: if_splits dest!: parseNamedType_Inr advanced_fields)
qed

text \<open>
  C4. Whenever \<^verbatim>\<open>parseTypeReference\<close> returns a type: no \<^verbatim>\<open>NonNullType\<close> in it wraps a
  \<^verbatim>\<open>NonNullType\<close>; the type is a \<^verbatim>\<open>NonNullType\<close> exactly when the last token consumed
  is \<^verbatim>\<open>!\<close>, and when it is not, the next token is not \<^verbatim>\<open>!\<close>; under the optional
  \<^verbatim>\<open>NonNullType\<close> there is a \<^verbatim>\<open>ListType\<close> when the first token is \<^verbatim>\<open>[\<close> and a
  \<^verbatim>\<open>NamedType\<close> otherwise; and the \<^verbatim>\<open>ListType\<close>, when it has a location, runs from
  that \<^verbatim>\<open>[\<close> to a \<^verbatim>\<open>]\<close>. On the tokens of \<^verbatim>\<open>[Int!]!\<close>, \<^verbatim>\<open>parseType\<close> returns
  \<^verbatim>\<open>NonNullType(ListType(NonNullType(NamedType("Int"))))\<close>.
\<close>

theorem C4_type_reference:
  "(\<forall>t lexer'. parseTypeReference lexer = Inr (t, lexer') \<longrightarrow>
      noNonNullInNonNull t \<and>
      (isNonNullType t \<longleftrightarrow> kind (lastToken lexer') = BANG) \<and>
      (\<not> isNonNullType t \<longrightarrow> kind (token lexer') \<noteq> BANG) \<and>
      (if kind (token lexer) = BRACKET_L then isListType (nullable t)
       else isNamedType (nullable t)) \<and>
      (\<forall>inner l. nullable t = ListType inner (Some l) \<longrightarrow>
         startToken l = token lexer \<and> kind (endToken l) = BRACKET_R)) \<and>
   parseType (tokensThenEOF tokens_listType 7) (JSString ''[Int!]!'') withoutLocations =
     Inr (NonNullType
            (ListType (NonNullType (NamedType (Name (Some ''Int'') None) None) None) None)
            None)"
proof
  show "\<forall>t lexer'. parseTypeReference lexer = Inr (t, lexer') \<longrightarrow>
      noNonNullInNonNull t \<and>
      (isNonNullType t \<longleftrightarrow> kind (lastToken lexer') = BANG) \<and>
      (\<not> isNonNullType t \<longrightarrow> kind (token lexer') \<noteq> BANG) \<and>
      (if kind (token lexer) = BRACKET_L then isListType (nullable t)
       else isNamedType (nullable t)) \<and>
      (\<forall>inner l. nullable t = ListType inner (Some l) \<longrightarrow>
         startToken l = token lexer \<and> kind (endToken l) = BRACKET_R)"
    unfolding parseTypeReference_def by (intro allI impI parseTypeReference_fuel_shape)
  show "parseType (tokensThenEOF tokens_listType 7) (JSString ''[Int!]!'') withoutLocations =
     Inr (NonNullType
            (ListType (NonNullType (NamedType (Name (Some ''Int'') None) None) None) None)
            None)"
    by code_simp
qed

theorem C4_type_reference_witness:
  "result (parseTypeReference
      (lexerPastSOF (JSString ''[Int!]!'') \<lparr>noLocation = Some True\<rparr>
         (Token BRACKET_L 0 1 None) (tl tokens_listType) 7)) =
     Inr (NonNullType
            (ListType (NonNullType (NamedType (Name (Some ''Int'') None) None) None) None)
            None) \<and>
   noNonNullInNonNull
     (NonNullType
        (ListType (NonNullType (NamedType (Name (Some ''Int'') None) None) None) None)
        None)"
proof -
  have run: "parseTypeReference
      (lexerPastSOF (JSString ''[Int!]!'') \<lparr>noLocation = Some True\<rparr>
         (Token BRACKET_L 0 1 None) (tl tokens_listType) 7) =
     Inr (NonNullType
            (ListType (NonNullType (NamedType (Name (Some ''Int'') None) None) None) None)
            None,
          \<lparr> source = JSString ''[Int!]!'', options = \<lparr>noLocation = Some True\<rparr>,
            lastToken = Token BANG 6 7 None, token = Token EOF 7 7 None,
            pending = [], ending = EndOfFile 7 \<rparr>)"
    by code_simp
  from C4_type_reference[THEN conjunct1, rule_format, OF run] run
  show ?thesis by (simp add: result_def)
qed

section \<open>Value literals\<close>

lemma parseVariable_Inr:
  "parseVariable lx = Inr (v, lx') \<Longrightarrow> isVariable v"
  by (auto simp: parseVariable_def step_simps)

lemma fuel_Suc: "fuel lx = Suc (Suc (length (pending lx)))"
  by (simp add: fuel_def)

lemma parseValueLiteral_dollar:
  "kind (token lx) = DOLLAR \<Longrightarrow>
     parseValueLiteral isConst lx =
       (if isConst then Inl (SyntaxError (source lx) (start (token lx)) (Unexpected (token lx)))
        else parseVariable lx)"
  by (simp add: parseValueLiteral_def fuel_Suc bnd_def currentToken_def throw_def unexpected_def Let_def)

lemma parseStringLiteral_const:
  "parseStringLiteral lx = Inr (v, lx') \<Longrightarrow> \<not> hasVariable v"
  by (auto simp: parseStringLiteral_def step_simps)

lemma parseValueLiteral_fuel_const:
  "parseValueLiteral_fuel n True lx = Inr (v, lx') \<Longrightarrow> \<not> hasVariable v"
proof (induction n arbitrary: lx v lx')
  case 0
  then show ?case by (simp add: throw_Inr)
next
  case (Suc n)
  have item: "yields (parseValueLiteral_fuel n True) (\<lambda>v. \<not> hasVariable v)"
    unfolding yields_def using Suc.IH by blast
  have field: "yields (parseObjectField_fuel n True) (\<lambda>f. \<not> fieldHasVariable f)"
    unfolding yields_def using Suc.IH by (auto simp: parseObjectField_fuel.simps step_simps)
  from Suc.prems show ?case
    by (auto simp: step_simps parseList_fuel.simps parseObject_fuel.simps
          split: tokenKind.splits if_splits
          dest!: parseStringLiteral_const any_yields[OF _ item] untilSkip_yields[OF _ field])
qed

text \<open>
  C2. At a \<^verbatim>\<open>$\<close> token, \<^verbatim>\<open>parseValueLiteral\<close> in a const context throws the syntax error
  \<^verbatim>\<open>Unexpected $\<close> at the start of that token, and in a non-const context it is
  \<^verbatim>\<open>parseVariable\<close>, so that what it returns is a \<^verbatim>\<open>Variable\<close> node; no value returned in a
  const context contains a \<^verbatim>\<open>Variable\<close>. \<^verbatim>\<open>parseValue\<close> on the tokens of \<^verbatim>\<open>$x\<close> returns the
  variable \<^verbatim>\<open>x\<close>; \<^verbatim>\<open>parse\<close> on the tokens of \<^verbatim>\<open>query Q($x: Int = $y) { f }\<close> throws
  at offset 18, the \<^verbatim>\<open>$\<close> of \<^verbatim>\<open>$y\<close>.
\<close>

theorem C2_const_rejects_variable:
  "(kind (token lexer) = DOLLAR \<longrightarrow>
      parseValueLiteral True lexer =
        Inl (SyntaxError (source lexer) (start (token lexer)) (Unexpected (token lexer))) \<and>
      parseValueLiteral False lexer = parseVariable lexer \<and>
      (\<forall>v lexer'. parseValueLiteral False lexer = Inr (v, lexer') \<longrightarrow> isVariable v)) \<and>
   (\<forall>v lexer'. parseValueLiteral True lexer = Inr (v, lexer') \<longrightarrow> \<not> hasVariable v) \<and>
   parseValue (tokensThenEOF tokens_variable 2) (JSString ''$x'') withoutLocations =
     Inr (Variable (Name (Some ''x'') None) None) \<and>
   parse (tokensThenEOF tokens_defaultVariable 27) (JSString ''query Q($x: Int = $y) { f }'')
       None =
     Inl (SyntaxError (SourceInstance (Source ''query Q($x: Int = $y) { f }'' ''GraphQL'')) 18
            (Unexpected (Token DOLLAR 18 19 None)))"
proof (intro conjI impI allI)
  assume "kind (token lexer) = DOLLAR"
  then show "parseValueLiteral True lexer =
        Inl (SyntaxError (source lexer) (start (token lexer)) (Unexpected (token lexer)))"
    by (simp add: parseValueLiteral_dollar)
next
  assume "kind (token lexer) = DOLLAR"
  then show "parseValueLiteral False lexer = parseVariable lexer"
    by (simp add: parseValueLiteral_dollar)
next
  fix v lexer'
  assume "kind (token lexer) = DOLLAR" and "parseValueLiteral False lexer = Inr (v, lexer')"
  then show "isVariable v"
    by (simp add: parseValueLiteral_dollar parseVariable_Inr)
next
  fix v lexer'
  assume "parseValueLiteral True lexer = Inr (v, lexer')"
  then show "\<not> hasVariable v"
    unfolding parseValueLiteral_def by (rule parseValueLiteral_fuel_const)
next
  show "parseValue (tokensThenEOF tokens_variable 2) (JSString ''$x'') withoutLocations =
     Inr (Variable (Name (Some ''x'') None) None)"
    by code_simp
next
  show "parse (tokensThenEOF tokens_defaultVariable 27) (JSString ''query Q($x: Int = $y) { f }'')
       None =
     Inl (SyntaxError (SourceInstance (Source ''query Q($x: Int = $y) { f }'' ''GraphQL'')) 18
            (Unexpected (Token DOLLAR 18 19 None)))"
    by code_simp
qed

theorem C2_const_rejects_variable_witness:
  "kind (token (lexerPastSOF (JSString ''$x'') \<lparr>noLocation = Some True\<rparr>
                  (Token DOLLAR 0 1 None) [Token NAME 1 2 (Some ''x'')] 2)) = DOLLAR \<and>
   parseValueLiteral True
     (lexerPastSOF (JSString ''$x'') \<lparr>noLocation = Some True\<rparr>
        (Token DOLLAR 0 1 None) [Token NAME 1 2 (Some ''x'')] 2) =
     Inl (SyntaxError (JSString ''$x'') 0 (Unexpected (Token DOLLAR 0 1 None))) \<and>
   result (parseValueLiteral False
     (lexerPastSOF (JSString ''$x'') \<lparr>noLocation = Some True\<rparr>
        (Token DOLLAR 0 1 None) [Token NAME 1 2 (Some ''x'')] 2)) =
     Inr (Variable (Name (Some ''x'') None) None)"
proof -
  have at: "kind (token (lexerPastSOF (JSString ''$x'') \<lparr>noLocation = Some True\<rparr>
                  (Token DOLLAR 0 1 None) [Token NAME 1 2 (Some ''x'')] 2)) = DOLLAR"
    by (simp add: lexerPastSOF_def)
  have run: "result (parseVariable
     (lexerPastSOF (JSString ''$x'') \<lparr>noLocation = Some True\<rparr>
        (Token DOLLAR 0 1 None) [Token NAME 1 2 (Some ''x'')] 2)) =
     Inr (Variable (Name (Some ''x'') None) None)"
    by code_simp
  from C2_const_rejects_variable[THEN conjunct1, rule_format, OF at] at run
  show ?thesis by (simp add: lexerPastSOF_def)
qed

text \<open>
  C8. \<^verbatim>\<open>parseValue\<close> on the tokens of \<^verbatim>\<open>[42]\<close> and the value of the only argument of the
  only field of what \<^verbatim>\<open>parse\<close> returns on the tokens of \<^verbatim>\<open>{x(a: [42])}\<close> are the same
  tree once the locations are removed: the list of the integer literal \<^verbatim>\<open>42\<close>.
\<close>

theorem C8_value_same_as_in_document:
  "(case parseValue (tokensThenEOF tokens_list42 4) (JSString ''[42]'') None of
      Inr v \<Rightarrow> Some (withoutLoc v) | Inl e \<Rightarrow> None) =
   (case parse (tokensThenEOF tokens_argument42 12) (JSString ''{x(a: [42])}'') None of
      Inr doc \<Rightarrow> map_option withoutLoc (onlyArgumentValue doc) | Inl e \<Rightarrow> None) \<and>
   (case parseValue (tokensThenEOF tokens_list42 4) (JSString ''[42]'') None of
      Inr v \<Rightarrow> Some (withoutLoc v) | Inl e \<Rightarrow> None) =
   Some (ListValue [IntValue (Some ''42'') None] None)"
  by code_simp

section \<open>Object type extensions\<close>

text \<open>
  C7. Once \<^verbatim>\<open>extend\<close>, \<^verbatim>\<open>type\<close>, the name, the interfaces, the directives and the
  fields (parsed when a \<^verbatim>\<open>{\<close> follows, empty otherwise) have been read,
  \<^verbatim>\<open>parseObjectTypeExtension\<close> throws \<^verbatim>\<open>Unexpected\<close> at the current token when the three
  lists are all empty, and otherwise returns the \<^verbatim>\<open>ObjectTypeExtension\<close> node of the four
  parts; so every node it returns has an interface, a directive or a field. On the tokens
  of \<^verbatim>\<open>extend type Foo\<close> \<^verbatim>\<open>parse\<close> throws at offset 15, on those of
  \<^verbatim>\<open>extend type Foo implements I\<close> it returns the extension.
\<close>

theorem C7_object_type_extension:
  "(\<forall>t1 lexer1 t2 lexer2 name lexer3 interfaces lexer4 directives lexer5 fields lexer6.
      expectKeyword ''extend'' lexer = Inr (t1, lexer1) \<and>
      expectKeyword ''type'' lexer1 = Inr (t2, lexer2) \<and>
      parseName lexer2 = Inr (name, lexer3) \<and>
      parseImplementsInterfaces lexer3 = Inr (interfaces, lexer4) \<and>
      parseDirectives True lexer4 = Inr (directives, lexer5) \<and>
      (if kind (token lexer5) = BRACE_L then parseFieldDefinitions lexer5 else Inr ([], lexer5))
        = Inr (fields, lexer6) \<longrightarrow>
      parseObjectTypeExtension lexer =
        (if interfaces = [] \<and> directives = [] \<and> fields = [] then
           Inl (SyntaxError (source lexer6) (start (token lexer6)) (Unexpected (token lexer6)))
         else
           bnd (loc (token lexer))
             (\<lambda>l. ret (ObjectTypeExtension name interfaces directives fields l)) lexer6)) \<and>
   (\<forall>node lexer'. parseObjectTypeExtension lexer = Inr (node, lexer') \<longrightarrow>
      (\<exists>name interfaces directives fields l.
         node = ObjectTypeExtension name interfaces directives fields l \<and>
         (interfaces \<noteq> [] \<or> directives \<noteq> [] \<or> fields \<noteq> []))) \<and>
   parse (tokensThenEOF tokens_extendBare 15) (JSString ''extend type Foo'') None =
     Inl (SyntaxError (SourceInstance (Source ''extend type Foo'' ''GraphQL'')) 15
            (Unexpected (Token EOF 15 15 None))) \<and>
   parse (tokensThenEOF tokens_extendImplements 28) (JSString ''extend type Foo implements I'')
       withoutLocations =
     Inr (Document
            [ObjectTypeExtension (Name (Some ''Foo'') None)
               [NamedType (Name (Some ''I'') None) None] [] [] None]
            None)"
proof (intro conjI allI impI)
  fix t1 lexer1 t2 lexer2 name lexer3 interfaces lexer4 directives lexer5 fields lexer6
  assume "expectKeyword ''extend'' lexer = Inr (t1, lexer1) \<and>
      expectKeyword ''type'' lexer1 = Inr (t2, lexer2) \<and>
      parseName lexer2 = Inr (name, lexer3) \<and>
      parseImplementsInterfaces lexer3 = Inr (interfaces, lexer4) \<and>
      parseDirectives True lexer4 = Inr (directives, lexer5) \<and>
      (if kind (token lexer5) = BRACE_L then parseFieldDefinitions lexer5 else Inr ([], lexer5))
        = Inr (fields, lexer6)"
  then show "parseObjectTypeExtension lexer =
        (if interfaces = [] \<and> directives = [] \<and> fields = [] then
           Inl (SyntaxError (source lexer6) (start (token lexer6)) (Unexpected (token lexer6)))
         else
           bnd (loc (token lexer))
             (\<lambda>l. ret (ObjectTypeExtension name interfaces directives fields l)) lexer6)"
    by (auto simp: parseObjectTypeExtension_def bnd_def currentToken_def peek_def ret_def
          throw_def unexpected_def Let_def split: if_splits)
next
  fix node lexer'
  assume "parseObjectTypeExtension lexer = Inr (node, lexer')"
  then show "\<exists>name interfaces directives fields l.
         node = ObjectTypeExtension name interfaces directives fields l \<and>
         (interfaces \<noteq> [] \<or> directives \<noteq> [] \<or> fields \<noteq> [])"
    by (auto simp: parseObjectTypeExtension_def step_simps split: if_splits)
next
  show "parse (tokensThenEOF tokens_extendBare 15) (JSString ''extend type Foo'') None =
     Inl (SyntaxError (SourceInstance (Source ''extend type Foo'' ''GraphQL'')) 15
            (Unexpected (Token EOF 15 15 None)))"
    by code_simp
next
  show "parse (tokensThenEOF tokens_extendImplements 28) (JSString ''extend type Foo implements I'')
       withoutLocations =
     Inr (Document
            [ObjectTypeExtension (Name (Some ''Foo'') None)
               [NamedType (Name (Some ''I'') None) None] [] [] None]
            None)"
    by code_simp
qed

theorem C7_object_type_extension_witness:
  "result (parseObjectTypeExtension
      (lexerPastSOF (JSString ''extend type Foo implements I'') \<lparr>noLocation = Some True\<rparr>
         (Token NAME 0 6 (Some ''extend'')) (tl tokens_extendImplements) 28)) =
     Inr (ObjectTypeExtension (Name (Some ''Foo'') None)
            [NamedType (Name (Some ''I'') None) None] [] [] None) \<and>
   [NamedType (Name (Some ''I'') None) None] \<noteq> []"
proof -
  have run: "parseObjectTypeExtension
      (lexerPastSOF (JSString ''extend type Foo implements I'') \<lparr>noLocation = Some True\<rparr>
         (Token NAME 0 6 (Some ''extend'')) (tl tokens_extendImplements) 28) =
     Inr (ObjectTypeExtension (Name (Some ''Foo'') None)
            [NamedType (Name (Some ''I'') None) None] [] [] None,
          \<lparr> source = JSString ''extend type Foo implements I'',
            options = \<lparr>noLocation = Some True\<rparr>,
            lastToken = Token NAME 27 28 (Some ''I''), token = Token EOF 28 28 None,
            pending = [], ending = EndOfFile 28 \<rparr>)"
    by code_simp
  from C7_object_type_extension[THEN conjunct2, THEN conjunct1, rule_format, OF run] run
  show ?thesis by (simp add: result_def)
qed

section \<open>Properties of the nodes a production returns, step by step\<close>

lemma yields_ret: "Q a \<Longrightarrow> yields (ret a) Q"
  by (simp add: yields_def ret_Inr)

lemma yields_throw: "yields (throw mk) Q"
  by (simp add: yields_def throw_Inr)

lemma yields_bnd: "(\<And>a. yields (f a) Q) \<Longrightarrow> yields (bnd m f) Q"
  by (auto simp: yields_def bnd_Inr)

lemma yields_bnd_with: "yields m R \<Longrightarrow> (\<And>a. R a \<Longrightarrow> yields (f a) Q) \<Longrightarrow> yields (bnd m f) Q"
  by (fastforce simp: yields_def bnd_Inr)

lemma yields_if: "(c \<Longrightarrow> yields p Q) \<Longrightarrow> (\<not> c \<Longrightarrow> yields q Q) \<Longrightarrow> yields (if c then p else q) Q"
  by simp

lemma yields_pair: "(\<And>a b. yields (f a b) Q) \<Longrightarrow> yields (case x of (a, b) \<Rightarrow> f a b) Q"
  by (cases x) simp

lemma yields_fuel: "(\<And>n. yields (p n) Q) \<Longrightarrow> yields (\<lambda>lexer. p (fuel lexer) lexer) Q"
  by (auto simp: yields_def)

section \<open>Operations\<close>

lemma advanced_token:
  "advanced lx lx' \<Longrightarrow> pending lx = t # ts \<Longrightarrow> token lx' = t"
  by (auto simp: advanced_def advance_def lookahead_def split: sum.splits)

lemma parseOperationType_yields: "yields parseOperationType (\<lambda>s. s \<in> operationTypes)"
  unfolding parseOperationType_def
  by (rule yields_bnd | rule yields_if | rule yields_throw
      | (rule yields_ret, (simp add: operationTypes_def; fail)))+

lemma parseOperationDefinition_operations:
  "yields parseOperationDefinition (\<lambda>d. set (definitionOperations d) \<subseteq> operationTypes)"
  unfolding parseOperationDefinition_def
  by ((rule yields_bnd_with, rule parseOperationType_yields) | rule yields_bnd | rule yields_if
      | rule yields_throw | (rule yields_ret, (simp add: operationTypes_def; fail)))+

lemma parseOperationDefinition_shorthand:
  "parseOperationDefinition lx = Inr (d, lx') \<Longrightarrow> kind (token lx) = BRACE_L \<Longrightarrow>
     isShorthandQuery d"
  by (auto simp: parseOperationDefinition_def step_simps split: if_splits)

lemma parseFragmentDefinition_operations:
  "yields parseFragmentDefinition (\<lambda>d. set (definitionOperations d) \<subseteq> operationTypes)"
  unfolding parseFragmentDefinition_def
  by (rule yields_bnd | (rule yields_ret, (simp; fail)))+

lemma parseSchemaDefinition_operations:
  "yields parseSchemaDefinition (\<lambda>d. set (definitionOperations d) \<subseteq> operationTypes)"
  unfolding parseSchemaDefinition_def
  by (rule yields_bnd | (rule yields_ret, (simp; fail)))+

lemma parseScalarTypeDefinition_operations:
  "yields parseScalarTypeDefinition (\<lambda>d. set (definitionOperations d) \<subseteq> operationTypes)"
  unfolding parseScalarTypeDefinition_def
  by (rule yields_bnd | (rule yields_ret, (simp; fail)))+

lemma parseObjectTypeDefinition_operations:
  "yields parseObjectTypeDefinition (\<lambda>d. set (definitionOperations d) \<subseteq> operationTypes)"
  unfolding parseObjectTypeDefinition_def
  by (rule yields_bnd | (rule yields_ret, (simp; fail)))+

lemma parseInterfaceTypeDefinition_operations:
  "yields parseInterfaceTypeDefinition (\<lambda>d. set (definitionOperations d) \<subseteq> operationTypes)"
  unfolding parseInterfaceTypeDefinition_def
  by (rule yields_bnd | (rule yields_ret, (simp; fail)))+

lemma parseUnionTypeDefinition_operations:
  "yields parseUnionTypeDefinition (\<lambda>d. set (definitionOperations d) \<subseteq> operationTypes)"
  unfolding parseUnionTypeDefinition_def
  by (rule yields_bnd | (rule yields_ret, (simp; fail)))+

lemma parseEnumTypeDefinition_operations:
  "yields parseEnumTypeDefinition (\<lambda>d. set (definitionOperations d) \<subseteq> operationTypes)"
  unfolding parseEnumTypeDefinition_def
  by (rule yields_bnd | (rule yields_ret, (simp; fail)))+

lemma parseInputObjectTypeDefinition_operations:
  "yields parseInputObjectTypeDefinition (\<lambda>d. set (definitionOperations d) \<subseteq> operationTypes)"
  unfolding parseInputObjectTypeDefinition_def
  by (rule yields_bnd | (rule yields_ret, (simp; fail)))+

lemma parseObjectTypeExtension_operations:
  "yields parseObjectTypeExtension (\<lambda>d. set (definitionOperations d) \<subseteq> operationTypes)"
  unfolding parseObjectTypeExtension_def
  by (rule yields_bnd | rule yields_if | rule yields_throw | (rule yields_ret, (simp; fail)))+

lemma parseTypeExtension_operations:
  "yields parseTypeExtension (\<lambda>d. set (definitionOperations d) \<subseteq> operationTypes)"
  unfolding parseTypeExtension_def
  by (rule parseObjectTypeExtension_operations | rule yields_bnd | rule yields_if
      | rule yields_throw)+

lemma parseDirectiveDefinition_operations:
  "yields parseDirectiveDefinition (\<lambda>d. set (definitionOperations d) \<subseteq> operationTypes)"
  unfolding parseDirectiveDefinition_def
  by (rule yields_bnd | (rule yields_ret, (simp; fail)))+

lemmas typeSystem_operations =
  parseSchemaDefinition_operations parseScalarTypeDefinition_operations
  parseObjectTypeDefinition_operations parseInterfaceTypeDefinition_operations
  parseUnionTypeDefinition_operations parseEnumTypeDefinition_operations
  parseInputObjectTypeDefinition_operations parseTypeExtension_operations
  parseDirectiveDefinition_operations

lemma parseTypeSystemDefinition_operations:
  "yields parseTypeSystemDefinition (\<lambda>d. set (definitionOperations d) \<subseteq> operationTypes)"
  unfolding parseTypeSystemDefinition_def
  by (rule typeSystem_operations | rule yields_bnd | rule yields_if | rule yields_throw)+

lemma parseDefinition_operations:
  "yields parseDefinition (\<lambda>d. set (definitionOperations d) \<subseteq> operationTypes)"
  unfolding parseDefinition_def
  by (rule parseTypeSystemDefinition_operations | rule parseFragmentDefinition_operations
      | rule parseOperationDefinition_operations | rule yields_bnd | rule yields_if
      | rule yields_throw)+

lemma parseDefinition_shorthand:
  "parseDefinition lx = Inr (d, lx') \<Longrightarrow> kind (token lx) = BRACE_L \<Longrightarrow> isShorthandQuery d"
  by (auto simp: parseDefinition_def step_simps split: if_splits
        dest: parseOperationDefinition_shorthand)

lemma parseDocument_operations:
  "parseDocument lx = Inr (doc, lx') \<Longrightarrow> set (documentOperations doc) \<subseteq> operationTypes"
proof -
  assume "parseDocument lx = Inr (doc, lx')"
  then obtain d ds l where doc: "doc = Document (d # ds) l"
    and d: "set (definitionOperations d) \<subseteq> operationTypes"
    and ds: "\<forall>y\<in>set ds. set (definitionOperations y) \<subseteq> operationTypes"
    by (auto simp: parseDocument_def step_simps
          dest!: untilSkip_yields[OF _ parseDefinition_operations]
            yieldsD[OF parseDefinition_operations])
  then show ?thesis
    by (auto simp: each_def)
qed

lemma parseDocument_first:
  "parseDocument lx = Inr (doc, lx') \<Longrightarrow> pending lx = t # ts \<Longrightarrow> kind t = BRACE_L \<Longrightarrow>
     isShorthandQuery (hd (definitions doc))"
  by (auto simp: parseDocument_def step_simps
        dest!: untilSkip_yields[OF _ yields_True] parseDefinition_shorthand advanced_token)

text \<open>
  C1. In every document that \<^verbatim>\<open>parse\<close> returns, the \<^verbatim>\<open>operation\<close> of each
  \<^verbatim>\<open>OperationDefinition\<close> is \<^verbatim>\<open>query\<close>, \<^verbatim>\<open>mutation\<close> or \<^verbatim>\<open>subscription\<close>; and when the
  first token of the source is \<^verbatim>\<open>{\<close>, the first definition of the document is an
  \<^verbatim>\<open>OperationDefinition\<close> with operation \<^verbatim>\<open>query\<close>, no name, no variable definitions and
  no directives.
\<close>

theorem C1_operation_definition:
  "parse tokenize src opts = Inr doc \<longrightarrow>
     set (documentOperations doc) \<subseteq> {''query'', ''mutation'', ''subscription''} \<and>
     (firstTokenIs tokenize src BRACE_L \<longrightarrow> isShorthandQuery (hd (definitions doc)))"
proof (intro impI conjI)
  assume "parse tokenize src opts = Inr doc"
  then show "set (documentOperations doc) \<subseteq> {''query'', ''mutation'', ''subscription''}"
    by (auto simp: parse_Inr operationTypes_def[symmetric] dest!: parseDocument_operations)
next
  assume "parse tokenize src opts = Inr doc" and "firstTokenIs tokenize src BRACE_L"
  then show "isShorthandQuery (hd (definitions doc))"
    by (auto simp: parse_Inr firstTokenIs_def createLexer_def split: list.splits
          dest!: parseDocument_first)
qed

theorem C1_operation_definition_witness:
  "parse (tokensThenEOF tokens_shorthand 7) (JSString ''{ a b }'') withoutLocations =
     Inr (Document
       [OperationDefinition ''query'' None [] []
         (SelectionSet
           [Field None (Name (Some ''a'') None) [] [] None None,
            Field None (Name (Some ''b'') None) [] [] None None]
           None)
         None]
       None) \<and>
   firstTokenIs (tokensThenEOF tokens_shorthand 7) (JSString ''{ a b }'') BRACE_L \<and>
   isShorthandQuery (hd (definitions (Document
       [OperationDefinition ''query'' None [] []
         (SelectionSet
           [Field None (Name (Some ''a'') None) [] [] None None,
            Field None (Name (Some ''b'') None) [] [] None None]
           None)
         None]
       None)))"
proof -
  have run: "parse (tokensThenEOF tokens_shorthand 7) (JSString ''{ a b }'') withoutLocations =
     Inr (Document
       [OperationDefinition ''query'' None [] []
         (SelectionSet
           [Field None (Name (Some ''a'') None) [] [] None None,
            Field None (Name (Some ''b'') None) [] [] None None]
           None)
         None]
       None)"
    by code_simp
  have first: "firstTokenIs (tokensThenEOF tokens_shorthand 7) (JSString ''{ a b }'') BRACE_L"
    by code_simp
  from C1_operation_definition[rule_format, OF run] first run
  show ?thesis by simp
qed

section \<open>Untyped values\<close>

declare valueFromASTUntyped.simps [simp del]

lemma collect_Inl: "collect xs = Inl e \<Longrightarrow> Inl e \<in> set xs"
  by (induction xs) (auto split: sum.splits)

lemma valueFromASTUntyped_no_error: "valueFromASTUntyped js v vars \<noteq> Inl e"
proof (induction js v vars arbitrary: e rule: valueFromASTUntyped.induct)
  case (1 js valueNode variables)
  show ?case
  proof (cases valueNode)
    case (ListValue vs l)
    have "collect (map (\<lambda>node. valueFromASTUntyped js node variables) vs) \<noteq> Inl e'" for e'
    proof
      assume "collect (map (\<lambda>node. valueFromASTUntyped js node variables) vs) = Inl e'"
      then have "Inl e' \<in> set (map (\<lambda>node. valueFromASTUntyped js node variables) vs)"
        by (rule collect_Inl)
      then obtain node where "node \<in> set vs" "valueFromASTUntyped js node variables = Inl e'"
        by auto
      with 1(1)[of node e'] ListValue show False by simp
    qed
    with ListValue show ?thesis
      by (subst valueFromASTUntyped.simps) (simp split: sum.splits)
  next
    case (ObjectValue fs l)
    have "collect (map (\<lambda>field.
                 case valueFromASTUntyped js (fieldValue field) variables of
                   Inl e \<Rightarrow> Inl e | Inr v \<Rightarrow> Inr (propertyKey (fieldName field), v)) fs)
            \<noteq> Inl e'" for e'
    proof
      assume "collect (map (\<lambda>field.
                 case valueFromASTUntyped js (fieldValue field) variables of
                   Inl e \<Rightarrow> Inl e | Inr v \<Rightarrow> Inr (propertyKey (fieldName field), v)) fs)
            = Inl e'"
      then have "Inl e' \<in> set (map (\<lambda>field.
                 case valueFromASTUntyped js (fieldValue field) variables of
                   Inl e \<Rightarrow> Inl e | Inr v \<Rightarrow> Inr (propertyKey (fieldName field), v)) fs)"
        by (rule collect_Inl)
      then obtain field where "field \<in> set fs"
        "valueFromASTUntyped js (fieldValue field) variables = Inl e'"
        by (auto split: sum.splits)
      with 1(2)[of field e'] ObjectValue show False by simp
    qed
    with ObjectValue show ?thesis
      by (subst valueFromASTUntyped.simps) (simp split: sum.splits)
  qed (subst valueFromASTUntyped.simps, simp add: Let_def split: option.splits)+
qed

lemma valueFromASTUntyped_Variable:
  "valueFromASTUntyped js (Variable name l) (Some object) =
     Inr (if isInvalid js (getProperty object (propertyKey (nameValue name))) then JSUndefined
          else getProperty object (propertyKey (nameValue name)))"
  by (subst valueFromASTUntyped.simps) (simp add: Let_def)

lemma getProperty_no_prototype:
  "prototype object = None \<Longrightarrow> map_of (own object) k = None \<Longrightarrow>
     getProperty object k = JSUndefined"
  by (cases object) (simp add: getProperty_def)

text \<open>
  C10. \<^verbatim>\<open>valueFromASTUntyped\<close> never throws on a value node: the \<^verbatim>\<open>kind\<close> of every value
  node is one of the nine that the \<^verbatim>\<open>switch\<close> handles, at every depth. A \<^verbatim>\<open>Variable\<close>
  evaluated without variables gives \<^verbatim>\<open>undefined\<close>. Evaluated with variables, it gives
  what the property read \<^verbatim>\<open>variables[name]\<close> gives, own or inherited, and \<^verbatim>\<open>undefined\<close>
  when that is invalid: so \<^verbatim>\<open>undefined\<close> when the read finds no property, as it does
  for every name that is not a property of an object without prototype.
\<close>

theorem C10_untyped_value_never_throws:
  "(\<forall>e. valueFromASTUntyped js valueNode variables \<noteq> Inl e) \<and>
   kindOf valueNode \<in> {''NullValue'', ''IntValue'', ''FloatValue'', ''StringValue'',
     ''BooleanValue'', ''EnumValue'', ''ListValue'', ''ObjectValue'', ''Variable''} \<and>
   valueFromASTUntyped js (Variable name l) None = Inr JSUndefined \<and>
   valueFromASTUntyped js (Variable name l) (Some object) =
     Inr (if isInvalid js (getProperty object (propertyKey (nameValue name))) then JSUndefined
          else getProperty object (propertyKey (nameValue name))) \<and>
   (getProperty object (propertyKey (nameValue name)) = JSUndefined \<longrightarrow>
      valueFromASTUntyped js (Variable name l) (Some object) = Inr JSUndefined) \<and>
   (prototype object = None \<and> map_of (own object) (propertyKey (nameValue name)) = None \<longrightarrow>
      valueFromASTUntyped js (Variable name l) (Some object) = Inr JSUndefined)"
proof (intro conjI allI impI)
  fix e
  show "valueFromASTUntyped js valueNode variables \<noteq> Inl e"
    by (rule valueFromASTUntyped_no_error)
next
  show "kindOf valueNode \<in> {''NullValue'', ''IntValue'', ''FloatValue'', ''StringValue'',
     ''BooleanValue'', ''EnumValue'', ''ListValue'', ''ObjectValue'', ''Variable''}"
    by (cases valueNode) simp_all
next
  show "valueFromASTUntyped js (Variable name l) None = Inr JSUndefined"
    by (subst valueFromASTUntyped.simps) simp
next
  show "valueFromASTUntyped js (Variable name l) (Some object) =
     Inr (if isInvalid js (getProperty object (propertyKey (nameValue name))) then JSUndefined
          else getProperty object (propertyKey (nameValue name)))"
    by (rule valueFromASTUntyped_Variable)
next
  assume "getProperty object (propertyKey (nameValue name)) = JSUndefined"
  then show "valueFromASTUntyped js (Variable name l) (Some object) = Inr JSUndefined"
    by (simp add: valueFromASTUntyped_Variable)
next
  assume "prototype object = None \<and> map_of (own object) (propertyKey (nameValue name)) = None"
  then have "getProperty object (propertyKey (nameValue name)) = JSUndefined"
    by (simp add: getProperty_no_prototype)
  then show "valueFromASTUntyped js (Variable name l) (Some object) = Inr JSUndefined"
    by (simp add: valueFromASTUntyped_Variable)
qed

theorem C10_untyped_value_never_throws_witness:
  "getProperty (objectLiteral [(''w'', JSNull)]) ''v'' = (JSUndefined :: string jsValue) \<and>
   valueFromASTUntyped textualNumbers (Variable (Name (Some ''v'') None) None)
     (Some (objectLiteral [(''w'', JSNull)])) = Inr JSUndefined \<and>
   prototype (createNull [(''w'', JSNull)] :: string jsObject) = None \<and>
   map_of (own (createNull [(''w'', JSNull)] :: string jsObject)) ''toString'' = None \<and>
   valueFromASTUntyped textualNumbers (Variable (Name (Some ''toString'') None) None)
     (Some (createNull [(''w'', JSNull)])) = Inr JSUndefined \<and>
   valueFromASTUntyped textualNumbers (Variable (Name (Some ''w'') None) None)
     (Some (createNull [(''w'', JSNull)])) = Inr JSNull"
proof -
  have nowhere:
    "getProperty (objectLiteral [(''w'', JSNull)])
       (propertyKey (nameValue (Name (Some ''v'') None))) = (JSUndefined :: string jsValue)"
    by code_simp
  have bare:
    "prototype (createNull [(''w'', JSNull)] :: string jsObject) = None \<and>
     map_of (own (createNull [(''w'', JSNull)] :: string jsObject))
       (propertyKey (nameValue (Name (Some ''toString'') None))) = None"
    by code_simp
  have bound:
    "valueFromASTUntyped textualNumbers (Variable (Name (Some ''w'') None) None)
       (Some (createNull [(''w'', JSNull)])) = Inr JSNull"
    by code_simp
  from C10_untyped_value_never_throws[THEN conjunct2, THEN conjunct2, THEN conjunct2,
      THEN conjunct2, THEN conjunct1, rule_format, OF nowhere]
    C10_untyped_value_never_throws[THEN conjunct2, THEN conjunct2, THEN conjunct2,
      THEN conjunct2, THEN conjunct2, rule_format, OF bare]
    nowhere bare bound
  show ?thesis by (simp add: propertyKey_def)
qed

text \<open>
  The object literal \<^verbatim>\<open>{}\<close> has no property \<^verbatim>\<open>toString\<close> of its own, and the variable
  \<^verbatim>\<open>$toString\<close> evaluated with it gives the function it inherits from
  \<^verbatim>\<open>Object.prototype\<close>, not \<^verbatim>\<open>undefined\<close>.
\<close>

theorem C10_untyped_value_inherited_counterexample:
  "map_of (own (objectLiteral [] :: string jsObject)) ''toString'' = None \<and>
   valueFromASTUntyped textualNumbers (Variable (Name (Some ''toString'') None) None)
     (Some (objectLiteral [])) = Inr (JSFunction ''toString'') \<and>
   valueFromASTUntyped textualNumbers (Variable (Name (Some ''toString'') None) None)
     (Some (objectLiteral [])) \<noteq> Inr JSUndefined"
  by code_simp

section \<open>Every production consumes tokens\<close>

named_theorems consumes_specs

lemma advanced_remaining:
  "advanced lx lx' \<Longrightarrow>
     remaining lx' \<le> remaining lx \<and> (kind (token lx) \<noteq> EOF \<longrightarrow> remaining lx' < remaining lx)"
  by (cases "pending lx")
     (auto simp: advanced_def advance_def lookahead_def remaining_def
        split: sum.splits streamEnd.splits)

lemma consumes_weaken: "consumes b' p \<Longrightarrow> (b \<longrightarrow> b') \<Longrightarrow> consumes b p"
  by (cases b; cases b') (simp_all add: consumes_def, blast intro: less_imp_le_nat)

lemma consumes_ret [consumes_specs]: "consumes False (ret a)"
  by (simp add: consumes_def ret_Inr)

lemma consumes_throw [consumes_specs]: "consumes True (throw mk)"
  by (simp add: consumes_def throw_Inr)

lemma consumes_currentToken [consumes_specs]: "consumes False currentToken"
  by (simp add: consumes_def currentToken_Inr)

lemma consumes_peek [consumes_specs]: "consumes False (peek k)"
  by (simp add: consumes_def peek_Inr)

lemma consumes_loc [consumes_specs]: "consumes False (loc st)"
  by (simp add: consumes_def loc_Inr)

lemma consumes_lookahead [consumes_specs]: "consumes False lookahead"
  by (auto simp: consumes_def dest: lookahead_Inr)

lemma consumes_advance [consumes_specs]: "consumes False advance"
  by (auto simp: consumes_def advance_Inr dest: advanced_remaining)

lemma consumes_skip [consumes_specs]: "consumes False (skip k)"
  by (auto simp: consumes_def skip_Inr split: if_splits dest: advanced_remaining)

lemma consumes_expect [consumes_specs]: "consumes (k \<noteq> EOF) (expect k)"
  by (auto simp: consumes_def expect_Inr dest: advanced_remaining)

lemma consumes_expectKeyword [consumes_specs]: "consumes True (expectKeyword v)"
  by (auto simp: consumes_def expectKeyword_Inr dest: advanced_remaining)

lemma consumes_bnd:
  "consumes b1 m \<Longrightarrow> (\<And>a. consumes b2 (f a)) \<Longrightarrow> consumes (b1 \<or> b2) (bnd m f)"
  unfolding consumes_def bnd_Inr
  by (cases b1; cases b2; simp)
     (blast intro: less_le_trans le_less_trans less_trans le_trans)+

lemma consumes_if:
  "consumes b1 p \<Longrightarrow> consumes b2 q \<Longrightarrow> consumes (b1 \<and> b2) (if c then p else q)"
  by (cases b1; cases b2) (simp_all add: consumes_def, (blast intro: less_imp_le_nat)+)

lemma consumes_pair:
  "(\<And>x y. consumes b (g x y)) \<Longrightarrow> consumes b (case_prod g a)"
  by (cases a) simp

lemma consumes_Name:
  "(\<And>v l. consumes b (g v l)) \<Longrightarrow> consumes b (case_nameNode g n)"
  by (cases n) simp

lemmas consumes_rules = consumes_bnd consumes_if consumes_pair consumes_Name

lemma untilSkip_consumes:
  "consumes b p \<Longrightarrow> consumes False (untilSkip n k p acc)"
proof (induction n arbitrary: acc)
  case 0
  then show ?case by (simp add: consumes_throw[THEN consumes_weaken])
next
  case (Suc n)
  have p: "consumes False p"
    by (rule consumes_weaken[OF Suc.prems]) simp
  show ?case
    unfolding untilSkip.simps
    by (rule consumes_weaken, (rule consumes_rules consumes_specs p Suc.IH[OF Suc.prems])+, simp)
qed

lemma whilePeek_consumes:
  "consumes b p \<Longrightarrow> consumes False (whilePeek n k p acc)"
proof (induction n arbitrary: acc)
  case 0
  then show ?case by (simp add: consumes_throw[THEN consumes_weaken])
next
  case (Suc n)
  have p: "consumes False p"
    by (rule consumes_weaken[OF Suc.prems]) simp
  show ?case
    unfolding whilePeek.simps
    by (rule consumes_weaken, (rule consumes_rules consumes_specs p Suc.IH[OF Suc.prems])+, simp)
qed

lemma doWhileSkip_consumes:
  "consumes b p \<Longrightarrow> consumes b (doWhileSkip n k p acc)"
proof (induction n arbitrary: acc)
  case 0
  then show ?case by (simp add: consumes_throw[THEN consumes_weaken])
next
  case (Suc n)
  have rest: "consumes False (doWhileSkip n k p acc')" for acc'
    by (rule consumes_weaken[OF Suc.IH[OF Suc.prems]]) simp
  show ?case
    unfolding doWhileSkip.simps
    by (rule consumes_weaken, (rule consumes_rules consumes_specs Suc.prems rest)+, simp)
qed

lemma consumes_fuel: "(\<And>n. consumes b (p n)) \<Longrightarrow> consumes b (\<lambda>lexer. p (fuel lexer) lexer)"
  by (simp add: consumes_def)

lemma consumes_untilSkip [consumes_specs]:
  "consumes b p \<Longrightarrow> consumes False (\<lambda>lexer. untilSkip (fuel lexer) k p acc lexer)"
  by (rule consumes_fuel) (rule untilSkip_consumes)

lemma consumes_whilePeek [consumes_specs]:
  "consumes b p \<Longrightarrow> consumes False (\<lambda>lexer. whilePeek (fuel lexer) k p acc lexer)"
  by (rule consumes_fuel) (rule whilePeek_consumes)

lemma consumes_doWhileSkip [consumes_specs]:
  "consumes b p \<Longrightarrow> consumes b (\<lambda>lexer. doWhileSkip (fuel lexer) k p acc lexer)"
  by (rule consumes_fuel) (rule doWhileSkip_consumes)

lemma consumes_many [consumes_specs]:
  "consumes b p \<Longrightarrow> consumes (opening \<noteq> EOF) (many opening p closing)"
  unfolding many_def
  by (rule consumes_weaken, (rule consumes_rules consumes_specs | assumption)+, simp)

lemma consumes_any [consumes_specs]:
  "consumes b p \<Longrightarrow> consumes (opening \<noteq> EOF) (any opening p closing)"
  unfolding any_def
  by (rule consumes_weaken, (rule consumes_rules consumes_specs | assumption)+, simp)

lemma parseName_consumes [consumes_specs]: "consumes True parseName"
  unfolding parseName_def
  by (rule consumes_weaken, (rule consumes_rules consumes_specs)+, simp)

lemma parseVariable_consumes [consumes_specs]: "consumes True parseVariable"
  unfolding parseVariable_def
  by (rule consumes_weaken, (rule consumes_rules consumes_specs)+, simp)

lemma parseStringLiteral_consumes [consumes_specs]: "consumes False parseStringLiteral"
  unfolding parseStringLiteral_def
  by (rule consumes_weaken, (rule consumes_rules consumes_specs)+, simp)

lemma consumesD:
  "consumes True p \<Longrightarrow> p lx = Inr (a, lx') \<Longrightarrow> remaining lx' < remaining lx"
  by (simp add: consumes_def)

lemma parseValueLiteral_fuel_consumes [consumes_specs]:
  "consumes True (parseValueLiteral_fuel n isConst)"
proof (induction n arbitrary: isConst)
  case 0
  show ?case by (simp add: consumes_throw)
next
  case (Suc n)
  note item = Suc.IH
  have list: "consumes True (parseList_fuel n isConst)"
    unfolding parseList_fuel.simps
    by (rule consumes_weaken, (rule consumes_rules consumes_specs item)+, simp)
  have field: "consumes True (parseObjectField_fuel n isConst)"
    unfolding parseObjectField_fuel.simps
    by (rule consumes_weaken, (rule consumes_rules consumes_specs item)+, simp)
  have object: "consumes True (parseObject_fuel n isConst)"
    unfolding parseObject_fuel.simps
    by (rule consumes_weaken, (rule consumes_rules consumes_specs field)+, simp)
  show ?case
    unfolding consumes_def
  proof (intro allI impI, simp only: if_True)
    fix lx a lx'
    assume run: "parseValueLiteral_fuel (Suc n) isConst lx = Inr (a, lx')"
    then show "remaining lx' < remaining lx"
      by (cases "kind (token lx)")
         (auto simp: step_simps parseStringLiteral_def split: if_splits
            dest: consumesD[OF list] consumesD[OF object] consumesD[OF parseVariable_consumes]
              advanced_remaining)
  qed
qed

lemma parseObjectField_fuel_consumes [consumes_specs]:
  "consumes True (parseObjectField_fuel n isConst)"
  unfolding parseObjectField_fuel.simps
  by (rule consumes_weaken, (rule consumes_rules consumes_specs)+, simp)

lemma parseList_fuel_consumes [consumes_specs]: "consumes True (parseList_fuel n isConst)"
  unfolding parseList_fuel.simps
  by (rule consumes_weaken, (rule consumes_rules consumes_specs)+, simp)

lemma parseObject_fuel_consumes [consumes_specs]: "consumes True (parseObject_fuel n isConst)"
  unfolding parseObject_fuel.simps
  by (rule consumes_weaken, (rule consumes_rules consumes_specs)+, simp)

lemma parseValueLiteral_eq:
  "parseValueLiteral isConst = (\<lambda>lexer. parseValueLiteral_fuel (fuel lexer) isConst lexer)"
  by (rule ext) (simp add: parseValueLiteral_def)

lemma parseValueLiteral_consumes [consumes_specs]: "consumes True (parseValueLiteral isConst)"
  unfolding parseValueLiteral_eq by (rule consumes_fuel) (rule consumes_specs)

lemma parseConstValue_consumes [consumes_specs]: "consumes True parseConstValue"
  unfolding parseConstValue_def by (rule consumes_specs)

lemma parseNamedType_consumes [consumes_specs]: "consumes True parseNamedType"
  unfolding parseNamedType_def
  by (rule consumes_weaken, (rule consumes_rules consumes_specs)+, simp)

lemma parseTypeReference_fuel_consumes [consumes_specs]:
  "consumes True (parseTypeReference_fuel n)"
proof (induction n)
  case 0
  show ?case by (simp add: consumes_throw)
next
  case (Suc n)
  show ?case
    unfolding parseTypeReference_fuel.simps
    by (rule consumes_weaken, (rule consumes_rules consumes_specs Suc.IH)+, simp)
qed

lemma parseTypeReference_eq:
  "parseTypeReference = (\<lambda>lexer. parseTypeReference_fuel (fuel lexer) lexer)"
  by (rule ext) (simp add: parseTypeReference_def)

lemma parseTypeReference_consumes [consumes_specs]: "consumes True parseTypeReference"
  unfolding parseTypeReference_eq by (rule consumes_fuel) (rule consumes_specs)

lemma parseArgument_consumes [consumes_specs]: "consumes True parseArgument"
  unfolding parseArgument_def
  by (rule consumes_weaken, (rule consumes_rules consumes_specs)+, simp)

lemma parseConstArgument_consumes [consumes_specs]: "consumes True parseConstArgument"
  unfolding parseConstArgument_def
  by (rule consumes_weaken, (rule consumes_rules consumes_specs)+, simp)

lemma parseArguments_consumes [consumes_specs]: "consumes False (parseArguments isConst)"
  unfolding parseArguments_def Let_def
  by (rule consumes_weaken, (rule consumes_rules consumes_specs)+, simp)

lemma parseDirective_consumes [consumes_specs]: "consumes True (parseDirective isConst)"
  unfolding parseDirective_def
  by (rule consumes_weaken, (rule consumes_rules consumes_specs)+, simp)

lemma parseDirectives_eq:
  "parseDirectives isConst =
     (\<lambda>lexer. whilePeek (fuel lexer) AT (parseDirective isConst) [] lexer)"
  by (rule ext) (simp add: parseDirectives_def)

lemma parseDirectives_consumes [consumes_specs]: "consumes False (parseDirectives isConst)"
  unfolding parseDirectives_eq by (rule consumes_specs)+

lemma parseFragmentName_consumes [consumes_specs]: "consumes True parseFragmentName"
  unfolding parseFragmentName_def
  by (rule consumes_weaken, (rule consumes_rules consumes_specs)+, simp)

lemma parseSelectionSet_fuel_consumes [consumes_specs]:
  "consumes True (parseSelectionSet_fuel n)"
proof (induction n)
  case 0
  show ?case by (simp add: consumes_throw)
next
  case (Suc n)
  note nested = Suc.IH
  have field: "consumes True (parseField_fuel n)"
    unfolding parseField_fuel.simps
    by (rule consumes_weaken, (rule consumes_rules consumes_specs nested)+, simp)
  have fragment: "consumes True (parseFragment_fuel n)"
    unfolding parseFragment_fuel.simps
    by (rule consumes_weaken, (rule consumes_rules consumes_specs nested)+, simp)
  have selection: "consumes True (parseSelection_fuel n)"
    unfolding parseSelection_fuel.simps
    by (rule consumes_weaken, (rule consumes_rules consumes_specs field fragment)+, simp)
  show ?case
    unfolding parseSelectionSet_fuel.simps
    by (rule consumes_weaken, (rule consumes_rules consumes_specs selection)+, simp)
qed

lemma parseField_fuel_consumes [consumes_specs]: "consumes True (parseField_fuel n)"
  unfolding parseField_fuel.simps
  by (rule consumes_weaken, (rule consumes_rules consumes_specs)+, simp)

lemma parseFragment_fuel_consumes [consumes_specs]: "consumes True (parseFragment_fuel n)"
  unfolding parseFragment_fuel.simps
  by (rule consumes_weaken, (rule consumes_rules consumes_specs)+, simp)

lemma parseSelection_fuel_consumes [consumes_specs]: "consumes True (parseSelection_fuel n)"
  unfolding parseSelection_fuel.simps
  by (rule consumes_weaken, (rule consumes_rules consumes_specs)+, simp)

lemma parseSelectionSet_eq:
  "parseSelectionSet = (\<lambda>lexer. parseSelectionSet_fuel (fuel lexer) lexer)"
  by (rule ext) (simp add: parseSelectionSet_def)

lemma parseSelectionSet_consumes [consumes_specs]: "consumes True parseSelectionSet"
  unfolding parseSelectionSet_eq by (rule consumes_fuel) (rule consumes_specs)

lemma parseOperationType_consumes [consumes_specs]: "consumes True parseOperationType"
  unfolding parseOperationType_def
  by (rule consumes_weaken, (rule consumes_rules consumes_specs)+, simp)

lemma parseVariableDefinition_consumes [consumes_specs]: "consumes True parseVariableDefinition"
  unfolding parseVariableDefinition_def
  by (rule consumes_weaken, (rule consumes_rules consumes_specs)+, simp)

lemma parseVariableDefinitions_consumes [consumes_specs]: "consumes False parseVariableDefinitions"
  unfolding parseVariableDefinitions_def
  by (rule consumes_weaken, (rule consumes_rules consumes_specs)+, simp)

lemma parseOperationDefinition_consumes [consumes_specs]: "consumes True parseOperationDefinition"
  unfolding parseOperationDefinition_def
  by (rule consumes_weaken, (rule consumes_rules consumes_specs)+, simp)

lemma parseFragmentDefinition_consumes [consumes_specs]: "consumes True parseFragmentDefinition"
  unfolding parseFragmentDefinition_def
  by (rule consumes_weaken, (rule consumes_rules consumes_specs)+, simp)

lemma peekDescription_consumes [consumes_specs]: "consumes False peekDescription"
  unfolding peekDescription_def
  by (rule consumes_weaken, (rule consumes_rules consumes_specs)+, simp)

lemma parseDescription_consumes [consumes_specs]: "consumes False parseDescription"
  unfolding parseDescription_def
  by (rule consumes_weaken, (rule consumes_rules consumes_specs)+, simp)

lemma parseOperationTypeDefinition_consumes [consumes_specs]: "consumes True parseOperationTypeDefinition"
  unfolding parseOperationTypeDefinition_def
  by (rule consumes_weaken, (rule consumes_rules consumes_specs)+, simp)

lemma parseSchemaDefinition_consumes [consumes_specs]: "consumes True parseSchemaDefinition"
  unfolding parseSchemaDefinition_def
  by (rule consumes_weaken, (rule consumes_rules consumes_specs)+, simp)

lemma parseScalarTypeDefinition_consumes [consumes_specs]: "consumes True parseScalarTypeDefinition"
  unfolding parseScalarTypeDefinition_def
  by (rule consumes_weaken, (rule consumes_rules consumes_specs)+, simp)

lemma parseImplementsInterfaces_consumes [consumes_specs]: "consumes False parseImplementsInterfaces"
  unfolding parseImplementsInterfaces_def
  by (rule consumes_weaken, (rule consumes_rules consumes_specs)+, simp)

lemma parseInputValueDef_consumes [consumes_specs]: "consumes True parseInputValueDef"
  unfolding parseInputValueDef_def
  by (rule consumes_weaken, (rule consumes_rules consumes_specs)+, simp)

lemma parseArgumentDefs_consumes [consumes_specs]: "consumes False parseArgumentDefs"
  unfolding parseArgumentDefs_def
  by (rule consumes_weaken, (rule consumes_rules consumes_specs)+, simp)

lemma parseFieldDefinition_consumes [consumes_specs]: "consumes True parseFieldDefinition"
  unfolding parseFieldDefinition_def
  by (rule consumes_weaken, (rule consumes_rules consumes_specs)+, simp)

lemma parseFieldDefinitions_consumes [consumes_specs]: "consumes True parseFieldDefinitions"
  unfolding parseFieldDefinitions_def
  by (rule consumes_weaken, (rule consumes_rules consumes_specs)+, simp)

lemma parseObjectTypeDefinition_consumes [consumes_specs]: "consumes True parseObjectTypeDefinition"
  unfolding parseObjectTypeDefinition_def
  by (rule consumes_weaken, (rule consumes_rules consumes_specs)+, simp)

lemma parseInterfaceTypeDefinition_consumes [consumes_specs]: "consumes True parseInterfaceTypeDefinition"
  unfolding parseInterfaceTypeDefinition_def
  by (rule consumes_weaken, (rule consumes_rules consumes_specs)+, simp)

lemma parseUnionMembers_consumes [consumes_specs]: "consumes True parseUnionMembers"
  unfolding parseUnionMembers_def
  by (rule consumes_weaken, (rule consumes_rules consumes_specs)+, simp)

lemma parseUnionTypeDefinition_consumes [consumes_specs]: "consumes True parseUnionTypeDefinition"
  unfolding parseUnionTypeDefinition_def
  by (rule consumes_weaken, (rule consumes_rules consumes_specs)+, simp)

lemma parseEnumValueDefinition_consumes [consumes_specs]: "consumes True parseEnumValueDefinition"
  unfolding parseEnumValueDefinition_def
  by (rule consumes_weaken, (rule consumes_rules consumes_specs)+, simp)

lemma parseEnumTypeDefinition_consumes [consumes_specs]: "consumes True parseEnumTypeDefinition"
  unfolding parseEnumTypeDefinition_def
  by (rule consumes_weaken, (rule consumes_rules consumes_specs)+, simp)

lemma parseInputObjectTypeDefinition_consumes [consumes_specs]: "consumes True parseInputObjectTypeDefinition"
  unfolding parseInputObjectTypeDefinition_def
  by (rule consumes_weaken, (rule consumes_rules consumes_specs)+, simp)

lemma parseObjectTypeExtension_consumes [consumes_specs]: "consumes True parseObjectTypeExtension"
  unfolding parseObjectTypeExtension_def
  by (rule consumes_weaken, (rule consumes_rules consumes_specs)+, simp)

lemma parseTypeExtension_consumes [consumes_specs]: "consumes True parseTypeExtension"
  unfolding parseTypeExtension_def
  by (rule consumes_weaken, (rule consumes_rules consumes_specs)+, simp)

lemma parseDirectiveLocation_consumes [consumes_specs]: "consumes True parseDirectiveLocation"
  unfolding parseDirectiveLocation_def
  by (rule consumes_weaken, (rule consumes_rules consumes_specs)+, simp)

lemma parseDirectiveLocations_consumes [consumes_specs]: "consumes True parseDirectiveLocations"
  unfolding parseDirectiveLocations_def
  by (rule consumes_weaken, (rule consumes_rules consumes_specs)+, simp)

lemma parseDirectiveDefinition_consumes [consumes_specs]: "consumes True parseDirectiveDefinition"
  unfolding parseDirectiveDefinition_def
  by (rule consumes_weaken, (rule consumes_rules consumes_specs)+, simp)

lemma parseTypeSystemDefinition_consumes [consumes_specs]: "consumes True parseTypeSystemDefinition"
  unfolding parseTypeSystemDefinition_def
  by (rule consumes_weaken, (rule consumes_rules consumes_specs)+, simp)

lemma parseDefinition_consumes [consumes_specs]: "consumes True parseDefinition"
  unfolding parseDefinition_def
  by (rule consumes_weaken, (rule consumes_rules consumes_specs)+, simp)

lemma parseDocument_consumes [consumes_specs]: "consumes True parseDocument"
  unfolding parseDocument_def
  by (rule consumes_weaken, (rule consumes_rules consumes_specs)+, simp)

section \<open>The fuel is enough: nothing but syntax errors\<close>

named_theorems ose_specs

lemma onlySyntaxErrors_mono:
  "onlySyntaxErrors B p \<Longrightarrow> B' \<le> B \<Longrightarrow> onlySyntaxErrors B' p"
  unfolding onlySyntaxErrors_def by (meson le_trans)

lemma ose_ret [ose_specs]: "onlySyntaxErrors B (ret a)"
  by (simp add: onlySyntaxErrors_def ret_def)

lemma ose_throw [ose_specs]: "onlySyntaxErrors B (throw (unexpected t))"
  by (simp add: onlySyntaxErrors_def throw_def unexpected_def Let_def)

lemma ose_currentToken [ose_specs]: "onlySyntaxErrors B currentToken"
  by (simp add: onlySyntaxErrors_def currentToken_def)

lemma ose_peek [ose_specs]: "onlySyntaxErrors B (peek k)"
  by (simp add: onlySyntaxErrors_def peek_def)

lemma ose_loc [ose_specs]: "onlySyntaxErrors B (loc st)"
  by (simp add: onlySyntaxErrors_def loc_def)

lemma lookahead_Inl: "lookahead lx = Inl e \<Longrightarrow> isSyntaxError e"
  by (auto simp: lookahead_def split: list.splits streamEnd.splits)

lemma advance_Inl: "advance lx = Inl e \<Longrightarrow> isSyntaxError e"
  by (auto simp: advance_def split: sum.splits dest: lookahead_Inl)

lemma ose_lookahead [ose_specs]: "onlySyntaxErrors B lookahead"
  by (auto simp: onlySyntaxErrors_def dest: lookahead_Inl)

lemma ose_advance [ose_specs]: "onlySyntaxErrors B advance"
  by (auto simp: onlySyntaxErrors_def dest: advance_Inl)

lemma ose_skip [ose_specs]: "onlySyntaxErrors B (skip k)"
  by (auto simp: onlySyntaxErrors_def skip_def Let_def bnd_Inl ret_def split: if_splits
        dest: advance_Inl)

lemma ose_expect [ose_specs]: "onlySyntaxErrors B (expect k)"
  by (auto simp: onlySyntaxErrors_def expect_def Let_def bnd_Inl ret_def split: if_splits
        dest: advance_Inl)

lemma ose_expectKeyword [ose_specs]: "onlySyntaxErrors B (expectKeyword v)"
  by (auto simp: onlySyntaxErrors_def expectKeyword_def Let_def bnd_Inl ret_def split: if_splits
        dest: advance_Inl)

lemma ose_bnd:
  "onlySyntaxErrors B m \<Longrightarrow> consumes b m \<Longrightarrow> (\<And>a. onlySyntaxErrors B (f a)) \<Longrightarrow>
     onlySyntaxErrors B (bnd m f)"
  unfolding onlySyntaxErrors_def consumes_def bnd_Inl
  by (cases b; simp) (metis le_trans less_imp_le_nat)+

lemma ose_bnd_strict:
  "onlySyntaxErrors B m \<Longrightarrow> consumes True m \<Longrightarrow>
     (\<And>a. 0 < B \<Longrightarrow> onlySyntaxErrors (B - 1) (f a)) \<Longrightarrow> onlySyntaxErrors B (bnd m f)"
proof -
  assume m: "onlySyntaxErrors B m" and strict: "consumes True m"
    and f: "\<And>a. 0 < B \<Longrightarrow> onlySyntaxErrors (B - 1) (f a)"
  show ?thesis
    unfolding onlySyntaxErrors_def
  proof (intro allI impI)
    fix lx e
    assume bound: "remaining lx \<le> B" and run: "bnd m f lx = Inl e"
    from run consider (first) "m lx = Inl e"
      | (second) a lx' where "m lx = Inr (a, lx')" "f a lx' = Inl e"
      by (auto simp: bnd_Inl)
    then show "isSyntaxError e"
    proof cases
      case first
      with m bound show ?thesis by (simp add: onlySyntaxErrors_def)
    next
      case second
      from strict second(1) have "remaining lx' < remaining lx"
        by (simp add: consumes_def)
      with bound have "0 < B" "remaining lx' \<le> B - 1" by simp_all
      with f[of a] second(2) show ?thesis by (simp add: onlySyntaxErrors_def)
    qed
  qed
qed

lemma ose_if:
  "onlySyntaxErrors B p \<Longrightarrow> onlySyntaxErrors B q \<Longrightarrow> onlySyntaxErrors B (if c then p else q)"
  by simp

lemma ose_pair:
  "(\<And>x y. onlySyntaxErrors B (g x y)) \<Longrightarrow> onlySyntaxErrors B (case_prod g a)"
  by (cases a) simp

lemma ose_Name:
  "(\<And>v l. onlySyntaxErrors B (g v l)) \<Longrightarrow> onlySyntaxErrors B (case_nameNode g n)"
  by (cases n) simp

lemmas ose_rules = ose_bnd ose_if ose_pair ose_Name

text \<open>After a \<^verbatim>\<open>skip\<close> that matched, a token has gone.\<close>

lemma ose_bnd_skip:
  "k \<noteq> EOF \<Longrightarrow> (0 < B \<Longrightarrow> onlySyntaxErrors (B - 1) (f True)) \<Longrightarrow>
     onlySyntaxErrors B (f False) \<Longrightarrow> onlySyntaxErrors B (bnd (skip k) f)"
proof -
  assume k: "k \<noteq> EOF" and yes: "0 < B \<Longrightarrow> onlySyntaxErrors (B - 1) (f True)"
    and no: "onlySyntaxErrors B (f False)"
  show ?thesis
    unfolding onlySyntaxErrors_def
  proof (intro allI impI)
    fix lx e
    assume bound: "remaining lx \<le> B" and run: "bnd (skip k) f lx = Inl e"
    have "skip k lx = Inl e \<or> (\<exists>b lx'. skip k lx = Inr (b, lx') \<and> f b lx' = Inl e)"
      using run by (simp add: bnd_Inl)
    then consider (first) "skip k lx = Inl e"
      | (matched) lx' where "kind (token lx) = k" "advanced lx lx'" "f True lx' = Inl e"
      | (other) "f False lx = Inl e"
      by (cases "kind (token lx) = k") (auto simp: skip_Inr)
    then show "isSyntaxError e"
    proof cases
      case first
      with ose_skip[of B k] bound show ?thesis by (simp add: onlySyntaxErrors_def)
    next
      case matched
      with k advanced_remaining[of lx lx'] have "remaining lx' < remaining lx" by simp
      with bound have "0 < B" "remaining lx' \<le> B - 1" by simp_all
      with yes matched(3) show ?thesis by (simp add: onlySyntaxErrors_def)
    next
      case other
      with no bound show ?thesis by (simp add: onlySyntaxErrors_def)
    qed
  qed
qed

lemma untilSkip_ose:
  "consumes b p \<Longrightarrow> b \<Longrightarrow> onlySyntaxErrors B p \<Longrightarrow> B < n \<Longrightarrow>
     onlySyntaxErrors B (untilSkip n k p acc)"
proof (induction n arbitrary: B acc)
  case 0
  then show ?case by simp
next
  case (Suc n)
  from Suc.prems(1,2) have strict: "consumes True p" by simp
  have rest: "0 < B \<Longrightarrow> onlySyntaxErrors (B - 1) (untilSkip n k p acc')" for acc'
    using Suc.prems(4)
    by (intro Suc.IH[OF Suc.prems(1,2)] onlySyntaxErrors_mono[OF Suc.prems(3)]) simp_all
  show ?case
    unfolding untilSkip.simps
    by (rule ose_bnd, rule ose_specs, rule consumes_specs, rule ose_if, rule ose_specs,
        rule ose_bnd_strict, rule Suc.prems(3), rule strict, rule rest)
qed

lemma whilePeek_ose:
  "consumes b p \<Longrightarrow> b \<Longrightarrow> onlySyntaxErrors B p \<Longrightarrow> B < n \<Longrightarrow>
     onlySyntaxErrors B (whilePeek n k p acc)"
proof (induction n arbitrary: B acc)
  case 0
  then show ?case by simp
next
  case (Suc n)
  from Suc.prems(1,2) have strict: "consumes True p" by simp
  have rest: "0 < B \<Longrightarrow> onlySyntaxErrors (B - 1) (whilePeek n k p acc')" for acc'
    using Suc.prems(4)
    by (intro Suc.IH[OF Suc.prems(1,2)] onlySyntaxErrors_mono[OF Suc.prems(3)]) simp_all
  show ?case
    unfolding whilePeek.simps
    apply (rule ose_bnd)
      apply (rule ose_specs)
     apply (rule consumes_specs)
    apply (rule ose_if)
     apply (rule ose_bnd_strict)
       apply (rule Suc.prems(3))
      apply (rule strict)
     apply (erule rest)
    apply (rule ose_specs)
    done
qed

lemma doWhileSkip_ose:
  "consumes b p \<Longrightarrow> b \<Longrightarrow> onlySyntaxErrors B p \<Longrightarrow> B < n \<Longrightarrow>
     onlySyntaxErrors B (doWhileSkip n k p acc)"
proof (induction n arbitrary: B acc)
  case 0
  then show ?case by simp
next
  case (Suc n)
  from Suc.prems(1,2) have strict: "consumes True p" by simp
  have rest: "0 < B \<Longrightarrow> onlySyntaxErrors (B - 1) (doWhileSkip n k p acc')" for acc'
    using Suc.prems(4)
    by (intro Suc.IH[OF Suc.prems(1,2)] onlySyntaxErrors_mono[OF Suc.prems(3)]) simp_all
  show ?case
    unfolding doWhileSkip.simps
    by (rule ose_bnd_strict, rule Suc.prems(3), rule strict, rule ose_bnd, rule ose_specs,
        rule consumes_specs, rule ose_if, erule rest, rule ose_specs)
qed

lemma remaining_fuel: "remaining lx < fuel lx"
  by (simp add: remaining_def fuel_def)

lemma ose_fuel:
  "(\<And>n B'. B' \<le> B \<Longrightarrow> B' < n \<Longrightarrow> onlySyntaxErrors B' (p n)) \<Longrightarrow>
     onlySyntaxErrors B (\<lambda>lexer. p (fuel lexer) lexer)"
proof -
  assume p: "\<And>n B'. B' \<le> B \<Longrightarrow> B' < n \<Longrightarrow> onlySyntaxErrors B' (p n)"
  show ?thesis
    unfolding onlySyntaxErrors_def
  proof (intro allI impI)
    fix lx e
    assume "remaining lx \<le> B" and "p (fuel lx) lx = Inl e"
    with p[of "remaining lx" "fuel lx"] remaining_fuel[of lx] show "isSyntaxError e"
      by (auto simp: onlySyntaxErrors_def)
  qed
qed

lemma ose_untilSkip [ose_specs]:
  "consumes b p \<Longrightarrow> b \<Longrightarrow> onlySyntaxErrors B p \<Longrightarrow>
     onlySyntaxErrors B (\<lambda>lexer. untilSkip (fuel lexer) k p acc lexer)"
  by (rule ose_fuel) (auto intro: untilSkip_ose onlySyntaxErrors_mono)

lemma ose_whilePeek [ose_specs]:
  "consumes b p \<Longrightarrow> b \<Longrightarrow> onlySyntaxErrors B p \<Longrightarrow>
     onlySyntaxErrors B (\<lambda>lexer. whilePeek (fuel lexer) k p acc lexer)"
  by (rule ose_fuel) (auto intro: whilePeek_ose onlySyntaxErrors_mono)

lemma ose_doWhileSkip [ose_specs]:
  "consumes b p \<Longrightarrow> b \<Longrightarrow> onlySyntaxErrors B p \<Longrightarrow>
     onlySyntaxErrors B (\<lambda>lexer. doWhileSkip (fuel lexer) k p acc lexer)"
  by (rule ose_fuel) (auto intro: doWhileSkip_ose onlySyntaxErrors_mono)

text \<open>
  The item of a bracketed list is met with a token less, the opening token having gone.
\<close>

lemma ose_many [ose_specs]:
  "opening \<noteq> EOF \<Longrightarrow> consumes b p \<Longrightarrow> b \<Longrightarrow>
     (0 < B \<Longrightarrow> onlySyntaxErrors (B - 1) p) \<Longrightarrow> onlySyntaxErrors B (many opening p closing)"
proof -
  assume op: "opening \<noteq> EOF" and c: "consumes b p" and b: b
    and p: "0 < B \<Longrightarrow> onlySyntaxErrors (B - 1) p"
  from op have e: "consumes True (expect opening)"
    by (rule_tac consumes_weaken[OF consumes_expect]) simp
  show ?thesis
    unfolding many_def
    by (rule ose_bnd_strict, rule ose_specs, rule e, rule ose_bnd, erule p, rule c,
        rule ose_untilSkip, rule c, rule b, erule p)
qed

lemma ose_any [ose_specs]:
  "opening \<noteq> EOF \<Longrightarrow> consumes b p \<Longrightarrow> b \<Longrightarrow>
     (0 < B \<Longrightarrow> onlySyntaxErrors (B - 1) p) \<Longrightarrow> onlySyntaxErrors B (any opening p closing)"
proof -
  assume op: "opening \<noteq> EOF" and c: "consumes b p" and b: b
    and p: "0 < B \<Longrightarrow> onlySyntaxErrors (B - 1) p"
  from op have e: "consumes True (expect opening)"
    by (rule_tac consumes_weaken[OF consumes_expect]) simp
  show ?thesis
    unfolding any_def
    by (rule ose_bnd_strict, rule ose_specs, rule e, rule ose_untilSkip, rule c, rule b, erule p)
qed

lemma parseName_ose [ose_specs]: "onlySyntaxErrors B parseName"
  unfolding parseName_def
  by (rule ose_rules ose_specs consumes_rules consumes_specs | (simp; fail))+

lemma parseVariable_ose [ose_specs]: "onlySyntaxErrors B parseVariable"
  unfolding parseVariable_def
  by (rule ose_rules ose_specs consumes_rules consumes_specs | (simp; fail))+

lemma parseStringLiteral_ose [ose_specs]: "onlySyntaxErrors B parseStringLiteral"
  unfolding parseStringLiteral_def
  by (rule ose_rules ose_specs consumes_rules consumes_specs | (simp; fail))+

lemma parseValueLiteral_fuel_ose:
  "B < n \<Longrightarrow> onlySyntaxErrors B (parseValueLiteral_fuel n isConst)"
proof (induction n arbitrary: B isConst)
  case 0
  then show ?case by simp
next
  case (Suc n)
  have item: "0 < B \<Longrightarrow> onlySyntaxErrors (B - 1) (parseValueLiteral_fuel n c)" for c
    using Suc.prems by (intro Suc.IH) simp
  have list: "onlySyntaxErrors B (parseList_fuel n isConst)"
    unfolding parseList_fuel.simps
    by (rule ose_rules ose_specs consumes_rules consumes_specs item | assumption | (simp; fail))+
  have field: "0 < B \<Longrightarrow> onlySyntaxErrors (B - 1) (parseObjectField_fuel n isConst)"
    unfolding parseObjectField_fuel.simps
    by (rule ose_rules ose_specs consumes_rules consumes_specs item | assumption | (simp; fail))+
  have object: "onlySyntaxErrors B (parseObject_fuel n isConst)"
    unfolding parseObject_fuel.simps
    apply (rule ose_bnd, rule ose_specs, rule consumes_specs)
    apply (rule ose_bnd_strict, rule ose_specs, rule consumes_weaken[OF consumes_expect], simp)
    apply (rule ose_rules ose_specs consumes_rules consumes_specs field | assumption | (simp; fail))+
    done
  show ?case
    unfolding parseValueLiteral_fuel.simps
    apply (rule ose_bnd, rule ose_specs, rule consumes_specs)
    subgoal for tok
      apply (cases "kind tok")
      apply (simp_all only: tokenKind.case)
      apply (rule ose_rules ose_specs consumes_rules consumes_specs list object | (simp; fail))+
      done
    done
qed

lemma parseValueLiteral_ose [ose_specs]: "onlySyntaxErrors B (parseValueLiteral isConst)"
  unfolding parseValueLiteral_eq by (rule ose_fuel) (rule parseValueLiteral_fuel_ose)

lemma parseConstValue_ose [ose_specs]: "onlySyntaxErrors B parseConstValue"
  unfolding parseConstValue_def by (rule ose_specs)

lemma parseNamedType_ose [ose_specs]: "onlySyntaxErrors B parseNamedType"
  unfolding parseNamedType_def
  by (rule ose_rules ose_specs consumes_rules consumes_specs | (simp; fail))+

lemma parseTypeReference_fuel_ose:
  "B < n \<Longrightarrow> onlySyntaxErrors B (parseTypeReference_fuel n)"
proof (induction n arbitrary: B)
  case 0
  then show ?case by simp
next
  case (Suc n)
  have inner: "0 < B \<Longrightarrow> onlySyntaxErrors (B - 1) (parseTypeReference_fuel n)"
    using Suc.prems by (intro Suc.IH) simp
  show ?case
    unfolding parseTypeReference_fuel.simps
    apply (rule ose_bnd, rule ose_specs, rule consumes_specs)
    apply (rule ose_bnd_skip)
    subgoal by simp
    subgoal by (simp only: if_True) (rule ose_rules ose_specs consumes_rules consumes_specs inner | assumption | (simp; fail))+
    subgoal by (simp only: if_False) (rule ose_rules ose_specs consumes_rules consumes_specs  | assumption | (simp; fail))+
    done
qed

lemma parseTypeReference_ose [ose_specs]: "onlySyntaxErrors B parseTypeReference"
  unfolding parseTypeReference_eq by (rule ose_fuel) (rule parseTypeReference_fuel_ose)

lemma parseArgument_ose [ose_specs]: "onlySyntaxErrors B parseArgument"
  unfolding parseArgument_def
  by (rule ose_rules ose_specs consumes_rules consumes_specs | (simp; fail))+

lemma parseConstArgument_ose [ose_specs]: "onlySyntaxErrors B parseConstArgument"
  unfolding parseConstArgument_def
  by (rule ose_rules ose_specs consumes_rules consumes_specs | (simp; fail))+

lemma parseArguments_ose [ose_specs]: "onlySyntaxErrors B (parseArguments isConst)"
  unfolding parseArguments_def Let_def
  by (rule ose_rules ose_specs consumes_rules consumes_specs | (simp; fail))+

lemma parseDirective_ose [ose_specs]: "onlySyntaxErrors B (parseDirective isConst)"
  unfolding parseDirective_def
  by (rule ose_rules ose_specs consumes_rules consumes_specs | (simp; fail))+

lemma parseDirectives_ose [ose_specs]: "onlySyntaxErrors B (parseDirectives isConst)"
  unfolding parseDirectives_eq
  by (rule ose_rules ose_specs consumes_rules consumes_specs | (simp; fail))+

lemma parseFragmentName_ose [ose_specs]: "onlySyntaxErrors B parseFragmentName"
  unfolding parseFragmentName_def
  by (rule ose_rules ose_specs consumes_rules consumes_specs | (simp; fail))+

lemma parseSelectionSet_fuel_ose:
  "B < n \<Longrightarrow> onlySyntaxErrors B (parseSelectionSet_fuel n)"
proof (induction n arbitrary: B)
  case 0
  then show ?case by simp
next
  case (Suc n)
  have nested: "0 < B \<Longrightarrow> onlySyntaxErrors (B - 1) (parseSelectionSet_fuel n)"
    using Suc.prems by (intro Suc.IH) simp
  have field: "0 < B \<Longrightarrow> onlySyntaxErrors (B - 1) (parseField_fuel n)"
    unfolding parseField_fuel.simps
    by (rule ose_rules ose_specs consumes_rules consumes_specs nested | assumption | (simp; fail))+
  have fragment: "0 < B \<Longrightarrow> onlySyntaxErrors (B - 1) (parseFragment_fuel n)"
    unfolding parseFragment_fuel.simps
    by (rule ose_rules ose_specs consumes_rules consumes_specs nested | assumption | (simp; fail))+
  have selection: "0 < B \<Longrightarrow> onlySyntaxErrors (B - 1) (parseSelection_fuel n)"
    unfolding parseSelection_fuel.simps
    by (rule ose_rules ose_specs consumes_rules consumes_specs field fragment | assumption | (simp; fail))+
  show ?case
    unfolding parseSelectionSet_fuel.simps
    by (rule ose_rules ose_specs consumes_rules consumes_specs selection | assumption | (simp; fail))+
qed

lemma parseSelectionSet_ose [ose_specs]: "onlySyntaxErrors B parseSelectionSet"
  unfolding parseSelectionSet_eq by (rule ose_fuel) (rule parseSelectionSet_fuel_ose)

lemma parseOperationType_ose [ose_specs]: "onlySyntaxErrors B parseOperationType"
  unfolding parseOperationType_def
  by (rule ose_rules ose_specs consumes_rules consumes_specs | (simp; fail))+

lemma parseVariableDefinition_ose [ose_specs]: "onlySyntaxErrors B parseVariableDefinition"
  unfolding parseVariableDefinition_def
  by (rule ose_rules ose_specs consumes_rules consumes_specs | (simp; fail))+

lemma parseVariableDefinitions_ose [ose_specs]: "onlySyntaxErrors B parseVariableDefinitions"
  unfolding parseVariableDefinitions_def
  by (rule ose_rules ose_specs consumes_rules consumes_specs | (simp; fail))+

lemma parseOperationDefinition_ose [ose_specs]: "onlySyntaxErrors B parseOperationDefinition"
  unfolding parseOperationDefinition_def
  by (rule ose_rules ose_specs consumes_rules consumes_specs | (simp; fail))+

lemma parseFragmentDefinition_ose [ose_specs]: "onlySyntaxErrors B parseFragmentDefinition"
  unfolding parseFragmentDefinition_def
  by (rule ose_rules ose_specs consumes_rules consumes_specs | (simp; fail))+

lemma peekDescription_ose [ose_specs]: "onlySyntaxErrors B peekDescription"
  unfolding peekDescription_def
  by (rule ose_rules ose_specs consumes_rules consumes_specs | (simp; fail))+

lemma parseDescription_ose [ose_specs]: "onlySyntaxErrors B parseDescription"
  unfolding parseDescription_def
  by (rule ose_rules ose_specs consumes_rules consumes_specs | (simp; fail))+

lemma parseOperationTypeDefinition_ose [ose_specs]: "onlySyntaxErrors B parseOperationTypeDefinition"
  unfolding parseOperationTypeDefinition_def
  by (rule ose_rules ose_specs consumes_rules consumes_specs | (simp; fail))+

lemma parseSchemaDefinition_ose [ose_specs]: "onlySyntaxErrors B parseSchemaDefinition"
  unfolding parseSchemaDefinition_def
  by (rule ose_rules ose_specs consumes_rules consumes_specs | (simp; fail))+

lemma parseScalarTypeDefinition_ose [ose_specs]: "onlySyntaxErrors B parseScalarTypeDefinition"
  unfolding parseScalarTypeDefinition_def
  by (rule ose_rules ose_specs consumes_rules consumes_specs | (simp; fail))+

lemma parseImplementsInterfaces_ose [ose_specs]: "onlySyntaxErrors B parseImplementsInterfaces"
  unfolding parseImplementsInterfaces_def
  by (rule ose_rules ose_specs consumes_rules consumes_specs | (simp; fail))+

lemma parseInputValueDef_ose [ose_specs]: "onlySyntaxErrors B parseInputValueDef"
  unfolding parseInputValueDef_def
  by (rule ose_rules ose_specs consumes_rules consumes_specs | (simp; fail))+

lemma parseArgumentDefs_ose [ose_specs]: "onlySyntaxErrors B parseArgumentDefs"
  unfolding parseArgumentDefs_def
  by (rule ose_rules ose_specs consumes_rules consumes_specs | (simp; fail))+

lemma parseFieldDefinition_ose [ose_specs]: "onlySyntaxErrors B parseFieldDefinition"
  unfolding parseFieldDefinition_def
  by (rule ose_rules ose_specs consumes_rules consumes_specs | (simp; fail))+

lemma parseFieldDefinitions_ose [ose_specs]: "onlySyntaxErrors B parseFieldDefinitions"
  unfolding parseFieldDefinitions_def
  by (rule ose_rules ose_specs consumes_rules consumes_specs | (simp; fail))+

lemma parseObjectTypeDefinition_ose [ose_specs]: "onlySyntaxErrors B parseObjectTypeDefinition"
  unfolding parseObjectTypeDefinition_def
  by (rule ose_rules ose_specs consumes_rules consumes_specs | (simp; fail))+

lemma parseInterfaceTypeDefinition_ose [ose_specs]: "onlySyntaxErrors B parseInterfaceTypeDefinition"
  unfolding parseInterfaceTypeDefinition_def
  by (rule ose_rules ose_specs consumes_rules consumes_specs | (simp; fail))+

lemma parseUnionMembers_ose [ose_specs]: "onlySyntaxErrors B parseUnionMembers"
  unfolding parseUnionMembers_def
  by (rule ose_rules ose_specs consumes_rules consumes_specs | (simp; fail))+

lemma parseUnionTypeDefinition_ose [ose_specs]: "onlySyntaxErrors B parseUnionTypeDefinition"
  unfolding parseUnionTypeDefinition_def
  by (rule ose_rules ose_specs consumes_rules consumes_specs | (simp; fail))+

lemma parseEnumValueDefinition_ose [ose_specs]: "onlySyntaxErrors B parseEnumValueDefinition"
  unfolding parseEnumValueDefinition_def
  by (rule ose_rules ose_specs consumes_rules consumes_specs | (simp; fail))+

lemma parseEnumTypeDefinition_ose [ose_specs]: "onlySyntaxErrors B parseEnumTypeDefinition"
  unfolding parseEnumTypeDefinition_def
  by (rule ose_rules ose_specs consumes_rules consumes_specs | (simp; fail))+

lemma parseInputObjectTypeDefinition_ose [ose_specs]: "onlySyntaxErrors B parseInputObjectTypeDefinition"
  unfolding parseInputObjectTypeDefinition_def
  by (rule ose_rules ose_specs consumes_rules consumes_specs | (simp; fail))+

lemma parseObjectTypeExtension_ose [ose_specs]: "onlySyntaxErrors B parseObjectTypeExtension"
  unfolding parseObjectTypeExtension_def
  by (rule ose_rules ose_specs consumes_rules consumes_specs | (simp; fail))+

lemma parseTypeExtension_ose [ose_specs]: "onlySyntaxErrors B parseTypeExtension"
  unfolding parseTypeExtension_def
  by (rule ose_rules ose_specs consumes_rules consumes_specs | (simp; fail))+

lemma parseDirectiveLocation_ose [ose_specs]: "onlySyntaxErrors B parseDirectiveLocation"
  unfolding parseDirectiveLocation_def
  by (rule ose_rules ose_specs consumes_rules consumes_specs | (simp; fail))+

lemma parseDirectiveLocations_ose [ose_specs]: "onlySyntaxErrors B parseDirectiveLocations"
  unfolding parseDirectiveLocations_def
  by (rule ose_rules ose_specs consumes_rules consumes_specs | (simp; fail))+

lemma parseDirectiveDefinition_ose [ose_specs]: "onlySyntaxErrors B parseDirectiveDefinition"
  unfolding parseDirectiveDefinition_def
  by (rule ose_rules ose_specs consumes_rules consumes_specs | (simp; fail))+

lemma parseTypeSystemDefinition_ose [ose_specs]: "onlySyntaxErrors B parseTypeSystemDefinition"
  unfolding parseTypeSystemDefinition_def
  by (rule ose_rules ose_specs consumes_rules consumes_specs | (simp; fail))+

lemma parseDefinition_ose [ose_specs]: "onlySyntaxErrors B parseDefinition"
  unfolding parseDefinition_def
  by (rule ose_rules ose_specs consumes_rules consumes_specs | (simp; fail))+

lemma parseDocument_ose [ose_specs]: "onlySyntaxErrors B parseDocument"
  unfolding parseDocument_def
  by (rule ose_rules ose_specs consumes_rules consumes_specs | (simp; fail))+

text \<open>
  The entry points throw syntax errors and, in \<^verbatim>\<open>parse\<close>, the type error; the fuel of
  the model never runs out.
\<close>

lemma result_Inl: "result r = Inl e \<longleftrightarrow> r = Inl e"
  by (auto simp: result_def split: sum.splits)

lemma onlySyntaxErrorsD: "onlySyntaxErrors (remaining lx) p \<Longrightarrow> p lx = Inl e \<Longrightarrow> isSyntaxError e"
  by (auto simp: onlySyntaxErrors_def)

lemma parseDocument_Inl: "parseDocument lx = Inl e \<Longrightarrow> isSyntaxError e"
  by (rule onlySyntaxErrorsD[OF parseDocument_ose])

lemma standaloneValue_ose:
  "onlySyntaxErrors B
     (bnd (expect SOF) (\<lambda>_. bnd (parseValueLiteral False) (\<lambda>v. bnd (expect EOF) (\<lambda>_. ret v))))"
  by (rule ose_rules ose_specs consumes_rules consumes_specs | (simp; fail))+

lemma standaloneType_ose:
  "onlySyntaxErrors B
     (bnd (expect SOF) (\<lambda>_. bnd parseTypeReference (\<lambda>t. bnd (expect EOF) (\<lambda>_. ret t))))"
  by (rule ose_rules ose_specs consumes_rules consumes_specs | (simp; fail))+

lemma parse_Inl:
  "parse tokenize src opts = Inl e \<Longrightarrow>
     isSyntaxError e \<or>
     (\<not> instanceofSource (toSourceObj src) \<and>
      e = TypeError (''Must provide Source. Received: '' @ String (toSourceObj src)))"
  by (auto simp: parse_def Let_def result_Inl split: if_splits dest: parseDocument_Inl)

lemma parseValue_Inl: "parseValue tokenize src opts = Inl e \<Longrightarrow> isSyntaxError e"
  by (auto simp: parseValue_def Let_def result_Inl dest: onlySyntaxErrorsD[OF standaloneValue_ose])

lemma parseType_Inl: "parseType tokenize src opts = Inl e \<Longrightarrow> isSyntaxError e"
  by (auto simp: parseType_def Let_def result_Inl dest: onlySyntaxErrorsD[OF standaloneType_ose])

lemma fuel_suffices:
  "parse tokenize src opts \<noteq> Inl OutOfFuel \<and>
   parseValue tokenize src opts' \<noteq> Inl OutOfFuel \<and>
   parseType tokenize src opts'' \<noteq> Inl OutOfFuel"
  by (auto dest: parse_Inl parseValue_Inl parseType_Inl)

section \<open>Fragment names\<close>

lemma yields_optional:
  "yields p Q \<Longrightarrow>
     yields (if c then bnd p (\<lambda>x. ret (Some x)) else ret None)
       (\<lambda>x. case x of None \<Rightarrow> True | Some a \<Rightarrow> Q a)"
proof (cases c)
  case True
  assume "yields p Q"
  with True show ?thesis
    by (simp, intro yields_bnd_with[where R=Q] yields_ret) simp_all
next
  case False
  then show ?thesis by (simp add: yields_ret)
qed

lemma yields_many: "yields p Q \<Longrightarrow> yields (many opening p closing) (\<lambda>xs. \<forall>x\<in>set xs. Q x)"
proof -
  assume p: "yields p Q"
  have "\<forall>x\<in>set xs. Q x" if "many opening p closing lx = Inr (xs, lx')" for lx xs lx'
    using many_yields[OF that p] by simp
  then show ?thesis
    unfolding yields_def by blast
qed

lemma yields_untilSkip:
  "yields p Q \<Longrightarrow> \<forall>x\<in>set acc. Q x \<Longrightarrow>
     yields (\<lambda>lexer. untilSkip (fuel lexer) k p acc lexer) (\<lambda>xs. \<forall>x\<in>set xs. Q x)"
proof -
  assume p: "yields p Q" and acc: "\<forall>x\<in>set acc. Q x"
  have "\<forall>x\<in>set xs. Q x" if "untilSkip (fuel lx) k p acc lx = Inr (xs, lx')" for lx xs lx'
    using untilSkip_yields[OF that p] acc by auto
  then show ?thesis
    unfolding yields_def by blast
qed

lemma parseFragmentName_yields: "yields parseFragmentName (\<lambda>n. nameValue n \<noteq> Some ''on'')"
  by (auto simp: yields_def parseFragmentName_def step_simps split: if_splits
        dest!: parseName_Inr)

lemma parseSelectionSet_fuel_names:
  "yields (parseSelectionSet_fuel n) (\<lambda>s. noneIsOn (selectionSetFragmentNames s))"
proof (induction n)
  case 0
  show ?case by (simp add: yields_throw)
next
  case (Suc n)
  note nested = Suc.IH
  have field: "yields (parseField_fuel n) (\<lambda>s. noneIsOn (selectionFragmentNames s))"
    unfolding parseField_fuel.simps
    by ((rule yields_bnd_with, rule yields_optional[OF nested]) | rule yields_bnd
        | rule yields_pair | (rule yields_ret, (simp add: noneIsOn_def split: option.splits; fail)))+
  have fragment: "yields (parseFragment_fuel n) (\<lambda>s. noneIsOn (selectionFragmentNames s))"
    unfolding parseFragment_fuel.simps
    by ((rule yields_bnd_with, rule nested parseFragmentName_yields) | rule yields_bnd
        | rule yields_if | (rule yields_ret, (simp add: noneIsOn_def; fail)))+
  have selection: "yields (parseSelection_fuel n) (\<lambda>s. noneIsOn (selectionFragmentNames s))"
    unfolding parseSelection_fuel.simps
    by (rule yields_bnd | rule yields_if | rule field fragment)+
  show ?case
    unfolding parseSelectionSet_fuel.simps
    by ((rule yields_bnd_with, rule yields_many[OF selection]) | rule yields_bnd
        | (rule yields_ret, (simp add: noneIsOn_def; fail)))+
qed

lemma parseSelectionSet_names:
  "yields parseSelectionSet (\<lambda>s. noneIsOn (selectionSetFragmentNames s))"
  unfolding parseSelectionSet_eq by (rule yields_fuel) (rule parseSelectionSet_fuel_names)

lemma parseOperationDefinition_names:
  "yields parseOperationDefinition (\<lambda>d. noneIsOn (definitionFragmentNames d))"
  unfolding parseOperationDefinition_def
  by ((rule yields_bnd_with, rule parseSelectionSet_names) | rule yields_bnd | rule yields_if
      | (rule yields_ret, (simp; fail)))+

lemma parseFragmentDefinition_names:
  "yields parseFragmentDefinition (\<lambda>d. noneIsOn (definitionFragmentNames d))"
  unfolding parseFragmentDefinition_def
  by ((rule yields_bnd_with, rule parseSelectionSet_names parseFragmentName_yields)
      | rule yields_bnd | (rule yields_ret, (simp add: noneIsOn_def; fail)))+

lemma parseSchemaDefinition_names:
  "yields parseSchemaDefinition (\<lambda>d. noneIsOn (definitionFragmentNames d))"
  unfolding parseSchemaDefinition_def
  by (rule yields_bnd | rule yields_if | rule yields_throw
      | (rule yields_ret, (simp add: noneIsOn_def; fail)))+

lemma parseScalarTypeDefinition_names:
  "yields parseScalarTypeDefinition (\<lambda>d. noneIsOn (definitionFragmentNames d))"
  unfolding parseScalarTypeDefinition_def
  by (rule yields_bnd | rule yields_if | rule yields_throw
      | (rule yields_ret, (simp add: noneIsOn_def; fail)))+

lemma parseObjectTypeDefinition_names:
  "yields parseObjectTypeDefinition (\<lambda>d. noneIsOn (definitionFragmentNames d))"
  unfolding parseObjectTypeDefinition_def
  by (rule yields_bnd | rule yields_if | rule yields_throw
      | (rule yields_ret, (simp add: noneIsOn_def; fail)))+

lemma parseInterfaceTypeDefinition_names:
  "yields parseInterfaceTypeDefinition (\<lambda>d. noneIsOn (definitionFragmentNames d))"
  unfolding parseInterfaceTypeDefinition_def
  by (rule yields_bnd | rule yields_if | rule yields_throw
      | (rule yields_ret, (simp add: noneIsOn_def; fail)))+

lemma parseUnionTypeDefinition_names:
  "yields parseUnionTypeDefinition (\<lambda>d. noneIsOn (definitionFragmentNames d))"
  unfolding parseUnionTypeDefinition_def
  by (rule yields_bnd | rule yields_if | rule yields_throw
      | (rule yields_ret, (simp add: noneIsOn_def; fail)))+

lemma parseEnumTypeDefinition_names:
  "yields parseEnumTypeDefinition (\<lambda>d. noneIsOn (definitionFragmentNames d))"
  unfolding parseEnumTypeDefinition_def
  by (rule yields_bnd | rule yields_if | rule yields_throw
      | (rule yields_ret, (simp add: noneIsOn_def; fail)))+

lemma parseInputObjectTypeDefinition_names:
  "yields parseInputObjectTypeDefinition (\<lambda>d. noneIsOn (definitionFragmentNames d))"
  unfolding parseInputObjectTypeDefinition_def
  by (rule yields_bnd | rule yields_if | rule yields_throw
      | (rule yields_ret, (simp add: noneIsOn_def; fail)))+

lemma parseObjectTypeExtension_names:
  "yields parseObjectTypeExtension (\<lambda>d. noneIsOn (definitionFragmentNames d))"
  unfolding parseObjectTypeExtension_def
  by (rule yields_bnd | rule yields_if | rule yields_throw
      | (rule yields_ret, (simp add: noneIsOn_def; fail)))+

lemma parseDirectiveDefinition_names:
  "yields parseDirectiveDefinition (\<lambda>d. noneIsOn (definitionFragmentNames d))"
  unfolding parseDirectiveDefinition_def
  by (rule yields_bnd | rule yields_if | rule yields_throw
      | (rule yields_ret, (simp add: noneIsOn_def; fail)))+

lemma parseTypeExtension_names:
  "yields parseTypeExtension (\<lambda>d. noneIsOn (definitionFragmentNames d))"
  unfolding parseTypeExtension_def
  by (rule parseObjectTypeExtension_names | rule yields_bnd | rule yields_if
      | rule yields_throw)+

lemmas typeSystem_names =
  parseSchemaDefinition_names parseScalarTypeDefinition_names
  parseObjectTypeDefinition_names parseInterfaceTypeDefinition_names
  parseUnionTypeDefinition_names parseEnumTypeDefinition_names
  parseInputObjectTypeDefinition_names parseTypeExtension_names
  parseDirectiveDefinition_names

lemma parseTypeSystemDefinition_names:
  "yields parseTypeSystemDefinition (\<lambda>d. noneIsOn (definitionFragmentNames d))"
  unfolding parseTypeSystemDefinition_def
  by (rule typeSystem_names | rule yields_bnd | rule yields_if | rule yields_throw)+

lemma parseDefinition_names:
  "yields parseDefinition (\<lambda>d. noneIsOn (definitionFragmentNames d))"
  unfolding parseDefinition_def
  by (rule parseTypeSystemDefinition_names | rule parseFragmentDefinition_names
      | rule parseOperationDefinition_names | rule yields_bnd | rule yields_if
      | rule yields_throw)+

lemma parseDocument_names:
  "yields parseDocument (\<lambda>doc. noneIsOn (documentFragmentNames doc))"
  unfolding parseDocument_def
  by ((rule yields_bnd_with, rule parseDefinition_names)
      | (rule yields_bnd_with, rule yields_untilSkip[OF parseDefinition_names], (simp; fail))
      | rule yields_bnd
      | (rule yields_ret, (simp add: noneIsOn_def each_def; fail)))+

lemma parseFragmentName_on:
  "value' (token lx) = Some ''on'' \<Longrightarrow>
     parseFragmentName lx =
       Inl (SyntaxError (source lx) (start (token lx)) (Unexpected (token lx)))"
  by (simp add: parseFragmentName_def bnd_def currentToken_def throw_def unexpected_def Let_def)

lemma parseFragment_fuel_on:
  assumes run: "parseFragment_fuel n lx = Inr (node, lx')"
    and spread: "kind (token lx) = SPREAD"
    and next_on: "pending lx = t # rest" "value' t = Some ''on''"
  shows "\<exists>typeCondition directives selectionSet l.
           node = InlineFragment (Some typeCondition) directives selectionSet l"
proof -
  from run obtain lx1 where adv: "advanced lx lx1"
    and rest: "(bnd (peek NAME) (\<lambda>isName. bnd currentToken (\<lambda>tok.
       if isName \<and> value' tok \<noteq> Some ''on'' then
         bnd parseFragmentName (\<lambda>name.
         bnd (parseDirectives False) (\<lambda>directives.
         bnd (loc (token lx)) (\<lambda>l.
         ret (FragmentSpread name directives l))))
       else
         bnd (if value' tok = Some ''on'' then
                bnd advance (\<lambda>_. bnd parseNamedType (\<lambda>t. ret (Some t)))
              else ret None) (\<lambda>typeCondition.
         bnd (parseDirectives False) (\<lambda>directives.
         bnd (parseSelectionSet_fuel n) (\<lambda>selectionSet.
         bnd (loc (token lx)) (\<lambda>l.
         ret (InlineFragment typeCondition directives selectionSet l)))))))) lx1
       = Inr (node, lx')"
    unfolding parseFragment_fuel.simps
    by (auto simp: bnd_Inr currentToken_Inr expect_Inr)
  from adv next_on have "value' (token lx1) = Some ''on''"
    by (simp add: advanced_token)
  with rest show ?thesis
    by (auto simp: bnd_Inr currentToken_Inr peek_Inr ret_Inr)
qed

text \<open>
  C5. No \<^verbatim>\<open>FragmentDefinition\<close> and no \<^verbatim>\<open>FragmentSpread\<close> of a document that \<^verbatim>\<open>parse\<close>
  returns is named \<^verbatim>\<open>on\<close>. \<^verbatim>\<open>parseFragmentName\<close> throws \<^verbatim>\<open>Unexpected\<close> at the current
  token when the value of that token is \<^verbatim>\<open>on\<close>; and when \<^verbatim>\<open>...\<close> is followed by a
  token of value \<^verbatim>\<open>on\<close>, what \<^verbatim>\<open>parseFragment\<close> returns is an \<^verbatim>\<open>InlineFragment\<close> with a
  type condition, not a \<^verbatim>\<open>FragmentSpread\<close>.
\<close>

theorem C5_fragment_name_not_on:
  "(\<forall>doc. parse tokenize src opts = Inr doc \<longrightarrow>
      (\<forall>n\<in>set (documentFragmentNames doc). nameValue n \<noteq> Some ''on'')) \<and>
   (value' (token lexer) = Some ''on'' \<longrightarrow>
      parseFragmentName lexer =
        Inl (SyntaxError (source lexer) (start (token lexer)) (Unexpected (token lexer)))) \<and>
   (\<forall>fuel node lexer' t rest.
      kind (token lexer) = SPREAD \<and> pending lexer = t # rest \<and> value' t = Some ''on'' \<and>
      parseFragment_fuel fuel lexer = Inr (node, lexer') \<longrightarrow>
      (\<exists>typeCondition directives selectionSet l.
         node = InlineFragment (Some typeCondition) directives selectionSet l))"
proof (intro conjI allI impI)
  fix doc
  assume "parse tokenize src opts = Inr doc"
  then have "noneIsOn (documentFragmentNames doc)"
    by (auto simp: parse_Inr dest: yieldsD[OF parseDocument_names])
  then show "\<forall>n\<in>set (documentFragmentNames doc). nameValue n \<noteq> Some ''on''"
    by (simp add: noneIsOn_def)
next
  assume "value' (token lexer) = Some ''on''"
  then show "parseFragmentName lexer =
        Inl (SyntaxError (source lexer) (start (token lexer)) (Unexpected (token lexer)))"
    by (rule parseFragmentName_on)
next
  fix fuel node lexer' t rest
  assume "kind (token lexer) = SPREAD \<and> pending lexer = t # rest \<and> value' t = Some ''on'' \<and>
      parseFragment_fuel fuel lexer = Inr (node, lexer')"
  then show "\<exists>typeCondition directives selectionSet l.
         node = InlineFragment (Some typeCondition) directives selectionSet l"
    by (blast intro: parseFragment_fuel_on)
qed

theorem C5_fragment_name_not_on_witness:
  "parse (tokensThenEOF tokens_fragments 39)
       (JSString ''fragment F on T { ...A ... on T { x } }'') withoutLocations =
     Inr (Document
       [FragmentDefinition (Name (Some ''F'') None)
         (NamedType (Name (Some ''T'') None) None) []
         (SelectionSet
           [FragmentSpread (Name (Some ''A'') None) [] None,
            InlineFragment (Some (NamedType (Name (Some ''T'') None) None)) []
              (SelectionSet [Field None (Name (Some ''x'') None) [] [] None None] None)
              None]
           None)
         None]
       None) \<and>
   documentFragmentNames (Document
       [FragmentDefinition (Name (Some ''F'') None)
         (NamedType (Name (Some ''T'') None) None) []
         (SelectionSet
           [FragmentSpread (Name (Some ''A'') None) [] None,
            InlineFragment (Some (NamedType (Name (Some ''T'') None) None)) []
              (SelectionSet [Field None (Name (Some ''x'') None) [] [] None None] None)
              None]
           None)
         None]
       None) = [Name (Some ''F'') None, Name (Some ''A'') None] \<and>
   nameValue (Name (Some ''F'') None) \<noteq> Some ''on'' \<and>
   nameValue (Name (Some ''A'') None) \<noteq> Some ''on''"
proof -
  have run: "parse (tokensThenEOF tokens_fragments 39)
       (JSString ''fragment F on T { ...A ... on T { x } }'') withoutLocations =
     Inr (Document
       [FragmentDefinition (Name (Some ''F'') None)
         (NamedType (Name (Some ''T'') None) None) []
         (SelectionSet
           [FragmentSpread (Name (Some ''A'') None) [] None,
            InlineFragment (Some (NamedType (Name (Some ''T'') None) None)) []
              (SelectionSet [Field None (Name (Some ''x'') None) [] [] None None] None)
              None]
           None)
         None]
       None)"
    by code_simp
  from C5_fragment_name_not_on[THEN conjunct1, rule_format, OF run] run
  show ?thesis by (simp add: each_def)
qed

section \<open>The location policy on every node\<close>

named_theorems holds_specs

lemma allLocs_Nil: "allLocs opts src []"
  by (simp add: allLocs_def)

lemma allLocs_Cons:
  "allLocs opts src (l # ls) \<longleftrightarrow> locationPolicy opts src l \<and> allLocs opts src ls"
  by (simp add: allLocs_def)

lemma allLocs_append:
  "allLocs opts src (xs @ ys) \<longleftrightarrow> allLocs opts src xs \<and> allLocs opts src ys"
  by (auto simp: allLocs_def)

lemma allLocs_each:
  "allLocs opts src (each f xs) \<longleftrightarrow> (\<forall>x\<in>set xs. allLocs opts src (f x))"
  by (auto simp: allLocs_def each_def)

lemma allLocs_optional:
  "allLocs opts src (optional f x) \<longleftrightarrow> (\<forall>a. x = Some a \<longrightarrow> allLocs opts src (f a))"
  by (cases x) (simp_all add: optional_def allLocs_Nil)

lemmas allLocs_simps = allLocs_Nil allLocs_Cons allLocs_append allLocs_each allLocs_optional
  each_def[symmetric] optional_def[symmetric]

lemma holds_ret: "Q a \<Longrightarrow> holds opts src (ret a) Q"
  by (simp add: holds_def ret_Inr)

lemma holds_throw: "holds opts src (throw mk) Q"
  by (simp add: holds_def throw_Inr)

lemma holds_bnd:
  "holds opts src m R \<Longrightarrow> (\<And>a. R a \<Longrightarrow> holds opts src (f a) Q) \<Longrightarrow>
     holds opts src (bnd m f) Q"
  unfolding holds_def bnd_Inr by blast

lemma holds_if:
  "holds opts src p Q \<Longrightarrow> holds opts src q Q \<Longrightarrow> holds opts src (if c then p else q) Q"
  by simp

lemma holds_pair:
  "(\<And>x y. a = (x, y) \<Longrightarrow> holds opts src (g x y) Q) \<Longrightarrow> holds opts src (case_prod g a) Q"
  by (cases a) simp

lemma holds_Name:
  "(\<And>v l. n = Name v l \<Longrightarrow> holds opts src (g v l) Q) \<Longrightarrow>
     holds opts src (case_nameNode g n) Q"
  by (cases n) simp

lemmas holds_rules = holds_bnd holds_if holds_pair holds_Name holds_ret holds_throw

lemma holds_currentToken [holds_specs]: "holds opts src currentToken (\<lambda>_. True)"
  by (simp add: holds_def currentToken_Inr)

lemma holds_peek [holds_specs]: "holds opts src (peek k) (\<lambda>_. True)"
  by (simp add: holds_def peek_Inr)

lemma holds_lookahead [holds_specs]: "holds opts src lookahead (\<lambda>_. True)"
  by (auto simp: holds_def dest: lookahead_Inr)

lemma holds_advance [holds_specs]: "holds opts src advance (\<lambda>_. True)"
  by (auto simp: holds_def advance_Inr dest: advanced_fields)

lemma holds_skip [holds_specs]: "holds opts src (skip k) (\<lambda>_. True)"
  by (auto simp: holds_def skip_Inr split: if_splits dest: advanced_fields)

lemma holds_expect [holds_specs]: "holds opts src (expect k) (\<lambda>_. True)"
  by (auto simp: holds_def expect_Inr dest: advanced_fields)

lemma holds_expectKeyword [holds_specs]: "holds opts src (expectKeyword v) (\<lambda>_. True)"
  by (auto simp: holds_def expectKeyword_Inr dest: advanced_fields)

lemma holds_loc [holds_specs]: "holds opts src (loc st) (locationPolicy opts src)"
  by (auto simp: holds_def loc_Inr locationPolicy_def Loc_def)

lemma untilSkip_holds:
  "holds opts src p Q \<Longrightarrow> \<forall>x\<in>set acc. Q x \<Longrightarrow>
     holds opts src (untilSkip n k p acc) (\<lambda>xs. \<forall>x\<in>set xs. Q x)"
proof (induction n arbitrary: acc)
  case 0
  show ?case by (simp add: holds_throw)
next
  case (Suc n)
  show ?case
    unfolding untilSkip.simps
    apply (rule holds_bnd, rule holds_skip)
    apply (rule holds_if)
     apply (rule holds_ret, rule Suc.prems(2))
    apply (rule holds_bnd, rule Suc.prems(1))
    apply (rule Suc.IH[OF Suc.prems(1)])
    using Suc.prems(2) apply simp
    done
qed

lemma whilePeek_holds:
  "holds opts src p Q \<Longrightarrow> \<forall>x\<in>set acc. Q x \<Longrightarrow>
     holds opts src (whilePeek n k p acc) (\<lambda>xs. \<forall>x\<in>set xs. Q x)"
proof (induction n arbitrary: acc)
  case 0
  show ?case by (simp add: holds_throw)
next
  case (Suc n)
  show ?case
    unfolding whilePeek.simps
    apply (rule holds_bnd, rule holds_peek)
    apply (rule holds_if)
     apply (rule holds_bnd, rule Suc.prems(1))
     apply (rule Suc.IH[OF Suc.prems(1)])
    using Suc.prems(2) apply simp
    apply (rule holds_ret, rule Suc.prems(2))
    done
qed

lemma doWhileSkip_holds:
  "holds opts src p Q \<Longrightarrow> \<forall>x\<in>set acc. Q x \<Longrightarrow>
     holds opts src (doWhileSkip n k p acc) (\<lambda>xs. \<forall>x\<in>set xs. Q x)"
proof (induction n arbitrary: acc)
  case 0
  show ?case by (simp add: holds_throw)
next
  case (Suc n)
  show ?case
    unfolding doWhileSkip.simps
    apply (rule holds_bnd, rule Suc.prems(1))
    apply (rule holds_bnd, rule holds_skip)
    apply (rule holds_if)
     apply (rule Suc.IH[OF Suc.prems(1)])
    using Suc.prems(2) apply simp
    apply (rule holds_ret)
    using Suc.prems(2) apply simp
    done
qed

lemma holds_fuel:
  assumes p: "\<And>n. holds opts src (p n) Q"
  shows "holds opts src (\<lambda>lexer. p (fuel lexer) lexer) Q"
  unfolding holds_def
proof (intro allI impI)
  fix lx a lx'
  assume "options lx = opts \<and> source lx = src \<and> p (fuel lx) lx = Inr (a, lx')"
  with p[of "fuel lx"] show "options lx' = opts \<and> source lx' = src \<and> Q a"
    unfolding holds_def by blast
qed

lemma holds_untilSkip [holds_specs]:
  "holds opts src p (\<lambda>a. allLocs opts src (L a)) \<Longrightarrow> allLocs opts src (each L acc) \<Longrightarrow>
     holds opts src (\<lambda>lexer. untilSkip (fuel lexer) k p acc lexer)
       (\<lambda>xs. allLocs opts src (each L xs))"
  unfolding allLocs_each by (rule holds_fuel) (rule untilSkip_holds)

lemma holds_whilePeek [holds_specs]:
  "holds opts src p (\<lambda>a. allLocs opts src (L a)) \<Longrightarrow> allLocs opts src (each L acc) \<Longrightarrow>
     holds opts src (\<lambda>lexer. whilePeek (fuel lexer) k p acc lexer)
       (\<lambda>xs. allLocs opts src (each L xs))"
  unfolding allLocs_each by (rule holds_fuel) (rule whilePeek_holds)

lemma holds_doWhileSkip [holds_specs]:
  "holds opts src p (\<lambda>a. allLocs opts src (L a)) \<Longrightarrow> allLocs opts src (each L acc) \<Longrightarrow>
     holds opts src (\<lambda>lexer. doWhileSkip (fuel lexer) k p acc lexer)
       (\<lambda>xs. allLocs opts src (each L xs))"
  unfolding allLocs_each by (rule holds_fuel) (rule doWhileSkip_holds)

lemma holds_many [holds_specs]:
  assumes p: "holds opts src p (\<lambda>a. allLocs opts src (L a))"
  shows "holds opts src (many opening p closing) (\<lambda>xs. allLocs opts src (each L xs))"
proof -
  have loop: "holds opts src (\<lambda>lexer. untilSkip (fuel lexer) closing p [first] lexer)
      (\<lambda>xs. allLocs opts src (each L xs))" if "allLocs opts src (L first)" for first
    using that by (intro holds_untilSkip[where L=L] p) (simp add: allLocs_each)
  show ?thesis
    unfolding many_def
    by (rule holds_bnd[OF holds_expect], rule holds_bnd[OF p], rule loop)
qed

lemma holds_any [holds_specs]:
  assumes p: "holds opts src p (\<lambda>a. allLocs opts src (L a))"
  shows "holds opts src (any opening p closing) (\<lambda>xs. allLocs opts src (each L xs))"
proof -
  have loop: "holds opts src (\<lambda>lexer. untilSkip (fuel lexer) closing p [] lexer)
      (\<lambda>xs. allLocs opts src (each L xs))"
    by (intro holds_untilSkip[where L=L] p) (simp add: allLocs_each)
  show ?thesis
    unfolding any_def
    by (rule holds_bnd[OF holds_expect], rule loop)
qed

lemma holds_optional [holds_specs]:
  assumes p: "holds opts src p (\<lambda>a. allLocs opts src (L a))"
  shows "holds opts src (if c then bnd p (\<lambda>x. ret (Some x)) else ret None)
       (\<lambda>x. allLocs opts src (optional L x))"
proof (rule holds_if)
  show "holds opts src (bnd p (\<lambda>x. ret (Some x))) (\<lambda>x. allLocs opts src (optional L x))"
    by (rule holds_bnd[OF p], rule holds_ret) (simp add: allLocs_optional)
  show "holds opts src (ret None) (\<lambda>x. allLocs opts src (optional L x))"
    by (rule holds_ret) (simp add: allLocs_optional)
qed

lemma parseName_holds [holds_specs]:
  "holds opts src parseName (\<lambda>a. allLocs opts src (nameLocs a))"
  unfolding parseName_def
  by (rule holds_specs | rule holds_rules | (simp add: allLocs_simps; fail))+

lemma parseVariable_holds [holds_specs]:
  "holds opts src parseVariable (\<lambda>a. allLocs opts src (valueLocs a))"
  unfolding parseVariable_def
  by (rule holds_specs | rule holds_rules | (simp add: allLocs_simps; fail))+

lemma parseStringLiteral_holds [holds_specs]:
  "holds opts src parseStringLiteral (\<lambda>a. allLocs opts src (valueLocs a))"
  unfolding parseStringLiteral_def
  by (rule holds_specs | rule holds_rules | (simp add: allLocs_simps; fail))+

lemma parseValueLiteral_fuel_holds [holds_specs]:
  "holds opts src (parseValueLiteral_fuel n isConst) (\<lambda>a. allLocs opts src (valueLocs a))"
proof (induction n arbitrary: isConst)
  case 0
  show ?case by (simp add: holds_throw)
next
  case (Suc n)
  note item = Suc.IH
  have list: "holds opts src (parseList_fuel n isConst) (\<lambda>a. allLocs opts src (valueLocs a))"
    unfolding parseList_fuel.simps
    by (rule item holds_specs | rule holds_rules | (simp add: allLocs_simps; fail))+
  have field: "holds opts src (parseObjectField_fuel n isConst)
      (\<lambda>a. allLocs opts src (objectFieldLocs a))"
    unfolding parseObjectField_fuel.simps
    by (rule item holds_specs | rule holds_rules | (simp add: allLocs_simps; fail))+
  have object: "holds opts src (parseObject_fuel n isConst)
      (\<lambda>a. allLocs opts src (valueLocs a))"
    unfolding parseObject_fuel.simps
    by (rule field holds_specs | rule holds_rules | (simp add: allLocs_simps; fail))+
  show ?case
    unfolding parseValueLiteral_fuel.simps
    apply (rule holds_bnd, rule holds_currentToken)
    subgoal for tok
      apply (cases "kind tok")
      apply (simp_all only: tokenKind.case)
      apply (rule list object holds_specs | rule holds_rules | (simp add: allLocs_simps; fail))+
      done
    done
qed

lemma parseObjectField_fuel_holds [holds_specs]:
  "holds opts src (parseObjectField_fuel n isConst) (\<lambda>a. allLocs opts src (objectFieldLocs a))"
  unfolding parseObjectField_fuel.simps
  by (rule holds_specs | rule holds_rules | (simp add: allLocs_simps; fail))+

lemma parseList_fuel_holds [holds_specs]:
  "holds opts src (parseList_fuel n isConst) (\<lambda>a. allLocs opts src (valueLocs a))"
  unfolding parseList_fuel.simps
  by (rule holds_specs | rule holds_rules | (simp add: allLocs_simps; fail))+

lemma parseObject_fuel_holds [holds_specs]:
  "holds opts src (parseObject_fuel n isConst) (\<lambda>a. allLocs opts src (valueLocs a))"
  unfolding parseObject_fuel.simps
  by (rule holds_specs | rule holds_rules | (simp add: allLocs_simps; fail))+

lemma parseValueLiteral_holds [holds_specs]:
  "holds opts src (parseValueLiteral isConst) (\<lambda>a. allLocs opts src (valueLocs a))"
  unfolding parseValueLiteral_eq by (rule holds_fuel) (rule holds_specs)

lemma parseConstValue_holds [holds_specs]:
  "holds opts src parseConstValue (\<lambda>a. allLocs opts src (valueLocs a))"
  unfolding parseConstValue_def by (rule holds_specs)

lemma parseNamedType_holds [holds_specs]:
  "holds opts src parseNamedType (\<lambda>a. allLocs opts src (typeLocs a))"
  unfolding parseNamedType_def
  by (rule holds_specs | rule holds_rules | (simp add: allLocs_simps; fail))+

lemma parseTypeReference_fuel_holds [holds_specs]:
  "holds opts src (parseTypeReference_fuel n) (\<lambda>a. allLocs opts src (typeLocs a))"
proof (induction n)
  case 0
  show ?case by (simp add: holds_throw)
next
  case (Suc n)
  note nested = Suc.IH
  have inner: "holds opts src
      (if isList then
         bnd (parseTypeReference_fuel n) (\<lambda>inner.
         bnd (expect BRACKET_R) (\<lambda>_.
         bnd (loc st) (\<lambda>l.
         ret (ListType inner l))))
       else parseNamedType) (\<lambda>a. allLocs opts src (typeLocs a))" for isList st
    by (rule nested holds_specs | rule holds_rules | (simp add: allLocs_simps; fail))+
  show ?case
    unfolding parseTypeReference_fuel.simps
    by (rule inner holds_specs | rule holds_rules | (simp add: allLocs_simps; fail))+
qed

lemma parseTypeReference_holds [holds_specs]:
  "holds opts src parseTypeReference (\<lambda>a. allLocs opts src (typeLocs a))"
  unfolding parseTypeReference_eq by (rule holds_fuel) (rule holds_specs)

lemma parseArgument_holds [holds_specs]:
  "holds opts src parseArgument (\<lambda>a. allLocs opts src (argumentLocs a))"
  unfolding parseArgument_def
  by (rule holds_specs | rule holds_rules | (simp add: allLocs_simps; fail))+

lemma parseConstArgument_holds [holds_specs]:
  "holds opts src parseConstArgument (\<lambda>a. allLocs opts src (argumentLocs a))"
  unfolding parseConstArgument_def
  by (rule holds_specs | rule holds_rules | (simp add: allLocs_simps; fail))+

lemma parseArguments_holds [holds_specs]:
  "holds opts src (parseArguments isConst) (\<lambda>xs. allLocs opts src (each argumentLocs xs))"
  unfolding parseArguments_def Let_def
  by (rule holds_specs | rule holds_rules | (simp add: allLocs_simps; fail))+

lemma parseDirective_holds [holds_specs]:
  "holds opts src (parseDirective isConst) (\<lambda>a. allLocs opts src (directiveLocs a))"
  unfolding parseDirective_def
  by (rule holds_specs | rule holds_rules | (simp add: allLocs_simps; fail))+

lemma parseDirectives_holds [holds_specs]:
  "holds opts src (parseDirectives isConst) (\<lambda>xs. allLocs opts src (each directiveLocs xs))"
  unfolding parseDirectives_eq
  by (rule holds_specs | rule holds_rules | (simp add: allLocs_simps; fail))+

lemma parseFragmentName_holds [holds_specs]:
  "holds opts src parseFragmentName (\<lambda>a. allLocs opts src (nameLocs a))"
  unfolding parseFragmentName_def
  by (rule holds_specs | rule holds_rules | (simp add: allLocs_simps; fail))+

lemma holds_alias:
  "allLocs opts src (nameLocs nameOrAlias) \<Longrightarrow>
     holds opts src
       (if aliased then bnd parseName (\<lambda>name. ret (Some nameOrAlias, name))
        else ret (None, nameOrAlias))
       (\<lambda>(a, n). allLocs opts src (optional nameLocs a) \<and> allLocs opts src (nameLocs n))"
  by (rule holds_specs | rule holds_rules | (simp add: allLocs_simps; fail))+

lemma holds_typeCondition:
  "holds opts src
     (if c then bnd advance (\<lambda>_. bnd parseNamedType (\<lambda>t. ret (Some t))) else ret None)
     (\<lambda>x. allLocs opts src (optional typeLocs x))"
  by (rule holds_specs | rule holds_rules | (simp add: allLocs_simps; fail))+

lemma parseSelectionSet_fuel_holds [holds_specs]:
  "holds opts src (parseSelectionSet_fuel n) (\<lambda>a. allLocs opts src (selectionSetLocs a))"
proof (induction n)
  case 0
  show ?case by (simp add: holds_throw)
next
  case (Suc n)
  note nested = Suc.IH
  have field: "holds opts src (parseField_fuel n) (\<lambda>a. allLocs opts src (selectionLocs a))"
    unfolding parseField_fuel.simps
    by (rule holds_alias nested holds_specs | rule holds_rules | (simp add: allLocs_simps; fail))+
  have fragment: "holds opts src (parseFragment_fuel n)
      (\<lambda>a. allLocs opts src (selectionLocs a))"
    unfolding parseFragment_fuel.simps
    by (rule holds_typeCondition nested holds_specs | rule holds_rules | (simp add: allLocs_simps; fail))+
  have selection: "holds opts src (parseSelection_fuel n)
      (\<lambda>a. allLocs opts src (selectionLocs a))"
    unfolding parseSelection_fuel.simps
    by (rule field fragment holds_specs | rule holds_rules | (simp add: allLocs_simps; fail))+
  show ?case
    unfolding parseSelectionSet_fuel.simps
    by (rule selection holds_specs | rule holds_rules | (simp add: allLocs_simps; fail))+
qed

lemma parseField_fuel_holds [holds_specs]:
  "holds opts src (parseField_fuel n) (\<lambda>a. allLocs opts src (selectionLocs a))"
  unfolding parseField_fuel.simps
  by (rule holds_alias holds_specs | rule holds_rules | (simp add: allLocs_simps; fail))+

lemma parseFragment_fuel_holds [holds_specs]:
  "holds opts src (parseFragment_fuel n) (\<lambda>a. allLocs opts src (selectionLocs a))"
  unfolding parseFragment_fuel.simps
  by (rule holds_typeCondition holds_specs | rule holds_rules | (simp add: allLocs_simps; fail))+

lemma parseSelectionSet_holds [holds_specs]:
  "holds opts src parseSelectionSet (\<lambda>a. allLocs opts src (selectionSetLocs a))"
  unfolding parseSelectionSet_eq by (rule holds_fuel) (rule holds_specs)

lemma parseOperationType_holds [holds_specs]:
  "holds opts src parseOperationType (\<lambda>_. True)"
  unfolding parseOperationType_def
  by (rule holds_specs | rule holds_rules | (simp add: allLocs_simps; fail))+

lemma parseVariableDefinition_holds [holds_specs]:
  "holds opts src parseVariableDefinition (\<lambda>a. allLocs opts src (variableDefinitionLocs a))"
  unfolding parseVariableDefinition_def
  by (rule holds_specs | rule holds_rules | (simp add: allLocs_simps; fail))+

lemma parseVariableDefinitions_holds [holds_specs]:
  "holds opts src parseVariableDefinitions (\<lambda>xs. allLocs opts src (each variableDefinitionLocs xs))"
  unfolding parseVariableDefinitions_def
  by (rule holds_specs | rule holds_rules | (simp add: allLocs_simps; fail))+

lemma parseOperationDefinition_holds [holds_specs]:
  "holds opts src parseOperationDefinition (\<lambda>a. allLocs opts src (definitionLocs a))"
  unfolding parseOperationDefinition_def
  by (rule holds_specs | rule holds_rules | (simp add: allLocs_simps; fail))+

lemma parseFragmentDefinition_holds [holds_specs]:
  "holds opts src parseFragmentDefinition (\<lambda>a. allLocs opts src (definitionLocs a))"
  unfolding parseFragmentDefinition_def
  by (rule holds_specs | rule holds_rules | (simp add: allLocs_simps; fail))+

lemma peekDescription_holds [holds_specs]:
  "holds opts src peekDescription (\<lambda>_. True)"
  unfolding peekDescription_def
  by (rule holds_specs | rule holds_rules | (simp add: allLocs_simps; fail))+

lemma parseDescription_holds [holds_specs]:
  "holds opts src parseDescription (\<lambda>x. allLocs opts src (optional valueLocs x))"
  unfolding parseDescription_def
  by (rule holds_specs | rule holds_rules | (simp add: allLocs_simps; fail))+

lemma parseOperationTypeDefinition_holds [holds_specs]:
  "holds opts src parseOperationTypeDefinition (\<lambda>a. allLocs opts src (operationTypeDefinitionLocs a))"
  unfolding parseOperationTypeDefinition_def
  by (rule holds_specs | rule holds_rules | (simp add: allLocs_simps; fail))+

lemma parseSchemaDefinition_holds [holds_specs]:
  "holds opts src parseSchemaDefinition (\<lambda>a. allLocs opts src (definitionLocs a))"
  unfolding parseSchemaDefinition_def
  by (rule holds_specs | rule holds_rules | (simp add: allLocs_simps; fail))+

lemma parseScalarTypeDefinition_holds [holds_specs]:
  "holds opts src parseScalarTypeDefinition (\<lambda>a. allLocs opts src (definitionLocs a))"
  unfolding parseScalarTypeDefinition_def
  by (rule holds_specs | rule holds_rules | (simp add: allLocs_simps; fail))+

lemma parseImplementsInterfaces_holds [holds_specs]:
  "holds opts src parseImplementsInterfaces (\<lambda>xs. allLocs opts src (each typeLocs xs))"
  unfolding parseImplementsInterfaces_def
  by (rule holds_specs | rule holds_rules | (simp add: allLocs_simps; fail))+

lemma parseInputValueDef_holds [holds_specs]:
  "holds opts src parseInputValueDef (\<lambda>a. allLocs opts src (inputValueDefinitionLocs a))"
  unfolding parseInputValueDef_def
  by (rule holds_specs | rule holds_rules | (simp add: allLocs_simps; fail))+

lemma parseArgumentDefs_holds [holds_specs]:
  "holds opts src parseArgumentDefs (\<lambda>xs. allLocs opts src (each inputValueDefinitionLocs xs))"
  unfolding parseArgumentDefs_def
  by (rule holds_specs | rule holds_rules | (simp add: allLocs_simps; fail))+

lemma parseFieldDefinition_holds [holds_specs]:
  "holds opts src parseFieldDefinition (\<lambda>a. allLocs opts src (fieldDefinitionLocs a))"
  unfolding parseFieldDefinition_def
  by (rule holds_specs | rule holds_rules | (simp add: allLocs_simps; fail))+

lemma parseFieldDefinitions_holds [holds_specs]:
  "holds opts src parseFieldDefinitions (\<lambda>xs. allLocs opts src (each fieldDefinitionLocs xs))"
  unfolding parseFieldDefinitions_def
  by (rule holds_specs | rule holds_rules | (simp add: allLocs_simps; fail))+

lemma parseObjectTypeDefinition_holds [holds_specs]:
  "holds opts src parseObjectTypeDefinition (\<lambda>a. allLocs opts src (definitionLocs a))"
  unfolding parseObjectTypeDefinition_def
  by (rule holds_specs | rule holds_rules | (simp add: allLocs_simps; fail))+

lemma parseInterfaceTypeDefinition_holds [holds_specs]:
  "holds opts src parseInterfaceTypeDefinition (\<lambda>a. allLocs opts src (definitionLocs a))"
  unfolding parseInterfaceTypeDefinition_def
  by (rule holds_specs | rule holds_rules | (simp add: allLocs_simps; fail))+

lemma parseUnionMembers_holds [holds_specs]:
  "holds opts src parseUnionMembers (\<lambda>xs. allLocs opts src (each typeLocs xs))"
  unfolding parseUnionMembers_def
  by (rule holds_specs | rule holds_rules | (simp add: allLocs_simps; fail))+

lemma parseUnionTypeDefinition_holds [holds_specs]:
  "holds opts src parseUnionTypeDefinition (\<lambda>a. allLocs opts src (definitionLocs a))"
  unfolding parseUnionTypeDefinition_def
  by (rule holds_specs | rule holds_rules | (simp add: allLocs_simps; fail))+

lemma parseEnumValueDefinition_holds [holds_specs]:
  "holds opts src parseEnumValueDefinition (\<lambda>a. allLocs opts src (enumValueDefinitionLocs a))"
  unfolding parseEnumValueDefinition_def
  by (rule holds_specs | rule holds_rules | (simp add: allLocs_simps; fail))+

lemma parseEnumTypeDefinition_holds [holds_specs]:
  "holds opts src parseEnumTypeDefinition (\<lambda>a. allLocs opts src (definitionLocs a))"
  unfolding parseEnumTypeDefinition_def
  by (rule holds_specs | rule holds_rules | (simp add: allLocs_simps; fail))+

lemma parseInputObjectTypeDefinition_holds [holds_specs]:
  "holds opts src parseInputObjectTypeDefinition (\<lambda>a. allLocs opts src (definitionLocs a))"
  unfolding parseInputObjectTypeDefinition_def
  by (rule holds_specs | rule holds_rules | (simp add: allLocs_simps; fail))+

lemma parseObjectTypeExtension_holds [holds_specs]:
  "holds opts src parseObjectTypeExtension (\<lambda>a. allLocs opts src (definitionLocs a))"
  unfolding parseObjectTypeExtension_def
  by (rule holds_specs | rule holds_rules | (simp add: allLocs_simps; fail))+

lemma parseTypeExtension_holds [holds_specs]:
  "holds opts src parseTypeExtension (\<lambda>a. allLocs opts src (definitionLocs a))"
  unfolding parseTypeExtension_def
  by (rule holds_specs | rule holds_rules | (simp add: allLocs_simps; fail))+

lemma parseDirectiveLocation_holds [holds_specs]:
  "holds opts src parseDirectiveLocation (\<lambda>a. allLocs opts src (nameLocs a))"
  unfolding parseDirectiveLocation_def
  by (rule holds_specs | rule holds_rules | (simp add: allLocs_simps; fail))+

lemma parseDirectiveLocations_holds [holds_specs]:
  "holds opts src parseDirectiveLocations (\<lambda>xs. allLocs opts src (each nameLocs xs))"
  unfolding parseDirectiveLocations_def
  by (rule holds_specs | rule holds_rules | (simp add: allLocs_simps; fail))+

lemma parseDirectiveDefinition_holds [holds_specs]:
  "holds opts src parseDirectiveDefinition (\<lambda>a. allLocs opts src (definitionLocs a))"
  unfolding parseDirectiveDefinition_def
  by (rule holds_specs | rule holds_rules | (simp add: allLocs_simps; fail))+

lemma parseTypeSystemDefinition_holds [holds_specs]:
  "holds opts src parseTypeSystemDefinition (\<lambda>a. allLocs opts src (definitionLocs a))"
  unfolding parseTypeSystemDefinition_def
  by (rule holds_specs | rule holds_rules | (simp add: allLocs_simps; fail))+

lemma parseDefinition_holds [holds_specs]:
  "holds opts src parseDefinition (\<lambda>a. allLocs opts src (definitionLocs a))"
  unfolding parseDefinition_def
  by (rule holds_specs | rule holds_rules | (simp add: allLocs_simps; fail))+

lemma parseDocument_holds [holds_specs]:
  "holds opts src parseDocument (\<lambda>a. allLocs opts src (documentLocs a))"
  unfolding parseDocument_def
  by (rule holds_specs | rule holds_rules | (simp add: allLocs_simps; fail))+

section \<open>The location of each node: from its first token to the last one consumed\<close>

named_theorems locates_specs

lemma holds_frame:
  "holds (options lx) (source lx) p Q \<Longrightarrow> p lx = Inr (a, lx') \<Longrightarrow>
     options lx' = options lx \<and> source lx' = source lx"
  unfolding holds_def by blast

lemma locatesD: "locates nodeLoc p \<Longrightarrow> p lx = Inr (a, lx') \<Longrightarrow> nodeLoc a = spanned lx lx'"
  by (simp add: locates_def)

lemma ewl_loc_ret:
  "(\<And>l. nodeLoc (C l) = l) \<Longrightarrow> endsWithLoc st nodeLoc (bnd (loc st) (\<lambda>l. ret (C l)))"
  by (auto simp: endsWithLoc_def bnd_Inr loc_Inr ret_Inr)

lemma ewl_bnd:
  "(\<And>a. endsWithLoc st nodeLoc (f a)) \<Longrightarrow> endsWithLoc st nodeLoc (bnd m f)"
  unfolding endsWithLoc_def bnd_Inr by blast

lemma ewl_if:
  "endsWithLoc st nodeLoc p \<Longrightarrow> endsWithLoc st nodeLoc q \<Longrightarrow>
     endsWithLoc st nodeLoc (if c then p else q)"
  by simp

lemma ewl_throw: "endsWithLoc st nodeLoc (throw mk)"
  by (simp add: endsWithLoc_def throw_Inr)

lemma ewl_pair:
  "(\<And>x y. endsWithLoc st nodeLoc (g x y)) \<Longrightarrow> endsWithLoc st nodeLoc (case_prod g a)"
  by (cases a) simp

lemma locates_standard:
  assumes frame: "\<And>opts src. holds opts src (bnd currentToken rest) (Q opts src)"
    and ends: "\<And>st. endsWithLoc st nodeLoc (rest st)"
  shows "locates nodeLoc (bnd currentToken rest)"
  unfolding locates_def
proof (intro allI impI)
  fix lx a lx'
  assume run: "bnd currentToken rest lx = Inr (a, lx')"
  then have "rest (token lx) lx = Inr (a, lx')"
    by (simp add: bnd_Inr currentToken_Inr)
  with ends[of "token lx"]
  have "nodeLoc a = (if noLocation (options lx') = Some True then None
                      else Some (Loc (token lx) (lastToken lx') (source lx')))"
    unfolding endsWithLoc_def by blast
  with holds_frame[OF frame run] show "nodeLoc a = spanned lx lx'"
    by (simp add: spanned_def)
qed

lemma locates_if:
  "locates nodeLoc p \<Longrightarrow> locates nodeLoc q \<Longrightarrow> locates nodeLoc (if c then p else q)"
  by simp

lemma locates_throw: "locates nodeLoc (throw mk)"
  by (simp add: locates_def throw_Inr)

lemma locates_bnd_currentToken:
  "(\<And>a. locates nodeLoc (f a)) \<Longrightarrow> locates nodeLoc (bnd currentToken f)"
  by (auto simp: locates_def bnd_Inr currentToken_Inr)

lemma locates_bnd_peek:
  "(\<And>a. locates nodeLoc (f a)) \<Longrightarrow> locates nodeLoc (bnd (peek k) f)"
  by (auto simp: locates_def bnd_Inr peek_Inr)

lemma locates_bnd_lookahead:
  "(\<And>a. locates nodeLoc (f a)) \<Longrightarrow> locates nodeLoc (bnd lookahead f)"
  unfolding locates_def bnd_Inr by (blast dest: lookahead_Inr)

lemma peekDescription_Inr: "peekDescription lx = Inr (b, lx') \<Longrightarrow> lx' = lx"
  by (auto simp: peekDescription_def bnd_Inr peek_Inr ret_Inr split: if_splits)

lemma locates_bnd_peekDescription:
  "(\<And>a. locates nodeLoc (f a)) \<Longrightarrow> locates nodeLoc (bnd peekDescription f)"
  unfolding locates_def bnd_Inr by (blast dest: peekDescription_Inr)

lemmas locates_rules = locates_if locates_throw locates_bnd_currentToken locates_bnd_peek
  locates_bnd_lookahead locates_bnd_peekDescription

lemma locates_fuel:
  "(\<And>n. locates nodeLoc (p n)) \<Longrightarrow> locates nodeLoc (\<lambda>lexer. p (fuel lexer) lexer)"
  unfolding locates_def by blast

lemma parseName_locates [locates_specs]: "locates nameLoc parseName"
  by (auto simp: locates_def dest: parseName_Inr)

lemma parseVariable_locates [locates_specs]: "locates valueLoc parseVariable"
  unfolding parseVariable_def
  by (rule locates_standard, rule parseVariable_holds[unfolded parseVariable_def],
      (rule ewl_loc_ret | rule ewl_bnd | rule ewl_if | rule ewl_throw | rule ewl_pair
       | (simp; fail))+)

lemma parseStringLiteral_locates [locates_specs]: "locates valueLoc parseStringLiteral"
  unfolding parseStringLiteral_def
  by (rule locates_standard, rule parseStringLiteral_holds[unfolded parseStringLiteral_def],
      (rule ewl_loc_ret | rule ewl_bnd | rule ewl_if | rule ewl_throw | rule ewl_pair
       | (simp; fail))+)

lemma parseList_fuel_locates [locates_specs]: "locates valueLoc (parseList_fuel n isConst)"
  unfolding parseList_fuel.simps
  by (rule locates_standard, rule parseList_fuel_holds[unfolded parseList_fuel.simps],
      (rule ewl_loc_ret | rule ewl_bnd | rule ewl_if | rule ewl_throw | rule ewl_pair
       | (simp; fail))+)

lemma parseObject_fuel_locates [locates_specs]: "locates valueLoc (parseObject_fuel n isConst)"
  unfolding parseObject_fuel.simps
  by (rule locates_standard, rule parseObject_fuel_holds[unfolded parseObject_fuel.simps],
      (rule ewl_loc_ret | rule ewl_bnd | rule ewl_if | rule ewl_throw | rule ewl_pair
       | (simp; fail))+)

lemma parseObjectField_fuel_locates [locates_specs]: "locates objectFieldLoc (parseObjectField_fuel n isConst)"
  unfolding parseObjectField_fuel.simps
  by (rule locates_standard, rule parseObjectField_fuel_holds[unfolded parseObjectField_fuel.simps],
      (rule ewl_loc_ret | rule ewl_bnd | rule ewl_if | rule ewl_throw | rule ewl_pair
       | (simp; fail))+)

lemma parseValueLiteral_fuel_locates [locates_specs]:
  "locates valueLoc (parseValueLiteral_fuel n isConst)"
proof (cases n)
  case 0
  then show ?thesis by (simp add: locates_throw)
next
  case (Suc m)
  show ?thesis
    unfolding locates_def
  proof (intro allI impI)
    fix lx a lx'
    assume run: "parseValueLiteral_fuel n isConst lx = Inr (a, lx')"
    note sub = locatesD[OF parseList_fuel_locates] locatesD[OF parseObject_fuel_locates]
      locatesD[OF parseStringLiteral_locates] locatesD[OF parseVariable_locates]
    from run show "valueLoc a = spanned lx lx'"
      unfolding Suc parseValueLiteral_fuel.simps
      apply (simp add: bnd_Inr currentToken_Inr)
      apply (cases "kind (token lx)")
      apply (simp_all only: tokenKind.case)
      apply (auto simp: step_simps spanned_def split: if_splits dest: sub advanced_fields)
      done
  qed
qed

lemma parseValueLiteral_locates [locates_specs]: "locates valueLoc (parseValueLiteral isConst)"
  unfolding parseValueLiteral_eq by (rule locates_fuel) (rule locates_specs)

lemma parseConstValue_locates [locates_specs]: "locates valueLoc parseConstValue"
  unfolding parseConstValue_def by (rule locates_specs)

lemma parseNamedType_locates [locates_specs]: "locates typeLoc parseNamedType"
  unfolding parseNamedType_def
  by (rule locates_standard, rule parseNamedType_holds[unfolded parseNamedType_def],
      (rule ewl_loc_ret | rule ewl_bnd | rule ewl_if | rule ewl_throw | rule ewl_pair
       | (simp; fail))+)

lemma parseTypeReference_fuel_locates [locates_specs]:
  "locates typeLoc (parseTypeReference_fuel n)"
proof (cases n)
  case 0
  then show ?thesis by (simp add: locates_throw)
next
  case (Suc m)
  show ?thesis
    unfolding locates_def
  proof (intro allI impI)
    fix lx a lx'
    assume run: "parseTypeReference_fuel n lx = Inr (a, lx')"
    from holds_frame[OF parseTypeReference_fuel_holds run]
    have frame: "options lx' = options lx" "source lx' = source lx" by simp_all
    from run obtain isList lx1 type lx2 nonNull lx3
      where first: "skip BRACKET_L lx = Inr (isList, lx1)"
        and inner: "(if isList then
            bnd (parseTypeReference_fuel m) (\<lambda>inner.
            bnd (expect BRACKET_R) (\<lambda>_.
            bnd (loc (token lx)) (\<lambda>l.
            ret (ListType inner l))))
          else parseNamedType) lx1 = Inr (type, lx2)"
        and bang: "skip BANG lx2 = Inr (nonNull, lx3)"
        and last: "(if nonNull then bnd (loc (token lx)) (\<lambda>l. ret (NonNullType type l))
                    else ret type) lx3 = Inr (a, lx')"
      unfolding Suc parseTypeReference_fuel.simps
      by (auto simp: bnd_Inr currentToken_Inr)
    show "typeLoc a = spanned lx lx'"
    proof (cases nonNull)
      case True
      with last frame show ?thesis by (auto simp: step_simps spanned_def)
    next
      case False
      with last bang have same: "a = type" "lx' = lx2"
        by (auto simp: step_simps split: if_splits)
      show ?thesis
      proof (cases isList)
        case True
        with inner frame show ?thesis
          unfolding same by (auto simp: step_simps spanned_def dest: advanced_fields)
      next
        case False
        with first have "lx1 = lx" by (auto simp: step_simps split: if_splits)
        with False inner locatesD[OF parseNamedType_locates] show ?thesis
          unfolding same by simp
      qed
    qed
  qed
qed

lemma parseTypeReference_locates [locates_specs]: "locates typeLoc parseTypeReference"
  unfolding parseTypeReference_eq by (rule locates_fuel) (rule locates_specs)

lemma parseArgument_locates [locates_specs]: "locates argumentLoc parseArgument"
  unfolding parseArgument_def
  by (rule locates_standard, rule parseArgument_holds[unfolded parseArgument_def],
      (rule ewl_loc_ret | rule ewl_bnd | rule ewl_if | rule ewl_throw | rule ewl_pair
       | (simp; fail))+)

lemma parseConstArgument_locates [locates_specs]: "locates argumentLoc parseConstArgument"
  unfolding parseConstArgument_def
  by (rule locates_standard, rule parseConstArgument_holds[unfolded parseConstArgument_def],
      (rule ewl_loc_ret | rule ewl_bnd | rule ewl_if | rule ewl_throw | rule ewl_pair
       | (simp; fail))+)

lemma parseDirective_locates [locates_specs]: "locates directiveLoc (parseDirective isConst)"
  unfolding parseDirective_def
  by (rule locates_standard, rule parseDirective_holds[unfolded parseDirective_def],
      (rule ewl_loc_ret | rule ewl_bnd | rule ewl_if | rule ewl_throw | rule ewl_pair
       | (simp; fail))+)

lemma parseFragmentName_locates [locates_specs]: "locates nameLoc parseFragmentName"
  unfolding parseFragmentName_def
  by (rule locates_specs | rule locates_rules)+

lemma parseSelectionSet_fuel_Suc_locates:
  "locates selectionSetLoc (parseSelectionSet_fuel (Suc n))"
  unfolding parseSelectionSet_fuel.simps
  by (rule locates_standard,
      rule parseSelectionSet_fuel_holds[of _ _ "Suc n", unfolded parseSelectionSet_fuel.simps],
      (rule ewl_loc_ret | rule ewl_bnd | rule ewl_if | rule ewl_throw | rule ewl_pair
       | (simp; fail))+)

lemma parseSelectionSet_fuel_locates [locates_specs]:
  "locates selectionSetLoc (parseSelectionSet_fuel n)"
proof (cases n)
  case 0
  show ?thesis unfolding 0 parseSelectionSet_fuel.simps by (rule locates_throw)
next
  case (Suc m)
  show ?thesis unfolding Suc by (rule parseSelectionSet_fuel_Suc_locates)
qed

lemma parseSelectionSet_locates [locates_specs]: "locates selectionSetLoc parseSelectionSet"
  unfolding parseSelectionSet_eq by (rule locates_fuel) (rule locates_specs)

lemma parseField_fuel_locates [locates_specs]: "locates selectionLoc (parseField_fuel n)"
  unfolding parseField_fuel.simps
  by (rule locates_standard, rule parseField_fuel_holds[unfolded parseField_fuel.simps],
      (rule ewl_loc_ret | rule ewl_bnd | rule ewl_if | rule ewl_throw | rule ewl_pair
       | (simp; fail))+)

lemma parseFragment_fuel_locates [locates_specs]: "locates selectionLoc (parseFragment_fuel n)"
  unfolding parseFragment_fuel.simps
  by (rule locates_standard, rule parseFragment_fuel_holds[unfolded parseFragment_fuel.simps],
      (rule ewl_loc_ret | rule ewl_bnd | rule ewl_if | rule ewl_throw | rule ewl_pair
       | (simp; fail))+)

lemma parseSelection_fuel_locates [locates_specs]: "locates selectionLoc (parseSelection_fuel n)"
  unfolding parseSelection_fuel.simps
  by (rule locates_specs | rule locates_rules)+

lemma parseVariableDefinition_locates [locates_specs]: "locates variableDefinitionLoc parseVariableDefinition"
  unfolding parseVariableDefinition_def
  by (rule locates_standard, rule parseVariableDefinition_holds[unfolded parseVariableDefinition_def],
      (rule ewl_loc_ret | rule ewl_bnd | rule ewl_if | rule ewl_throw | rule ewl_pair
       | (simp; fail))+)

lemma parseOperationDefinition_locates [locates_specs]: "locates definitionLoc parseOperationDefinition"
  unfolding parseOperationDefinition_def
  by (rule locates_standard, rule parseOperationDefinition_holds[unfolded parseOperationDefinition_def],
      (rule ewl_loc_ret | rule ewl_bnd | rule ewl_if | rule ewl_throw | rule ewl_pair
       | (simp; fail))+)

lemma parseFragmentDefinition_locates [locates_specs]: "locates definitionLoc parseFragmentDefinition"
  unfolding parseFragmentDefinition_def
  by (rule locates_standard, rule parseFragmentDefinition_holds[unfolded parseFragmentDefinition_def],
      (rule ewl_loc_ret | rule ewl_bnd | rule ewl_if | rule ewl_throw | rule ewl_pair
       | (simp; fail))+)

lemma parseOperationTypeDefinition_locates [locates_specs]: "locates operationTypeDefinitionLoc parseOperationTypeDefinition"
  unfolding parseOperationTypeDefinition_def
  by (rule locates_standard, rule parseOperationTypeDefinition_holds[unfolded parseOperationTypeDefinition_def],
      (rule ewl_loc_ret | rule ewl_bnd | rule ewl_if | rule ewl_throw | rule ewl_pair
       | (simp; fail))+)

lemma parseSchemaDefinition_locates [locates_specs]: "locates definitionLoc parseSchemaDefinition"
  unfolding parseSchemaDefinition_def
  by (rule locates_standard, rule parseSchemaDefinition_holds[unfolded parseSchemaDefinition_def],
      (rule ewl_loc_ret | rule ewl_bnd | rule ewl_if | rule ewl_throw | rule ewl_pair
       | (simp; fail))+)

lemma parseScalarTypeDefinition_locates [locates_specs]: "locates definitionLoc parseScalarTypeDefinition"
  unfolding parseScalarTypeDefinition_def
  by (rule locates_standard, rule parseScalarTypeDefinition_holds[unfolded parseScalarTypeDefinition_def],
      (rule ewl_loc_ret | rule ewl_bnd | rule ewl_if | rule ewl_throw | rule ewl_pair
       | (simp; fail))+)

lemma parseInputValueDef_locates [locates_specs]: "locates inputValueDefinitionLoc parseInputValueDef"
  unfolding parseInputValueDef_def
  by (rule locates_standard, rule parseInputValueDef_holds[unfolded parseInputValueDef_def],
      (rule ewl_loc_ret | rule ewl_bnd | rule ewl_if | rule ewl_throw | rule ewl_pair
       | (simp; fail))+)

lemma parseFieldDefinition_locates [locates_specs]: "locates fieldDefinitionLoc parseFieldDefinition"
  unfolding parseFieldDefinition_def
  by (rule locates_standard, rule parseFieldDefinition_holds[unfolded parseFieldDefinition_def],
      (rule ewl_loc_ret | rule ewl_bnd | rule ewl_if | rule ewl_throw | rule ewl_pair
       | (simp; fail))+)

lemma parseObjectTypeDefinition_locates [locates_specs]: "locates definitionLoc parseObjectTypeDefinition"
  unfolding parseObjectTypeDefinition_def
  by (rule locates_standard, rule parseObjectTypeDefinition_holds[unfolded parseObjectTypeDefinition_def],
      (rule ewl_loc_ret | rule ewl_bnd | rule ewl_if | rule ewl_throw | rule ewl_pair
       | (simp; fail))+)

lemma parseInterfaceTypeDefinition_locates [locates_specs]: "locates definitionLoc parseInterfaceTypeDefinition"
  unfolding parseInterfaceTypeDefinition_def
  by (rule locates_standard, rule parseInterfaceTypeDefinition_holds[unfolded parseInterfaceTypeDefinition_def],
      (rule ewl_loc_ret | rule ewl_bnd | rule ewl_if | rule ewl_throw | rule ewl_pair
       | (simp; fail))+)

lemma parseUnionTypeDefinition_locates [locates_specs]: "locates definitionLoc parseUnionTypeDefinition"
  unfolding parseUnionTypeDefinition_def
  by (rule locates_standard, rule parseUnionTypeDefinition_holds[unfolded parseUnionTypeDefinition_def],
      (rule ewl_loc_ret | rule ewl_bnd | rule ewl_if | rule ewl_throw | rule ewl_pair
       | (simp; fail))+)

lemma parseEnumValueDefinition_locates [locates_specs]: "locates enumValueDefinitionLoc parseEnumValueDefinition"
  unfolding parseEnumValueDefinition_def
  by (rule locates_standard, rule parseEnumValueDefinition_holds[unfolded parseEnumValueDefinition_def],
      (rule ewl_loc_ret | rule ewl_bnd | rule ewl_if | rule ewl_throw | rule ewl_pair
       | (simp; fail))+)

lemma parseEnumTypeDefinition_locates [locates_specs]: "locates definitionLoc parseEnumTypeDefinition"
  unfolding parseEnumTypeDefinition_def
  by (rule locates_standard, rule parseEnumTypeDefinition_holds[unfolded parseEnumTypeDefinition_def],
      (rule ewl_loc_ret | rule ewl_bnd | rule ewl_if | rule ewl_throw | rule ewl_pair
       | (simp; fail))+)

lemma parseInputObjectTypeDefinition_locates [locates_specs]: "locates definitionLoc parseInputObjectTypeDefinition"
  unfolding parseInputObjectTypeDefinition_def
  by (rule locates_standard, rule parseInputObjectTypeDefinition_holds[unfolded parseInputObjectTypeDefinition_def],
      (rule ewl_loc_ret | rule ewl_bnd | rule ewl_if | rule ewl_throw | rule ewl_pair
       | (simp; fail))+)

lemma parseObjectTypeExtension_locates [locates_specs]: "locates definitionLoc parseObjectTypeExtension"
  unfolding parseObjectTypeExtension_def
  by (rule locates_standard, rule parseObjectTypeExtension_holds[unfolded parseObjectTypeExtension_def],
      (rule ewl_loc_ret | rule ewl_bnd | rule ewl_if | rule ewl_throw | rule ewl_pair
       | (simp; fail))+)

lemma parseTypeExtension_locates [locates_specs]: "locates definitionLoc parseTypeExtension"
  unfolding parseTypeExtension_def
  by (rule locates_specs | rule locates_rules)+

lemma parseDirectiveLocation_locates [locates_specs]:
  "locates nameLoc parseDirectiveLocation"
  unfolding locates_def
proof (intro allI impI)
  fix lx a lx'
  assume "parseDirectiveLocation lx = Inr (a, lx')"
  then obtain name lx1 where name: "parseName lx = Inr (name, lx1)"
    and rest: "(case name of Name v _ \<Rightarrow>
         if hasOwnProperty DirectiveLocation v then ret name
         else throw (unexpected (Some (token lx)))) lx1 = Inr (a, lx')"
    by (auto simp: parseDirectiveLocation_def bnd_Inr currentToken_Inr)
  from rest have "a = name \<and> lx' = lx1"
    by (cases name) (simp add: ret_Inr throw_Inr split: if_splits)
  with name have "parseName lx = Inr (a, lx')" by simp
  then show "nameLoc a = spanned lx lx'" by (rule locatesD[OF parseName_locates])
qed

lemma parseDirectiveDefinition_locates [locates_specs]: "locates definitionLoc parseDirectiveDefinition"
  unfolding parseDirectiveDefinition_def
  by (rule locates_standard, rule parseDirectiveDefinition_holds[unfolded parseDirectiveDefinition_def],
      (rule ewl_loc_ret | rule ewl_bnd | rule ewl_if | rule ewl_throw | rule ewl_pair
       | (simp; fail))+)

lemma locates_keyword:
  "(\<And>a. locates nodeLoc (f a)) \<Longrightarrow>
     locates nodeLoc (bnd (if described then lookahead else currentToken) f)"
  by (cases described) (simp_all add: locates_bnd_lookahead locates_bnd_currentToken)

lemma parseTypeSystemDefinition_locates [locates_specs]: "locates definitionLoc parseTypeSystemDefinition"
  unfolding parseTypeSystemDefinition_def
  by (rule locates_specs | rule locates_rules | rule locates_keyword)+

lemma parseDefinition_locates [locates_specs]: "locates definitionLoc parseDefinition"
  unfolding parseDefinition_def
  by (rule locates_specs | rule locates_rules)+

lemma parseDocument_locates [locates_specs]: "locates documentLoc parseDocument"
  unfolding parseDocument_def
  by (rule locates_standard, rule parseDocument_holds[unfolded parseDocument_def],
      (rule ewl_loc_ret | rule ewl_bnd | rule ewl_if | rule ewl_throw | rule ewl_pair
       | (simp; fail))+)

section \<open>Locations\<close>

lemma holdsD:
  "holds opts src p Q \<Longrightarrow> options lx = opts \<Longrightarrow> source lx = src \<Longrightarrow> p lx = Inr (a, lx') \<Longrightarrow>
     options lx' = opts \<and> source lx' = src \<and> Q a"
  unfolding holds_def by blast

lemma parse_policy:
  assumes "parse tokenize src opts = Inr d"
  shows "allLocs (orEmpty opts) (toSourceObj src) (documentLocs d)"
proof -
  from assms obtain lx
    where "parseDocument (createLexer tokenize (toSourceObj src) (orEmpty opts)) = Inr (d, lx)"
    by (auto simp: parse_Inr)
  from holdsD[OF parseDocument_holds _ _ this] show ?thesis
    by (simp add: createLexer_def)
qed

lemma parseValue_policy:
  assumes "parseValue tokenize src opts = Inr v"
  shows "allLocs (orEmpty opts) (toSourceObj src) (valueLocs v)"
proof -
  let ?lexer = "createLexer tokenize (toSourceObj src) (orEmpty opts)"
  from assms obtain t lx1 lx2
    where first: "expect SOF ?lexer = Inr (t, lx1)"
      and v: "parseValueLiteral False lx1 = Inr (v, lx2)"
    by (auto simp: parseValue_def Let_def result_Inr bnd_Inr ret_Inr)
  from holdsD[OF holds_expect _ _ first]
  have "options lx1 = orEmpty opts" "source lx1 = toSourceObj src"
    by (simp_all add: createLexer_def)
  from holdsD[OF parseValueLiteral_holds this v] show ?thesis by simp
qed

lemma parseType_policy:
  assumes "parseType tokenize src opts = Inr t"
  shows "allLocs (orEmpty opts) (toSourceObj src) (typeLocs t)"
proof -
  let ?lexer = "createLexer tokenize (toSourceObj src) (orEmpty opts)"
  from assms obtain s lx1 lx2
    where first: "expect SOF ?lexer = Inr (s, lx1)"
      and t: "parseTypeReference lx1 = Inr (t, lx2)"
    by (auto simp: parseType_def Let_def result_Inr bnd_Inr ret_Inr)
  from holdsD[OF holds_expect _ _ first]
  have "options lx1 = orEmpty opts" "source lx1 = toSourceObj src"
    by (simp_all add: createLexer_def)
  from holdsD[OF parseTypeReference_holds this t] show ?thesis by simp
qed

lemma listType_under_nonNull:
  assumes run: "parseTypeReference_fuel n lx = Inr (NonNullType (ListType inner l) l', lx')"
  shows "\<exists>mid. advanced mid lx' \<and> kind (token mid) = BANG \<and> l = spanned lx mid"
proof (cases n)
  case 0
  with run show ?thesis by (simp add: throw_Inr)
next
  case (Suc m)
  from run obtain isList lx1 type lx2 nonNull lx3
    where first: "skip BRACKET_L lx = Inr (isList, lx1)"
      and inner: "(if isList then
          bnd (parseTypeReference_fuel m) (\<lambda>inner.
          bnd (expect BRACKET_R) (\<lambda>_.
          bnd (loc (token lx)) (\<lambda>l.
          ret (ListType inner l))))
        else parseNamedType) lx1 = Inr (type, lx2)"
      and bang: "skip BANG lx2 = Inr (nonNull, lx3)"
      and last: "(if nonNull then bnd (loc (token lx)) (\<lambda>l. ret (NonNullType type l))
                  else ret type) lx3 = Inr (NonNullType (ListType inner l) l', lx')"
    unfolding Suc parseTypeReference_fuel.simps
    by (auto simp: bnd_Inr currentToken_Inr)
  have frame: "options lx2 = options lx \<and> source lx2 = source lx"
  proof -
    from first have one: "options lx1 = options lx \<and> source lx1 = source lx"
      by (auto simp: skip_Inr split: if_splits dest: advanced_fields)
    have "holds (options lx1) (source lx1)
        (if isList then
          bnd (parseTypeReference_fuel m) (\<lambda>inner.
          bnd (expect BRACKET_R) (\<lambda>_.
          bnd (loc (token lx)) (\<lambda>l.
          ret (ListType inner l))))
        else parseNamedType) (\<lambda>a. allLocs (options lx1) (source lx1) (typeLocs a))"
      by (rule holds_specs | rule holds_rules | (simp add: allLocs_simps; fail))+
    from holds_frame[OF this inner] one show ?thesis by simp
  qed
  show ?thesis
  proof (cases nonNull)
    case True
    with last bang have type: "type = ListType inner l" and adv: "advanced lx2 lx'"
      and k: "kind (token lx2) = BANG"
      by (auto simp: step_simps split: if_splits)
    from inner type have isList by (auto dest: parseNamedType_Inr split: if_splits)
    with inner type frame have "l = spanned lx lx2"
      by (auto simp: step_simps spanned_def dest: advanced_fields)
    with adv k show ?thesis by blast
  next
    case False
    with last bang have "type = NonNullType (ListType inner l) l'"
      by (auto simp: step_simps split: if_splits)
    with inner parseTypeReference_fuel_shape[of m] show ?thesis
      by (auto simp: step_simps dest: parseNamedType_Inr split: if_splits)
  qed
qed

text \<open>
  C6. Every \<^verbatim>\<open>loc\<close> field of the tree that \<^verbatim>\<open>parse\<close>, \<^verbatim>\<open>parseValue\<close> or \<^verbatim>\<open>parseType\<close>
  returns follows the location policy of the options and the source the lexer was
  created with: it is absent when \<^verbatim>\<open>noLocation\<close> is true, and otherwise it is a location
  of that source whose \<^verbatim>\<open>start\<close> is the start of its \<^verbatim>\<open>startToken\<close> and whose \<^verbatim>\<open>end\<close>
  is the end of its \<^verbatim>\<open>endToken\<close>. \<^verbatim>\<open>loc(lexer, startToken)\<close> is absent under
  \<^verbatim>\<open>noLocation\<close> and otherwise runs from \<^verbatim>\<open>startToken\<close> to \<^verbatim>\<open>lexer.lastToken\<close>, and
  \<^verbatim>\<open>toJSON\<close> of a location has \<^verbatim>\<open>start\<close> and \<^verbatim>\<open>end\<close> only. The node that a production
  returns is located from the token the lexer was at when the production began to the
  last token consumed when it returns, for every production that returns a node; the
  \<^verbatim>\<open>ListType\<close> that \<^verbatim>\<open>parseTypeReference\<close> wraps in a \<^verbatim>\<open>NonNullType\<close>, the one node built
  before its production returns, is located from that first token to the last token
  consumed before the \<^verbatim>\<open>!\<close>.
\<close>

theorem C6_location_policy:
  "(\<forall>d. parse tokenize src opts = Inr d \<longrightarrow>
      (\<forall>l\<in>set (documentLocs d). locationPolicy (orEmpty opts) (toSourceObj src) l)) \<and>
   (\<forall>v. parseValue tokenize src opts = Inr v \<longrightarrow>
      (\<forall>l\<in>set (valueLocs v). locationPolicy (orEmpty opts) (toSourceObj src) l)) \<and>
   (\<forall>t. parseType tokenize src opts = Inr t \<longrightarrow>
      (\<forall>l\<in>set (typeLocs t). locationPolicy (orEmpty opts) (toSourceObj src) l)) \<and>
   loc startTok lexer =
     Inr (if noLocation (options lexer) = Some True then None
          else Some (Location (start startTok) (end' (lastToken lexer)) startTok
                       (lastToken lexer) (source lexer)),
          lexer) \<and>
   toJSON location = [(''start'', locStart location), (''end'', locEnd location)] \<and>
   (\<forall>inner l l' lexer'.
      parseTypeReference lexer = Inr (NonNullType (ListType inner l) l', lexer') \<longrightarrow>
      (\<exists>mid. advanced mid lexer' \<and> kind (token mid) = BANG \<and> l = spanned lexer mid)) \<and>
   locates documentLoc parseDocument \<and>
   locates definitionLoc parseDefinition \<and>
   locates definitionLoc parseOperationDefinition \<and>
   locates variableDefinitionLoc parseVariableDefinition \<and>
   locates valueLoc parseVariable \<and>
   locates selectionSetLoc parseSelectionSet \<and>
   locates selectionSetLoc (parseSelectionSet_fuel n) \<and>
   locates selectionLoc (parseSelection_fuel n) \<and>
   locates selectionLoc (parseField_fuel n) \<and>
   locates selectionLoc (parseFragment_fuel n) \<and>
   locates argumentLoc parseArgument \<and>
   locates argumentLoc parseConstArgument \<and>
   locates definitionLoc parseFragmentDefinition \<and>
   locates nameLoc parseFragmentName \<and>
   locates nameLoc parseName \<and>
   locates valueLoc (parseValueLiteral isConst) \<and>
   locates valueLoc (parseValueLiteral_fuel n isConst) \<and>
   locates valueLoc parseStringLiteral \<and>
   locates valueLoc parseConstValue \<and>
   locates valueLoc (parseList_fuel n isConst) \<and>
   locates valueLoc (parseObject_fuel n isConst) \<and>
   locates objectFieldLoc (parseObjectField_fuel n isConst) \<and>
   locates directiveLoc (parseDirective isConst) \<and>
   locates typeLoc parseTypeReference \<and>
   locates typeLoc (parseTypeReference_fuel n) \<and>
   locates typeLoc parseNamedType \<and>
   locates definitionLoc parseTypeSystemDefinition \<and>
   locates definitionLoc parseSchemaDefinition \<and>
   locates operationTypeDefinitionLoc parseOperationTypeDefinition \<and>
   locates definitionLoc parseScalarTypeDefinition \<and>
   locates definitionLoc parseObjectTypeDefinition \<and>
   locates fieldDefinitionLoc parseFieldDefinition \<and>
   locates inputValueDefinitionLoc parseInputValueDef \<and>
   locates definitionLoc parseInterfaceTypeDefinition \<and>
   locates definitionLoc parseUnionTypeDefinition \<and>
   locates definitionLoc parseEnumTypeDefinition \<and>
   locates enumValueDefinitionLoc parseEnumValueDefinition \<and>
   locates definitionLoc parseInputObjectTypeDefinition \<and>
   locates definitionLoc parseTypeExtension \<and>
   locates definitionLoc parseObjectTypeExtension \<and>
   locates definitionLoc parseDirectiveDefinition \<and>
   locates nameLoc parseDirectiveLocation"
proof -
  have document: "\<forall>d. parse tokenize src opts = Inr d \<longrightarrow>
      (\<forall>l\<in>set (documentLocs d). locationPolicy (orEmpty opts) (toSourceObj src) l)"
    using parse_policy[of tokenize src opts] unfolding allLocs_def by blast
  have val: "\<forall>v. parseValue tokenize src opts = Inr v \<longrightarrow>
      (\<forall>l\<in>set (valueLocs v). locationPolicy (orEmpty opts) (toSourceObj src) l)"
    using parseValue_policy[of tokenize src opts] unfolding allLocs_def by blast
  have type: "\<forall>t. parseType tokenize src opts = Inr t \<longrightarrow>
      (\<forall>l\<in>set (typeLocs t). locationPolicy (orEmpty opts) (toSourceObj src) l)"
    using parseType_policy[of tokenize src opts] unfolding allLocs_def by blast
  have built: "loc startTok lexer =
     Inr (if noLocation (options lexer) = Some True then None
          else Some (Location (start startTok) (end' (lastToken lexer)) startTok
                       (lastToken lexer) (source lexer)),
          lexer)"
    by (simp add: loc_def Loc_def)
  have json: "toJSON location = [(''start'', locStart location), (''end'', locEnd location)]"
    by (simp add: toJSON_def)
  have listType: "\<forall>inner l l' lexer'.
      parseTypeReference lexer = Inr (NonNullType (ListType inner l) l', lexer') \<longrightarrow>
      (\<exists>mid. advanced mid lexer' \<and> kind (token mid) = BANG \<and> l = spanned lexer mid)"
    unfolding parseTypeReference_def by (intro allI impI) (rule listType_under_nonNull)
  show ?thesis
    by (intro conjI) (rule document val type built json listType locates_specs)+
qed

theorem C6_location_policy_witness:
  "parseValue (tokensThenEOF tokens_variable 2) (JSString ''$x'') None =
     Inr (Variable
        (Name (Some ''x'')
           (Some (Location 1 2 (Token NAME 1 2 (Some ''x'')) (Token NAME 1 2 (Some ''x''))
              (SourceInstance (Source ''$x'' ''GraphQL'')))))
        (Some (Location 0 2 (Token DOLLAR 0 1 None) (Token NAME 1 2 (Some ''x''))
              (SourceInstance (Source ''$x'' ''GraphQL''))))) \<and>
   locationPolicy \<lparr>noLocation = None\<rparr> (SourceInstance (Source ''$x'' ''GraphQL''))
     (Some (Location 0 2 (Token DOLLAR 0 1 None) (Token NAME 1 2 (Some ''x''))
              (SourceInstance (Source ''$x'' ''GraphQL'')))) \<and>
   locationPolicy \<lparr>noLocation = None\<rparr> (SourceInstance (Source ''$x'' ''GraphQL''))
     (Some (Location 1 2 (Token NAME 1 2 (Some ''x'')) (Token NAME 1 2 (Some ''x''))
              (SourceInstance (Source ''$x'' ''GraphQL'')))) \<and>
   parseValue (tokensThenEOF tokens_variable 2) (JSString ''$x'') withoutLocations =
     Inr (Variable (Name (Some ''x'') None) None) \<and>
   locationPolicy \<lparr>noLocation = Some True\<rparr> (SourceInstance (Source ''$x'' ''GraphQL''))
     None \<and>
   parseType (tokensThenEOF tokens_listType 7) (JSString ''[Int!]!'') None =
     Inr (NonNullType
        (ListType
           (NonNullType
              (NamedType
                 (Name (Some ''Int'')
                    (Some (Location 1 4 (Token NAME 1 4 (Some ''Int''))
                       (Token NAME 1 4 (Some ''Int''))
              (SourceInstance (Source ''[Int!]!'' ''GraphQL'')))))
                 (Some (Location 1 4 (Token NAME 1 4 (Some ''Int''))
              (Token NAME 1 4 (Some ''Int''))
              (SourceInstance (Source ''[Int!]!'' ''GraphQL'')))))
              (Some (Location 1 5 (Token NAME 1 4 (Some ''Int'')) (Token BANG 4 5 None)
              (SourceInstance (Source ''[Int!]!'' ''GraphQL'')))))
           (Some (Location 0 6 (Token BRACKET_L 0 1 None) (Token BRACKET_R 5 6 None)
              (SourceInstance (Source ''[Int!]!'' ''GraphQL'')))))
        (Some (Location 0 7 (Token BRACKET_L 0 1 None) (Token BANG 6 7 None)
              (SourceInstance (Source ''[Int!]!'' ''GraphQL''))))) \<and>
   locationPolicy \<lparr>noLocation = None\<rparr> (SourceInstance (Source ''[Int!]!'' ''GraphQL''))
     (Some (Location 0 7 (Token BRACKET_L 0 1 None) (Token BANG 6 7 None)
              (SourceInstance (Source ''[Int!]!'' ''GraphQL'')))) \<and>
   locationPolicy \<lparr>noLocation = None\<rparr> (SourceInstance (Source ''[Int!]!'' ''GraphQL''))
     (Some (Location 0 6 (Token BRACKET_L 0 1 None) (Token BRACKET_R 5 6 None)
              (SourceInstance (Source ''[Int!]!'' ''GraphQL'')))) \<and>
   locationPolicy \<lparr>noLocation = None\<rparr> (SourceInstance (Source ''[Int!]!'' ''GraphQL''))
     (Some (Location 1 5 (Token NAME 1 4 (Some ''Int'')) (Token BANG 4 5 None)
              (SourceInstance (Source ''[Int!]!'' ''GraphQL'')))) \<and>
   locationPolicy \<lparr>noLocation = None\<rparr> (SourceInstance (Source ''[Int!]!'' ''GraphQL''))
     (Some (Location 1 4 (Token NAME 1 4 (Some ''Int''))
              (Token NAME 1 4 (Some ''Int''))
              (SourceInstance (Source ''[Int!]!'' ''GraphQL'')))) \<and>
   parse (tokensThenEOF tokens_shorthand 7) (JSString ''{ a b }'') withoutLocations =
     Inr (Document
        [OperationDefinition ''query'' None [] []
           (SelectionSet
              [Field None (Name (Some ''a'') None) [] [] None None,
               Field None (Name (Some ''b'') None) [] [] None None]
              None)
           None]
        None) \<and>
   locationPolicy \<lparr>noLocation = Some True\<rparr> (SourceInstance (Source ''{ a b }'' ''GraphQL''))
     None \<and>
   toJSON (Location 0 2 (Token DOLLAR 0 1 None) (Token NAME 1 2 (Some ''x''))
              (SourceInstance (Source ''$x'' ''GraphQL''))) = [(''start'', 0), (''end'', 2)] \<and>
   parseVariable (lexerPastSOF (SourceInstance (Source ''$x'' ''GraphQL''))
        \<lparr>noLocation = None\<rparr>
        (Token DOLLAR 0 1 None) [Token NAME 1 2 (Some ''x'')] 2) =
     Inr (Variable
        (Name (Some ''x'')
           (Some (Location 1 2 (Token NAME 1 2 (Some ''x'')) (Token NAME 1 2 (Some ''x''))
              (SourceInstance (Source ''$x'' ''GraphQL'')))))
        (Some (Location 0 2 (Token DOLLAR 0 1 None) (Token NAME 1 2 (Some ''x''))
              (SourceInstance (Source ''$x'' ''GraphQL'')))),
      \<lparr> source = SourceInstance (Source ''$x'' ''GraphQL''), options = \<lparr>noLocation = None\<rparr>,
        lastToken = Token NAME 1 2 (Some ''x''), token = Token EOF 2 2 None,
        pending = [], ending = EndOfFile 2 \<rparr>) \<and>
   valueLoc (Variable
        (Name (Some ''x'')
           (Some (Location 1 2 (Token NAME 1 2 (Some ''x'')) (Token NAME 1 2 (Some ''x''))
              (SourceInstance (Source ''$x'' ''GraphQL'')))))
        (Some (Location 0 2 (Token DOLLAR 0 1 None) (Token NAME 1 2 (Some ''x''))
              (SourceInstance (Source ''$x'' ''GraphQL''))))) =
     spanned (lexerPastSOF (SourceInstance (Source ''$x'' ''GraphQL''))
        \<lparr>noLocation = None\<rparr>
        (Token DOLLAR 0 1 None) [Token NAME 1 2 (Some ''x'')] 2)
      \<lparr> source = SourceInstance (Source ''$x'' ''GraphQL''), options = \<lparr>noLocation = None\<rparr>,
        lastToken = Token NAME 1 2 (Some ''x''), token = Token EOF 2 2 None,
        pending = [], ending = EndOfFile 2 \<rparr>"
proof -
  have located: "parseValue (tokensThenEOF tokens_variable 2) (JSString ''$x'') None =
     Inr (Variable
        (Name (Some ''x'')
           (Some (Location 1 2 (Token NAME 1 2 (Some ''x'')) (Token NAME 1 2 (Some ''x''))
              (SourceInstance (Source ''$x'' ''GraphQL'')))))
        (Some (Location 0 2 (Token DOLLAR 0 1 None) (Token NAME 1 2 (Some ''x''))
              (SourceInstance (Source ''$x'' ''GraphQL'')))))"
    by code_simp
  have bare: "parseValue (tokensThenEOF tokens_variable 2) (JSString ''$x'') withoutLocations =
     Inr (Variable (Name (Some ''x'') None) None)"
    by code_simp
  have typed: "parseType (tokensThenEOF tokens_listType 7) (JSString ''[Int!]!'') None =
     Inr (NonNullType
        (ListType
           (NonNullType
              (NamedType
                 (Name (Some ''Int'')
                    (Some (Location 1 4 (Token NAME 1 4 (Some ''Int''))
                       (Token NAME 1 4 (Some ''Int''))
              (SourceInstance (Source ''[Int!]!'' ''GraphQL'')))))
                 (Some (Location 1 4 (Token NAME 1 4 (Some ''Int''))
              (Token NAME 1 4 (Some ''Int''))
              (SourceInstance (Source ''[Int!]!'' ''GraphQL'')))))
              (Some (Location 1 5 (Token NAME 1 4 (Some ''Int'')) (Token BANG 4 5 None)
              (SourceInstance (Source ''[Int!]!'' ''GraphQL'')))))
           (Some (Location 0 6 (Token BRACKET_L 0 1 None) (Token BRACKET_R 5 6 None)
              (SourceInstance (Source ''[Int!]!'' ''GraphQL'')))))
        (Some (Location 0 7 (Token BRACKET_L 0 1 None) (Token BANG 6 7 None)
              (SourceInstance (Source ''[Int!]!'' ''GraphQL'')))))"
    by code_simp
  have document:
    "parse (tokensThenEOF tokens_shorthand 7) (JSString ''{ a b }'') withoutLocations =
     Inr (Document
        [OperationDefinition ''query'' None [] []
           (SelectionSet
              [Field None (Name (Some ''a'') None) [] [] None None,
               Field None (Name (Some ''b'') None) [] [] None None]
              None)
           None]
        None)"
    by code_simp
  have production:
    "parseVariable (lexerPastSOF (SourceInstance (Source ''$x'' ''GraphQL''))
        \<lparr>noLocation = None\<rparr>
        (Token DOLLAR 0 1 None) [Token NAME 1 2 (Some ''x'')] 2) =
     Inr (Variable
        (Name (Some ''x'')
           (Some (Location 1 2 (Token NAME 1 2 (Some ''x'')) (Token NAME 1 2 (Some ''x''))
              (SourceInstance (Source ''$x'' ''GraphQL'')))))
        (Some (Location 0 2 (Token DOLLAR 0 1 None) (Token NAME 1 2 (Some ''x''))
              (SourceInstance (Source ''$x'' ''GraphQL'')))),
      \<lparr> source = SourceInstance (Source ''$x'' ''GraphQL''), options = \<lparr>noLocation = None\<rparr>,
        lastToken = Token NAME 1 2 (Some ''x''), token = Token EOF 2 2 None,
        pending = [], ending = EndOfFile 2 \<rparr>)"
    by code_simp
  from C6_location_policy[THEN conjunct2, THEN conjunct1, rule_format, OF located]
    C6_location_policy[THEN conjunct2, THEN conjunct1, rule_format, OF bare]
    C6_location_policy[THEN conjunct2, THEN conjunct2, THEN conjunct1, rule_format, OF typed]
    C6_location_policy[THEN conjunct1, rule_format, OF document]
    C6_location_policy[THEN conjunct2, THEN conjunct2, THEN conjunct2, THEN conjunct2,
      THEN conjunct1,
      of "Location 0 2 (Token DOLLAR 0 1 None) (Token NAME 1 2 (Some ''x''))
              (SourceInstance (Source ''$x'' ''GraphQL''))"]
    C6_location_policy[THEN conjunct2, THEN conjunct2, THEN conjunct2, THEN conjunct2,
      THEN conjunct2, THEN conjunct2, THEN conjunct2, THEN conjunct2, THEN conjunct2,
      THEN conjunct2, THEN conjunct1,
      unfolded locates_def, rule_format, OF production]
    located bare typed document production
  show ?thesis
    by (simp add: orEmpty_def toSourceObj_def withoutLocations_def)
qed

section \<open>What the entry points accept\<close>

lemma valueLoc_in_valueLocs: "valueLoc v \<in> set (valueLocs v)"
  by (cases v) simp_all

lemma typeLoc_in_typeLocs: "typeLoc t \<in> set (typeLocs t)"
  by (cases t) simp_all

lemma locationPolicy_source:
  assumes "locationPolicy opts src l" "noLocation opts \<noteq> Some True"
  shows "\<exists>b. l = Some b \<and> locSource b = src"
proof (cases l)
  case None
  with assms show ?thesis by (simp add: locationPolicy_def)
next
  case (Some b)
  with assms have "b = Loc (startToken b) (endToken b) src"
    by (simp add: locationPolicy_def)
  then have "locSource b = locSource (Loc (startToken b) (endToken b) src)"
    by (rule arg_cong)
  with Some show ?thesis by (simp add: Loc_def)
qed

lemma parseValue_source:
  assumes "parseValue tokenize src opts = Inr node" "noLocation (orEmpty opts) \<noteq> Some True"
  shows "\<exists>l. valueLoc node = Some l \<and> locSource l = toSourceObj src"
proof -
  from parseValue_policy[OF assms(1)] valueLoc_in_valueLocs[of node]
  have "locationPolicy (orEmpty opts) (toSourceObj src) (valueLoc node)"
    unfolding allLocs_def by blast
  from locationPolicy_source[OF this assms(2)] show ?thesis .
qed

lemma parseType_source:
  assumes "parseType tokenize src opts = Inr node" "noLocation (orEmpty opts) \<noteq> Some True"
  shows "\<exists>l. typeLoc node = Some l \<and> locSource l = toSourceObj src"
proof -
  from parseType_policy[OF assms(1)] typeLoc_in_typeLocs[of node]
  have "locationPolicy (orEmpty opts) (toSourceObj src) (typeLoc node)"
    unfolding allLocs_def by blast
  from locationPolicy_source[OF this assms(2)] show ?thesis .
qed

text \<open>
  C9. Given a value that is neither a string nor a \<^verbatim>\<open>Source\<close>, \<^verbatim>\<open>parse\<close> throws the type
  error \<^verbatim>\<open>Must provide Source\<close>, whatever the lexer would read from the value; given a
  string or a \<^verbatim>\<open>Source\<close> it does not throw that error. \<^verbatim>\<open>parseValue\<close> and \<^verbatim>\<open>parseType\<close>
  throw that error on no input. All three wrap a string in a \<^verbatim>\<open>Source\<close>: they return on
  the string what they return on the \<^verbatim>\<open>Source\<close> of that body. \<^verbatim>\<open>parseValue\<close> and
  \<^verbatim>\<open>parseType\<close> hand a value that is not a string to the lexer as it is: when they return
  a node with locations, the source of its location is that very value. With a lexer
  that reads the tokens of \<^verbatim>\<open>[42]\<close> from an object that is not a \<^verbatim>\<open>Source\<close>,
  \<^verbatim>\<open>parseValue\<close> returns the list, located in that object, and \<^verbatim>\<open>parse\<close> throws the
  type error.
\<close>

theorem C9_only_parse_checks_its_input:
  "parse tokenize (OtherValue v) opts =
     Inl (TypeError (''Must provide Source. Received: '' @ v)) \<and>
   (\<forall>s r. parse tokenize (JSString s) opts \<noteq>
      Inl (TypeError (''Must provide Source. Received: '' @ r))) \<and>
   (\<forall>s r. parse tokenize (SourceInstance s) opts \<noteq>
      Inl (TypeError (''Must provide Source. Received: '' @ r))) \<and>
   (\<forall>r. parseValue tokenize src opts \<noteq>
      Inl (TypeError (''Must provide Source. Received: '' @ r))) \<and>
   (\<forall>r. parseType tokenize src opts \<noteq>
      Inl (TypeError (''Must provide Source. Received: '' @ r))) \<and>
   parse tokenize (JSString str) opts =
     parse tokenize (SourceInstance (Source str ''GraphQL'')) opts \<and>
   parseValue tokenize (JSString str) opts =
     parseValue tokenize (SourceInstance (Source str ''GraphQL'')) opts \<and>
   parseType tokenize (JSString str) opts =
     parseType tokenize (SourceInstance (Source str ''GraphQL'')) opts \<and>
   (\<forall>node. parseValue tokenize (OtherValue v) opts = Inr node \<and>
      noLocation (orEmpty opts) \<noteq> Some True \<longrightarrow>
      (\<exists>l. valueLoc node = Some l \<and> locSource l = OtherValue v)) \<and>
   (\<forall>node. parseType tokenize (OtherValue v) opts = Inr node \<and>
      noLocation (orEmpty opts) \<noteq> Some True \<longrightarrow>
      (\<exists>l. typeLoc node = Some l \<and> locSource l = OtherValue v)) \<and>
   parseValue (tokensThenEOF tokens_list42 4) (OtherValue ''[object Object]'') None =
     Inr (ListValue
            [IntValue (Some ''42'')
               (Some (Location 1 3 (Token INT' 1 3 (Some ''42'')) (Token INT' 1 3 (Some ''42''))
                        (OtherValue ''[object Object]'')))]
            (Some (Location 0 4 (Token BRACKET_L 0 1 None) (Token BRACKET_R 3 4 None)
                     (OtherValue ''[object Object]'')))) \<and>
   parse (tokensThenEOF tokens_list42 4) (OtherValue ''[object Object]'') None =
     Inl (TypeError ''Must provide Source. Received: [object Object]'')"
proof (intro conjI allI impI)
  show "parse tokenize (OtherValue v) opts =
     Inl (TypeError (''Must provide Source. Received: '' @ v))"
    by (simp add: parse_def toSourceObj_def instanceofSource_def String_def)
next
  fix s r
  show "parse tokenize (JSString s) opts \<noteq>
     Inl (TypeError (''Must provide Source. Received: '' @ r))"
    by (auto simp: toSourceObj_def instanceofSource_def dest!: parse_Inl)
next
  fix s r
  show "parse tokenize (SourceInstance s) opts \<noteq>
     Inl (TypeError (''Must provide Source. Received: '' @ r))"
    by (auto simp: toSourceObj_def instanceofSource_def dest!: parse_Inl)
next
  fix r
  show "parseValue tokenize src opts \<noteq>
     Inl (TypeError (''Must provide Source. Received: '' @ r))"
    by (auto dest: parseValue_Inl)
next
  fix r
  show "parseType tokenize src opts \<noteq>
     Inl (TypeError (''Must provide Source. Received: '' @ r))"
    by (auto dest: parseType_Inl)
next
  show "parse tokenize (JSString str) opts =
     parse tokenize (SourceInstance (Source str ''GraphQL'')) opts"
    by (simp add: parse_def toSourceObj_def)
next
  show "parseValue tokenize (JSString str) opts =
     parseValue tokenize (SourceInstance (Source str ''GraphQL'')) opts"
    by (simp add: parseValue_def toSourceObj_def)
next
  show "parseType tokenize (JSString str) opts =
     parseType tokenize (SourceInstance (Source str ''GraphQL'')) opts"
    by (simp add: parseType_def toSourceObj_def)
next
  fix node
  assume "parseValue tokenize (OtherValue v) opts = Inr node \<and>
      noLocation (orEmpty opts) \<noteq> Some True"
  then have run: "parseValue tokenize (OtherValue v) opts = Inr node"
    and located: "noLocation (orEmpty opts) \<noteq> Some True"
    by simp_all
  from parseValue_source[OF run located]
  show "\<exists>l. valueLoc node = Some l \<and> locSource l = OtherValue v"
    by (simp add: toSourceObj_def)
next
  fix node
  assume "parseType tokenize (OtherValue v) opts = Inr node \<and>
      noLocation (orEmpty opts) \<noteq> Some True"
  then have run: "parseType tokenize (OtherValue v) opts = Inr node"
    and located: "noLocation (orEmpty opts) \<noteq> Some True"
    by simp_all
  from parseType_source[OF run located]
  show "\<exists>l. typeLoc node = Some l \<and> locSource l = OtherValue v"
    by (simp add: toSourceObj_def)
next
  show "parseValue (tokensThenEOF tokens_list42 4) (OtherValue ''[object Object]'') None =
     Inr (ListValue
            [IntValue (Some ''42'')
               (Some (Location 1 3 (Token INT' 1 3 (Some ''42'')) (Token INT' 1 3 (Some ''42''))
                        (OtherValue ''[object Object]'')))]
            (Some (Location 0 4 (Token BRACKET_L 0 1 None) (Token BRACKET_R 3 4 None)
                     (OtherValue ''[object Object]''))))"
    by code_simp
next
  show "parse (tokensThenEOF tokens_list42 4) (OtherValue ''[object Object]'') None =
     Inl (TypeError ''Must provide Source. Received: [object Object]'')"
    by code_simp
qed

theorem C9_only_parse_checks_its_input_witness:
  "parseValue (tokensThenEOF tokens_list42 4) (OtherValue ''[object Object]'') None =
     Inr (ListValue
            [IntValue (Some ''42'')
               (Some (Location 1 3 (Token INT' 1 3 (Some ''42'')) (Token INT' 1 3 (Some ''42''))
                        (OtherValue ''[object Object]'')))]
            (Some (Location 0 4 (Token BRACKET_L 0 1 None) (Token BRACKET_R 3 4 None)
                     (OtherValue ''[object Object]'')))) \<and>
   parseType (tokensThenEOF tokens_listType 7) (OtherValue ''[object Object]'') None =
     Inr (NonNullType
            (ListType
               (NonNullType
                  (NamedType
                     (Name (Some ''Int'')
                        (Some (Location 1 4 (Token NAME 1 4 (Some ''Int''))
                                 (Token NAME 1 4 (Some ''Int''))
                                 (OtherValue ''[object Object]''))))
                     (Some (Location 1 4 (Token NAME 1 4 (Some ''Int''))
                              (Token NAME 1 4 (Some ''Int''))
                              (OtherValue ''[object Object]''))))
                  (Some (Location 1 5 (Token NAME 1 4 (Some ''Int'')) (Token BANG 4 5 None)
                           (OtherValue ''[object Object]''))))
               (Some (Location 0 6 (Token BRACKET_L 0 1 None) (Token BRACKET_R 5 6 None)
                        (OtherValue ''[object Object]''))))
            (Some (Location 0 7 (Token BRACKET_L 0 1 None) (Token BANG 6 7 None)
                     (OtherValue ''[object Object]'')))) \<and>
   noLocation (orEmpty None) \<noteq> Some True \<and>
   locSource (Location 0 7 (Token BRACKET_L 0 1 None) (Token BANG 6 7 None)
                (OtherValue ''[object Object]'')) = OtherValue ''[object Object]'' \<and>
   locSource (Location 0 4 (Token BRACKET_L 0 1 None) (Token BRACKET_R 3 4 None)
                (OtherValue ''[object Object]'')) = OtherValue ''[object Object]''"
proof -
  have typed:
    "parseType (tokensThenEOF tokens_listType 7) (OtherValue ''[object Object]'') None =
     Inr (NonNullType
            (ListType
               (NonNullType
                  (NamedType
                     (Name (Some ''Int'')
                        (Some (Location 1 4 (Token NAME 1 4 (Some ''Int''))
                                 (Token NAME 1 4 (Some ''Int''))
                                 (OtherValue ''[object Object]''))))
                     (Some (Location 1 4 (Token NAME 1 4 (Some ''Int''))
                              (Token NAME 1 4 (Some ''Int''))
                              (OtherValue ''[object Object]''))))
                  (Some (Location 1 5 (Token NAME 1 4 (Some ''Int'')) (Token BANG 4 5 None)
                           (OtherValue ''[object Object]''))))
               (Some (Location 0 6 (Token BRACKET_L 0 1 None) (Token BRACKET_R 5 6 None)
                        (OtherValue ''[object Object]''))))
            (Some (Location 0 7 (Token BRACKET_L 0 1 None) (Token BANG 6 7 None)
                     (OtherValue ''[object Object]''))))"
    by code_simp
  have valued:
    "parseValue (tokensThenEOF tokens_list42 4) (OtherValue ''[object Object]'') None =
      Inr (ListValue
             [IntValue (Some ''42'')
                (Some (Location 1 3 (Token INT' 1 3 (Some ''42'')) (Token INT' 1 3 (Some ''42''))
                         (OtherValue ''[object Object]'')))]
             (Some (Location 0 4 (Token BRACKET_L 0 1 None) (Token BRACKET_R 3 4 None)
                      (OtherValue ''[object Object]''))))"
    by code_simp
  have located: "noLocation (orEmpty None) \<noteq> Some True"
    by (simp add: orEmpty_def)
  from C9_only_parse_checks_its_input
      [of "tokensThenEOF tokens_listType 7" "''[object Object]''" None,
       THEN conjunct2, THEN conjunct2, THEN conjunct2, THEN conjunct2, THEN conjunct2,
       THEN conjunct2, THEN conjunct2, THEN conjunct2, THEN conjunct2, THEN conjunct1,
       rule_format, OF conjI, OF typed located]
    C9_only_parse_checks_its_input
      [of "tokensThenEOF tokens_list42 4" "''[object Object]''" None,
       THEN conjunct2, THEN conjunct2, THEN conjunct2, THEN conjunct2, THEN conjunct2,
       THEN conjunct2, THEN conjunct2, THEN conjunct2, THEN conjunct1,
       rule_format, OF conjI, OF valued located]
    typed valued located
  show ?thesis by simp
qed

end
